theory Spec2Isabelle
  imports Complex_Main "HOL-Library.Stream"
begin

section \<open>HotDog: the simulation core of the snake game\<close>

text \<open>
  The repository holds two variants of the same game component: \<^verbatim>\<open>src/index.tsx\<close> and
  \<^verbatim>\<open>src/unnamed/part_000\<close>. Both are embedded. A definition translated from
  \<^verbatim>\<open>src/index.tsx\<close> carries the source's name; the one translated from
  \<^verbatim>\<open>src/unnamed/part_000\<close> carries the same name with the suffix \<open>_p0\<close>.
  Code that is identical in both files (the types, \<open>getRandomPosition\<close>) is embedded once.

  Conventions of the embedding:
  \<^item> grid coordinates, scores, levels, tick intervals and \<^verbatim>\<open>Date.now()\<close> readings are
    integral JavaScript numbers and are modelled by \<open>int\<close>;
  \<^item> the countdown \<^verbatim>\<open>timeLeftRef\<close> and the frame time are fractional JavaScript numbers:
    they hold the rational value of a double, and every subtraction and division on them
    rounds its exact result to the nearest double;
  \<^item> a React state and the ref that mirrors it (\<^verbatim>\<open>score/scoreRef\<close>,
    \<^verbatim>\<open>level/levelRef\<close>, \<^verbatim>\<open>gameState/gameStateRef\<close>) are one field;
  \<^item> \<^verbatim>\<open>Math.random()\<close> reads the head of a stream of draws carried by the state; a draw
    is any rational \<open>r\<close> with \<open>0 \<le> r < 1\<close>, scaled to the grid and compared with the spawn
    thresholds without rounding; draws that only feed meshes and particles are not
    modelled, which merely re-indexes the stream;
  \<^item> meshes, particles, sound and camera are not part of the state.
\<close>

subsection \<open>JavaScript numbers\<close>

text \<open>A JavaScript number is an IEEE 754 binary64 value. A finite one is a rational
  \<open>m * 2 ^ e\<close> with \<open>\<bar>m\<bar> < 2 ^ 53\<close> and \<open>- 1074 \<le> e\<close>, and \<^verbatim>\<open>a - b\<close>, \<^verbatim>\<open>a / b\<close> and a
  decimal literal are the exact value rounded to the nearest such number, a tie going to
  the even \<open>m\<close>. Integers below \<open>2 ^ 53\<close> are exact. Results of magnitude \<open>2 ^ 1024\<close> and
  more (\<^verbatim>\<open>Infinity\<close>) are left out: the countdown starts at 25 and only falls, and
  the frame time counts milliseconds.

  \<open>exponent n a\<close> is \<open>\<lfloor>log\<^sub>2 a\<rfloor>\<close> for a positive \<open>a\<close>, found in at most \<open>n\<close> halvings or
  doublings; 1100 of them cover every double (below \<open>2 ^ - 1074\<close> the spacing no longer
  shrinks).\<close>

fun exponent :: "nat \<Rightarrow> rat \<Rightarrow> int" where
  "exponent 0 a = 0"
| "exponent (Suc n) a =
     (if 2 \<le> a then exponent n (a / 2) + 1
      else if a < 1 then exponent n (a * 2) - 1
      else 0)"

definition pow2 :: "int \<Rightarrow> rat" where
  "pow2 e = (if 0 \<le> e then 2 ^ nat e else 1 / 2 ^ nat (- e))"

definition roundHalfEven :: "rat \<Rightarrow> int" where
  "roundHalfEven q =
     (let f = \<lfloor>q\<rfloor>; d = q - of_int f
      in if d < 1 / 2 then f
         else if 1 / 2 < d then f + 1
         else if even f then f else f + 1)"

definition round_double :: "rat \<Rightarrow> rat" where
  "round_double q =
     (if q = 0 then 0
      else (let a = \<bar>q\<bar>;
                ulp = pow2 (max (exponent 1100 a - 52) (- 1074))
            in sgn q * of_int (roundHalfEven (a / ulp)) * ulp))"

text \<open>\<^verbatim>\<open>a - b\<close> and \<^verbatim>\<open>a / b\<close> on doubles.\<close>

definition double_sub :: "rat \<Rightarrow> rat \<Rightarrow> rat" where
  "double_sub a b = round_double (a - b)"

definition double_div :: "rat \<Rightarrow> rat \<Rightarrow> rat" where
  "double_div a b = round_double (a / b)"

subsection \<open>Constants and types\<close>

definition GRID_SIZE :: int where
  "GRID_SIZE = 30"

definition LEVEL_DURATION :: rat where
  "LEVEL_DURATION = 25"

datatype Position = Pos (px: int) (pz: int)

datatype GameState = START | PLAYING | PAUSED | LEVEL_TRANSITION | GAME_OVER

datatype PowerUpType = MUSTARD | GHOST | BURGER

datatype FoodType = HOTDOG | FRIES

text \<open>\<^verbatim>\<open>interface PowerUp { x; z; type }\<close> and \<^verbatim>\<open>interface FoodItem { x; z; type; mesh }\<close>
  (the mesh handle is left out).\<close>

datatype PowerUp = PowerUp (pu_pos: Position) (pu_type: PowerUpType)

datatype FoodItem = FoodItem (food_pos: Position) (food_type: FoodType)

datatype js_error = TypeError | SyntaxError

subsection \<open>The random source\<close>

text \<open>\<^verbatim>\<open>Math.random()\<close> returns a number \<open>r\<close> with \<open>0 \<le> r < 1\<close>; the type of a draw
  says so.\<close>

typedef unit_draw = "{r :: rat. 0 \<le> r \<and> r < 1}"
  by (rule exI [of _ 0]) simp

type_synonym rng = "unit_draw stream"

definition Math_random :: "rng \<Rightarrow> rat \<times> rng" where
  "Math_random g = (Rep_unit_draw (shd g), stl g)"

subsection \<open>\<open>getRandomPosition\<close> (both files)\<close>

text \<open>
  \<^verbatim>\<open>
  do {
    pos = { x: Math.floor(Math.random() * GRID_SIZE) - GRID_SIZE / 2,
            z: Math.floor(Math.random() * GRID_SIZE) - GRID_SIZE / 2 };
    tries++;
  } while (occupied.some(p => p.x === pos.x && p.z === pos.z) && tries < 100);
  return pos;
  \<close>
  \<open>candidate\<close> is the body's object literal, \<open>getRandomPosition_loop\<close> the do-while loop
  entered with the current value of \<open>tries\<close>; it returns the position, the remaining
  stream and the final value of \<open>tries\<close>.
\<close>

definition candidate :: "rng \<Rightarrow> Position \<times> rng" where
  "candidate g =
     (let (r1, g1) = Math_random g;
          (r2, g2) = Math_random g1
      in (Pos (\<lfloor>r1 * of_int GRID_SIZE\<rfloor> - GRID_SIZE div 2)
              (\<lfloor>r2 * of_int GRID_SIZE\<rfloor> - GRID_SIZE div 2), g2))"

definition is_occupied :: "Position list \<Rightarrow> Position \<Rightarrow> bool" where
  "is_occupied occupied pos = list_ex (\<lambda>p. px p = px pos \<and> pz p = pz pos) occupied"

function getRandomPosition_loop :: "Position list \<Rightarrow> nat \<Rightarrow> rng \<Rightarrow> Position \<times> rng \<times> nat" where
  "getRandomPosition_loop occupied tries g =
     (let (pos, g') = candidate g;
          tries' = tries + 1
      in if is_occupied occupied pos \<and> tries' < 100
         then getRandomPosition_loop occupied tries' g'
         else (pos, g', tries'))"
  by pat_completeness auto
termination
  by (relation "measure (\<lambda>(occupied, tries, g). 100 - tries)") auto

declare getRandomPosition_loop.simps [simp del]

definition getRandomPosition :: "Position list \<Rightarrow> rng \<Rightarrow> Position \<times> rng" where
  "getRandomPosition occupied g =
     (let (pos, g', tries) = getRandomPosition_loop occupied 0 g in (pos, g'))"

subsection \<open>The state of the component\<close>

text \<open>
  One field per \<^verbatim>\<open>useRef\<close>/\<^verbatim>\<open>useState\<close> cell that the simulation reads or writes.
  \<open>timeouts\<close> holds the callbacks registered with \<^verbatim>\<open>setTimeout\<close> that have not fired yet,
  each with the clock reading at which it becomes due; \<open>rand\<close> is the random source.
\<close>

datatype Timeout = SpawnFirework | AdvanceLevel

record game =
  gameState :: GameState
  score :: int
  level :: int
  timeLeft :: rat
  snake :: "Position list"
  direction :: Position
  moveQueue :: "Position list"
  foods :: "FoodItem list"
  powerUp :: "PowerUp option"
  ghostModeEndTime :: int
  speedBoostEndTime :: int
  dogPulseEndTime :: int
  lastMoveTime :: rat
  moveInterval :: int
  baseLevelSpeed :: int
  levelStartScore :: int
  timeouts :: "(int \<times> Timeout) list"
  rand :: rng

text \<open>\<^verbatim>\<open>Array.prototype.findIndex\<close>: the first index whose element satisfies the test,
  \<open>-1\<close> when there is none; \<^verbatim>\<open>splice(i, 1)\<close> removes the element at index \<open>i\<close>.\<close>

fun findIndex :: "('a \<Rightarrow> bool) \<Rightarrow> 'a list \<Rightarrow> int" where
  "findIndex P [] = - 1"
| "findIndex P (y # ys) =
     (if P y then 0 else (let i = findIndex P ys in if i = - 1 then - 1 else i + 1))"

definition splice1 :: "nat \<Rightarrow> 'a list \<Rightarrow> 'a list" where
  "splice1 i ys = take i ys @ drop (Suc i) ys"

subsection \<open>Spawner of \<^verbatim>\<open>src/index.tsx\<close>\<close>

text \<open>
  \<^verbatim>\<open>spawnPowerUp\<close>: \<^verbatim>\<open>occupied = [...snake, ...foods]\<close>, a position from
  \<open>getRandomPosition\<close>, the kind from one draw
  (\<^verbatim>\<open>rand < 0.4 ? 'MUSTARD' : rand < 0.7 ? 'GHOST' : 'BURGER'\<close>).
\<close>

definition spawnPowerUp :: "game \<Rightarrow> game" where
  "spawnPowerUp s =
     (let occupied = snake s @ map food_pos (foods s);
          (pos, g1) = getRandomPosition occupied (rand s);
          (r, g2) = Math_random g1;
          ty = (if r < 4 / 10 then MUSTARD else if r < 7 / 10 then GHOST else BURGER)
      in s\<lparr>powerUp := Some (PowerUp pos ty), rand := g2\<rparr>)"

text \<open>
  One iteration of the \<^verbatim>\<open>while (foodsRef.current.length < desiredCount)\<close> loop of
  \<^verbatim>\<open>spawnFood\<close>: the occupied cells are the snake, the foods and the power-up if there is
  one; 25 per cent of the foods are fries.
\<close>

definition spawnFood_body :: "game \<Rightarrow> game" where
  "spawnFood_body s =
     (let occupied = snake s @ map food_pos (foods s)
                     @ (case powerUp s of None \<Rightarrow> [] | Some p \<Rightarrow> [pu_pos p]);
          (pos, g1) = getRandomPosition occupied (rand s);
          (r, g2) = Math_random g1;
          isFries = (r < 25 / 100)
      in s\<lparr>foods := foods s @ [FoodItem pos (if isFries then FRIES else HOTDOG)], rand := g2\<rparr>)"

function spawnFood_loop :: "game \<Rightarrow> game" where
  "spawnFood_loop s =
     (if int (length (foods s)) < level s * 5 then spawnFood_loop (spawnFood_body s) else s)"
  by pat_completeness auto
termination
  by (relation "measure (\<lambda>s. nat (level s * 5 - int (length (foods s))))")
     (auto simp: spawnFood_body_def Let_def split: prod.splits)

declare spawnFood_loop.simps [simp del]

text \<open>\<^verbatim>\<open>spawnFood\<close>: fill up to \<^verbatim>\<open>levelRef.current * 5\<close> foods, then
  \<^verbatim>\<open>if (!powerUpRef.current && Math.random() < 0.3) spawnPowerUp()\<close>; the draw is made
  only when there is no power-up.\<close>

definition spawnFood :: "game \<Rightarrow> game" where
  "spawnFood s =
     (let s1 = spawnFood_loop s
      in case powerUp s1 of
           Some p \<Rightarrow> s1
         | None \<Rightarrow>
             (let (r, g1) = Math_random (rand s1)
              in if r < 3 / 10 then spawnPowerUp (s1\<lparr>rand := g1\<rparr>) else s1\<lparr>rand := g1\<rparr>))"

subsection \<open>Game control of \<^verbatim>\<open>src/index.tsx\<close>\<close>

definition resetGame :: "bool \<Rightarrow> game \<Rightarrow> game" where
  "resetGame fullReset s =
     (let s1 = s\<lparr>gameState := PLAYING\<rparr>;
          s2 = (if fullReset
                then s1\<lparr>score := 0, level := 1, timeLeft := LEVEL_DURATION,
                        moveInterval := 200, baseLevelSpeed := 200, levelStartScore := 0,
                        ghostModeEndTime := 0, speedBoostEndTime := 0\<rparr>
                else s1);
          s3 = s2\<lparr>direction := Pos 0 (- 1), moveQueue := [],
                  snake := [Pos 0 2, Pos 0 3, Pos 0 4],
                  foods := [], powerUp := None\<rparr>
      in spawnFood s3)"

definition startGame :: "game \<Rightarrow> game" where
  "startGame s = resetGame True s"

definition togglePause :: "game \<Rightarrow> game" where
  "togglePause s =
     (if gameState s = PLAYING then s\<lparr>gameState := PAUSED\<rparr>
      else if gameState s = PAUSED then s\<lparr>gameState := PLAYING\<rparr>
      else s)"

text \<open>\<^verbatim>\<open>nextLevel\<close> switches to \<open>LEVEL_TRANSITION\<close> and registers fifteen firework
  callbacks (after \<open>i * 300\<close> ms) and one callback after 4000 ms; \<open>now\<close> is the clock
  reading at the call.\<close>

definition nextLevel :: "int \<Rightarrow> game \<Rightarrow> game" where
  "nextLevel now s =
     s\<lparr>gameState := LEVEL_TRANSITION,
       timeouts := timeouts s
                   @ map (\<lambda>i. (now + int i * 300, SpawnFirework)) [0..<15]
                   @ [(now + 4000, AdvanceLevel)]\<rparr>"

text \<open>The body of the callback that \<^verbatim>\<open>nextLevel\<close> registers for 4000 ms later.\<close>

definition nextLevel_callback :: "game \<Rightarrow> game" where
  "nextLevel_callback s =
     (let s1 = s\<lparr>level := level s + 1\<rparr>;
          s2 = s1\<lparr>baseLevelSpeed := max 50 (baseLevelSpeed s1 - 15)\<rparr>;
          s3 = s2\<lparr>moveInterval := baseLevelSpeed s2\<rparr>;
          s4 = s3\<lparr>timeLeft := LEVEL_DURATION\<rparr>;
          s5 = s4\<lparr>levelStartScore := score s4\<rparr>
      in (resetGame False s5)\<lparr>gameState := PLAYING\<rparr>)"

definition retryLevel :: "game \<Rightarrow> game" where
  "retryLevel s =
     (let s1 = s\<lparr>score := levelStartScore s\<rparr>;
          s2 = s1\<lparr>timeLeft := LEVEL_DURATION\<rparr>;
          s3 = s2\<lparr>moveInterval := baseLevelSpeed s2\<rparr>
      in (resetGame False s3)\<lparr>gameState := PLAYING\<rparr>)"

subsection \<open>The tick of \<^verbatim>\<open>src/index.tsx\<close>\<close>

text \<open>
  \<^verbatim>\<open>updateGameLogic\<close> is split along the numbered comments of the source.
  \<open>now\<close> is the reading of \<^verbatim>\<open>Date.now()\<close> during the tick (the synchronous body of
  one tick is taken to see one reading).

  Step 1 takes the next direction from the queue.
\<close>

definition determineDirection :: "game \<Rightarrow> game" where
  "determineDirection s =
     (case moveQueue s of
        [] \<Rightarrow> s
      | d # rest \<Rightarrow> s\<lparr>direction := d, moveQueue := rest\<rparr>)"

definition nextHeadOf :: "Position \<Rightarrow> Position \<Rightarrow> Position" where
  "nextHeadOf currentHead d = Pos (px currentHead + px d) (pz currentHead + pz d)"

text \<open>Step 2: \<^verbatim>\<open>nextHead.x > GRID_SIZE / 2 || nextHead.x < -GRID_SIZE / 2 || ...\<close> and
  \<^verbatim>\<open>snake.some((segment, index) => index !== 0 && segment.x === nextHead.x && ...)\<close>.\<close>

definition hitWall :: "Position \<Rightarrow> bool" where
  "hitWall nextHead \<longleftrightarrow>
     px nextHead > GRID_SIZE div 2 \<or> px nextHead < - (GRID_SIZE div 2) \<or>
     pz nextHead > GRID_SIZE div 2 \<or> pz nextHead < - (GRID_SIZE div 2)"

definition hitSelf :: "Position list \<Rightarrow> Position \<Rightarrow> bool" where
  "hitSelf sn nextHead =
     list_ex (\<lambda>(index, segment). index \<noteq> 0 \<and> px segment = px nextHead \<and> pz segment = pz nextHead)
       (enumerate 0 sn)"

definition atCell :: "Position \<Rightarrow> FoodItem \<Rightarrow> bool" where
  "atCell nextHead f \<longleftrightarrow> px (food_pos f) = px nextHead \<and> pz (food_pos f) = pz nextHead"

text \<open>Steps 3 and 4: the new head is prepended; a food at the new head is eaten (points,
  tick interval, removal, \<^verbatim>\<open>spawnFood()\<close>), otherwise the tail is popped.\<close>

definition foodCollision :: "Position \<Rightarrow> game \<Rightarrow> game" where
  "foodCollision nextHead s =
     (let newSnake = nextHead # snake s;
          foodIndex = findIndex (atCell nextHead) (foods s)
      in if foodIndex \<noteq> - 1
         then (let eatenFood = foods s ! nat foodIndex;
                   points = (if food_type eatenFood = FRIES then 150 else 100);
                   s1 = s\<lparr>score := score s + points\<rparr>;
                   s2 = s1\<lparr>moveInterval := max 50 (moveInterval s1 - 2)\<rparr>;
                   s3 = s2\<lparr>foods := splice1 (nat foodIndex) (foods s2)\<rparr>;
                   s4 = spawnFood s3
               in s4\<lparr>snake := newSnake\<rparr>)
         else s\<lparr>snake := butlast newSnake\<rparr>)"

text \<open>Step 5: the power-up at the new head; 500 points are added before the kind is
  looked at.\<close>

definition powerUpCollision :: "int \<Rightarrow> Position \<Rightarrow> game \<Rightarrow> game" where
  "powerUpCollision now nextHead s =
     (case powerUp s of
        None \<Rightarrow> s
      | Some p \<Rightarrow>
          if px nextHead = px (pu_pos p) \<and> pz nextHead = pz (pu_pos p)
          then (let s1 = s\<lparr>score := score s + 500\<rparr>;
                    s2 = (case pu_type p of
                            MUSTARD \<Rightarrow> s1
                          | GHOST \<Rightarrow> s1\<lparr>ghostModeEndTime := now + 10000\<rparr>
                          | BURGER \<Rightarrow> s1\<lparr>speedBoostEndTime := now + 8000,
                                         dogPulseEndTime := now + 1000\<rparr>)
                in s2\<lparr>powerUp := None\<rparr>)
          else s)"

text \<open>Step 6: \<^verbatim>\<open>timeLeftRef.current -= moveIntervalRef.current / 1000\<close>, then
  \<^verbatim>\<open>nextLevel()\<close> when the countdown is not positive.\<close>

definition updateTimer :: "int \<Rightarrow> game \<Rightarrow> game" where
  "updateTimer now s =
     (let s1 = s\<lparr>timeLeft := double_sub (timeLeft s)
                                (double_div (of_int (moveInterval s)) 1000)\<rparr>
      in if timeLeft s1 \<le> 0 then nextLevel now s1 else s1)"

text \<open>\<^verbatim>\<open>snakeRef.current[0]\<close> of an empty snake is \<^verbatim>\<open>undefined\<close>, and reading its
  \<^verbatim>\<open>x\<close> throws a \<^verbatim>\<open>TypeError\<close>.\<close>

definition updateGameLogic :: "int \<Rightarrow> game \<Rightarrow> js_error + game" where
  "updateGameLogic now s0 =
     (let s = determineDirection s0
      in case snake s of
           [] \<Rightarrow> Inl TypeError
         | currentHead # _ \<Rightarrow>
             (let nextHead = nextHeadOf currentHead (direction s)
              in if hitWall nextHead \<or> (hitSelf (snake s) nextHead \<and> now > ghostModeEndTime s)
                 then Inr (s\<lparr>gameState := GAME_OVER\<rparr>)
                 else Inr (updateTimer now (powerUpCollision now nextHead (foodCollision nextHead s)))))"

text \<open>The simulation part of \<^verbatim>\<open>animate\<close> (identical in both files up to the tick it
  calls): a tick runs only while \<open>PLAYING\<close> and only when more than the effective interval
  has passed since the last tick.\<close>

definition currentInterval :: "int \<Rightarrow> game \<Rightarrow> int" where
  "currentInterval now s = (if now < speedBoostEndTime s then 60 else moveInterval s)"

definition animate :: "rat \<Rightarrow> int \<Rightarrow> game \<Rightarrow> js_error + game" where
  "animate time now s =
     (if gameState s = PLAYING
      then (let dt = double_sub time (lastMoveTime s)
            in if dt > of_int (currentInterval now s)
               then (case updateGameLogic now s of
                       Inl e \<Rightarrow> Inl e
                     | Inr s' \<Rightarrow> Inr (s'\<lparr>lastMoveTime := time\<rparr>))
               else Inr s)
      else Inr s)"

subsection \<open>Input of \<^verbatim>\<open>src/index.tsx\<close>\<close>

datatype KeyboardEvent = KeyboardEvent (ev_key: string) (ev_code: string)

text \<open>\<^verbatim>\<open>String.prototype.toLowerCase\<close> on the ASCII letters, which is all the key
  names compared below need.\<close>

definition toLowerCase :: "string \<Rightarrow> string" where
  "toLowerCase str =
     map (\<lambda>c. if 65 \<le> (of_char c :: nat) \<and> (of_char c :: nat) \<le> 90
               then char_of ((of_char c :: nat) + 32) else c) str"

definition keyDirection :: "string \<Rightarrow> Position option" where
  "keyDirection k =
     (if k = ''arrowup'' \<or> k = ''w'' then Some (Pos 0 (- 1))
      else if k = ''arrowdown'' \<or> k = ''s'' then Some (Pos 0 1)
      else if k = ''arrowleft'' \<or> k = ''a'' then Some (Pos (- 1) 0)
      else if k = ''arrowright'' \<or> k = ''d'' then Some (Pos 1 0)
      else None)"

text \<open>The part of \<^verbatim>\<open>handleKeyDown\<close> under \<^verbatim>\<open>if (nextDir)\<close>: the request is compared
  with the last queued move, or the current direction when the queue is empty.\<close>

definition enqueueDirection :: "Position \<Rightarrow> game \<Rightarrow> game" where
  "enqueueDirection nextDir s =
     (let lastMove = (if length (moveQueue s) > 0 then last (moveQueue s) else direction s)
      in if px nextDir \<noteq> - px lastMove \<or> pz nextDir \<noteq> - pz lastMove
         then (if length (moveQueue s) < 3
               then s\<lparr>moveQueue := moveQueue s @ [nextDir]\<rparr>
               else s)
         else s)"

text \<open>\<^verbatim>\<open>F4\<close> toggles the mute flag, which is not part of the state.\<close>

definition handleKeyDown :: "KeyboardEvent \<Rightarrow> game \<Rightarrow> game" where
  "handleKeyDown e s =
     (if ev_key e = ''F2'' then startGame s
      else if ev_key e = ''F3'' then togglePause s
      else if ev_key e = ''F4'' then s
      else if ev_key e = ''Escape'' then togglePause s
      else if gameState s = START \<or> gameState s = GAME_OVER
      then (if ev_code e = ''Space'' \<or> ev_key e = ''Enter'' \<or> ev_key e = ''F1''
            then startGame s else s)
      else if gameState s \<noteq> PLAYING then s
      else (case keyDirection (toLowerCase (ev_key e)) of
              None \<Rightarrow> s
            | Some nextDir \<Rightarrow> enqueueDirection nextDir s))"

text \<open>The four buttons of the touch overlay:
  \<^verbatim>\<open>onPointerDown={() => moveQueueRef.current.push({ x: 0, z: -1 })}\<close> and so on.\<close>

datatype TouchButton = ChevronUp | ChevronLeft | ChevronDown | ChevronRight

definition touchDirection :: "TouchButton \<Rightarrow> Position" where
  "touchDirection b =
     (case b of
        ChevronUp \<Rightarrow> Pos 0 (- 1)
      | ChevronLeft \<Rightarrow> Pos (- 1) 0
      | ChevronDown \<Rightarrow> Pos 0 1
      | ChevronRight \<Rightarrow> Pos 1 0)"

definition onPointerDown :: "TouchButton \<Rightarrow> game \<Rightarrow> game" where
  "onPointerDown b s = s\<lparr>moveQueue := moveQueue s @ [touchDirection b]\<rparr>"

subsection \<open>Spawner and game control of \<^verbatim>\<open>src/unnamed/part_000\<close>\<close>

text \<open>
  \<^verbatim>\<open>spawnFood(count)\<close> runs its body \<open>count\<close> times; the body (occupied cells, position,
  25 per cent fries, push) is the code of \<open>spawnFood_body\<close> above.
\<close>

fun spawnFood_p0 :: "nat \<Rightarrow> game \<Rightarrow> game" where
  "spawnFood_p0 0 s = s"
| "spawnFood_p0 (Suc n) s = spawnFood_p0 n (spawnFood_body s)"

text \<open>
  \<^verbatim>\<open>spawnPowerUp\<close>: \<^verbatim>\<open>if (Math.random() > 0.3) return;\<close>, then a position off the snake
  and the foods and \<^verbatim>\<open>types[Math.floor(Math.random() * types.length)]\<close>. A draw lies in
  \<open>[0, 1)\<close>, so the index is 0, 1 or 2. An existing power-up is replaced.
\<close>

definition spawnPowerUp_p0 :: "game \<Rightarrow> game" where
  "spawnPowerUp_p0 s =
     (let (r, g1) = Math_random (rand s)
      in if r > 3 / 10 then s\<lparr>rand := g1\<rparr>
         else (let occupied = snake s @ map food_pos (foods s);
                   (pos, g2) = getRandomPosition occupied g1;
                   (r2, g3) = Math_random g2;
                   ty = [MUSTARD, GHOST, BURGER] ! nat \<lfloor>r2 * 3\<rfloor>
               in s\<lparr>powerUp := Some (PowerUp pos ty), rand := g3\<rparr>))"

definition resetGame_p0 :: "int \<Rightarrow> game \<Rightarrow> game" where
  "resetGame_p0 lvl s =
     (let s1 = s\<lparr>level := lvl\<rparr>;
          s2 = (if lvl = 1 then s1\<lparr>score := 0, levelStartScore := 0\<rparr>
                else s1\<lparr>levelStartScore := score s1\<rparr>);
          s3 = s2\<lparr>snake := [Pos 0 0], direction := Pos 0 (- 1), moveQueue := []\<rparr>;
          s4 = s3\<lparr>timeLeft := LEVEL_DURATION\<rparr>;
          s5 = s4\<lparr>baseLevelSpeed := max 80 (200 - (lvl - 1) * 20)\<rparr>;
          s6 = s5\<lparr>moveInterval := baseLevelSpeed s5\<rparr>;
          s7 = s6\<lparr>ghostModeEndTime := 0, speedBoostEndTime := 0, dogPulseEndTime := 0\<rparr>;
          s8 = s7\<lparr>foods := []\<rparr>
      in spawnFood_p0 (nat (lvl * 5)) s8)"

definition startGame_p0 :: "game \<Rightarrow> game" where
  "startGame_p0 s = resetGame_p0 1 (s\<lparr>gameState := PLAYING\<rparr>)"

definition startLevel_p0 :: "int \<Rightarrow> game \<Rightarrow> game" where
  "startLevel_p0 lvl s = resetGame_p0 lvl (s\<lparr>gameState := PLAYING\<rparr>)"

definition retryLevel_p0 :: "game \<Rightarrow> game" where
  "retryLevel_p0 s =
     (let s1 = s\<lparr>gameState := PLAYING\<rparr>;
          s2 = s1\<lparr>score := levelStartScore s1\<rparr>;
          s3 = s2\<lparr>snake := [Pos 0 0], direction := Pos 0 (- 1), moveQueue := []\<rparr>;
          s4 = s3\<lparr>timeLeft := LEVEL_DURATION\<rparr>;
          s5 = s4\<lparr>moveInterval := baseLevelSpeed s4\<rparr>;
          s6 = s5\<lparr>foods := []\<rparr>
      in spawnFood_p0 (nat (level s6 * 5)) s6)"

definition triggerCrash_p0 :: "game \<Rightarrow> game" where
  "triggerCrash_p0 s = s\<lparr>gameState := GAME_OVER\<rparr>"

text \<open>\<^verbatim>\<open>finishLevel\<close> registers five firework callbacks and, for 3000 ms later,
  \<^verbatim>\<open>() => startLevel(levelRef.current + 1)\<close>.\<close>

definition finishLevel_p0 :: "int \<Rightarrow> game \<Rightarrow> game" where
  "finishLevel_p0 now s =
     s\<lparr>gameState := LEVEL_TRANSITION,
       timeouts := timeouts s
                   @ map (\<lambda>i. (now + int i * 300, SpawnFirework)) [0..<5]
                   @ [(now + 3000, AdvanceLevel)]\<rparr>"

definition finishLevel_callback_p0 :: "game \<Rightarrow> game" where
  "finishLevel_callback_p0 s = startLevel_p0 (level s + 1) s"

subsection \<open>The tick of \<^verbatim>\<open>src/unnamed/part_000\<close>\<close>

definition hitWall_p0 :: "Position \<Rightarrow> bool" where
  "hitWall_p0 newHead \<longleftrightarrow>
     px newHead < - (GRID_SIZE div 2) \<or> px newHead \<ge> GRID_SIZE div 2 \<or>
     pz newHead < - (GRID_SIZE div 2) \<or> pz newHead \<ge> GRID_SIZE div 2"

text \<open>\<^verbatim>\<open>snake.some((p, i) => i !== snake.length - 1 && p.x === newHead.x && p.z === newHead.z)\<close>:
  the last segment is left out of the test.\<close>

definition hitSelf_p0 :: "Position list \<Rightarrow> Position \<Rightarrow> bool" where
  "hitSelf_p0 sn newHead =
     list_ex (\<lambda>(i, p). int i \<noteq> int (length sn) - 1 \<and> px p = px newHead \<and> pz p = pz newHead)
       (enumerate 0 sn)"

definition handlePowerUp_p0 :: "int \<Rightarrow> PowerUpType \<Rightarrow> game \<Rightarrow> game" where
  "handlePowerUp_p0 now ty s =
     (case ty of
        MUSTARD \<Rightarrow> s\<lparr>score := score s + 500\<rparr>
      | GHOST \<Rightarrow> s\<lparr>ghostModeEndTime := now + 10000, score := score s + 200\<rparr>
      | BURGER \<Rightarrow> s\<lparr>score := score s + 300, speedBoostEndTime := now + 8000,
                     dogPulseEndTime := now + 2000\<rparr>)"

text \<open>"Eat Food": returns the state and the flag \<^verbatim>\<open>grown\<close>.\<close>

definition eatFood_p0 :: "Position \<Rightarrow> game \<Rightarrow> game \<times> bool" where
  "eatFood_p0 newHead s =
     (let foodIndex = findIndex (atCell newHead) (foods s)
      in if foodIndex \<noteq> - 1
         then (let eatenFood = foods s ! nat foodIndex;
                   s1 = (if food_type eatenFood = FRIES then s\<lparr>score := score s + 150\<rparr>
                         else s\<lparr>score := score s + 100\<rparr>);
                   s2 = s1\<lparr>moveInterval := max 50 (moveInterval s1 - 2)\<rparr>;
                   s3 = s2\<lparr>foods := splice1 (nat foodIndex) (foods s2)\<rparr>;
                   s4 = spawnFood_p0 1 s3;
                   s5 = spawnPowerUp_p0 s4
               in (s5, True))
         else (s, False))"

text \<open>"Eat PowerUp".\<close>

definition eatPowerUp_p0 :: "int \<Rightarrow> Position \<Rightarrow> game \<Rightarrow> game" where
  "eatPowerUp_p0 now newHead s =
     (case powerUp s of
        None \<Rightarrow> s
      | Some p \<Rightarrow>
          if px newHead = px (pu_pos p) \<and> pz newHead = pz (pu_pos p)
          then (handlePowerUp_p0 now (pu_type p) s)\<lparr>powerUp := None\<rparr>
          else s)"

text \<open>"Timer Logic": \<^verbatim>\<open>timeLeftRef.current -= 0.1\<close>, the literal being the double nearest to
  one tenth.\<close>

definition timerLogic_p0 :: "rat \<Rightarrow> rat" where
  "timerLogic_p0 t = double_sub t (round_double (1 / 10))"

definition updateGameLogic_p0 :: "int \<Rightarrow> game \<Rightarrow> js_error + game" where
  "updateGameLogic_p0 now s0 =
     (let st = s0\<lparr>timeLeft := timerLogic_p0 (timeLeft s0)\<rparr>
      in if timeLeft st \<le> 0 then Inr (finishLevel_p0 now st)
         else (let s = determineDirection st
               in case snake s of
                    [] \<Rightarrow> Inl TypeError
                  | head # _ \<Rightarrow>
                      (let newHead = nextHeadOf head (direction s)
                       in if hitWall_p0 newHead then Inr (triggerCrash_p0 s)
                          else (let isGhost = (now < ghostModeEndTime s)
                                in if \<not> isGhost \<and> hitSelf_p0 (snake s) newHead
                                   then Inr (triggerCrash_p0 s)
                                   else (let newSnake = newHead # snake s;
                                             (s1, grown) = eatFood_p0 newHead s;
                                             s2 = eatPowerUp_p0 now newHead s1
                                         in Inr (s2\<lparr>snake := (if grown then newSnake
                                                               else butlast newSnake)\<rparr>))))))"

definition animate_p0 :: "rat \<Rightarrow> int \<Rightarrow> game \<Rightarrow> js_error + game" where
  "animate_p0 time now s =
     (if gameState s = PLAYING
      then (let dt = double_sub time (lastMoveTime s)
            in if dt > of_int (currentInterval now s)
               then (case updateGameLogic_p0 now s of
                       Inl e \<Rightarrow> Inl e
                     | Inr s' \<Rightarrow> Inr (s'\<lparr>lastMoveTime := time\<rparr>))
               else Inr s)
      else Inr s)"

subsection \<open>Firing a registered callback\<close>

text \<open>What runs when a registered callback fires: \<^verbatim>\<open>spawnFirework\<close> only creates
  particles; the other callback is the level-up.\<close>

definition runTimeout :: "Timeout \<Rightarrow> game \<Rightarrow> game" where
  "runTimeout t s = (case t of SpawnFirework \<Rightarrow> s | AdvanceLevel \<Rightarrow> nextLevel_callback s)"

definition runTimeout_p0 :: "Timeout \<Rightarrow> game \<Rightarrow> game" where
  "runTimeout_p0 t s = (case t of SpawnFirework \<Rightarrow> s | AdvanceLevel \<Rightarrow> finishLevel_callback_p0 s)"

subsection \<open>Start-up: loading the leaderboard (both files)\<close>

text \<open>
  \<^verbatim>\<open>
  const stored = localStorage.getItem('hotdog_highscores');
  if (stored) setHighScores(JSON.parse(stored));
  \<close>
  \<^verbatim>\<open>JSON.parse\<close> is a function of the platform. It is modelled by a lexer and a parser for
  the JSON grammar (ECMA-404): the result is the syntax tree of the text, with numbers and
  strings kept as they are written, or the \<^verbatim>\<open>SyntaxError\<close> that \<^verbatim>\<open>JSON.parse\<close> throws on a
  text outside the grammar. Both run over their input one symbol at a time.
\<close>

datatype json =
  JNull | JBool bool | JNumber string | JString string
  | JArray "json list" | JObject "(string \<times> json) list"

datatype token =
  TLBrace | TRBrace | TLBrack | TRBrack | TColon | TComma
  | TString string | TNumber string | TTrue | TFalse | TNull

datatype numstage = Minus | Zero | IntDigits | Dot | FracDigits | Exp | ExpSign | ExpDigits

datatype lexstate =
  Start | InString string | InEscape string | InUnicode nat string
  | InNumber numstage string | InLiteral string token

definition isDigit :: "char \<Rightarrow> bool" where
  "isDigit c \<longleftrightarrow> 48 \<le> (of_char c :: nat) \<and> (of_char c :: nat) \<le> 57"

definition isHex :: "char \<Rightarrow> bool" where
  "isHex c \<longleftrightarrow> isDigit c \<or> (65 \<le> (of_char c :: nat) \<and> (of_char c :: nat) \<le> 70)
                \<or> (97 \<le> (of_char c :: nat) \<and> (of_char c :: nat) \<le> 102)"

definition isWs :: "char \<Rightarrow> bool" where
  "isWs c \<longleftrightarrow> c = CHR 0x20 \<or> c = CHR 0x09 \<or> c = CHR 0x0A \<or> c = CHR 0x0D"

definition numStep :: "numstage \<Rightarrow> char \<Rightarrow> numstage option" where
  "numStep stage c =
     (case stage of
        Minus \<Rightarrow> if c = CHR ''0'' then Some Zero else if isDigit c then Some IntDigits else None
      | Zero \<Rightarrow> if c = CHR ''.'' then Some Dot
                else if c = CHR ''e'' \<or> c = CHR ''E'' then Some Exp else None
      | IntDigits \<Rightarrow> if isDigit c then Some IntDigits else if c = CHR ''.'' then Some Dot
                else if c = CHR ''e'' \<or> c = CHR ''E'' then Some Exp else None
      | Dot \<Rightarrow> if isDigit c then Some FracDigits else None
      | FracDigits \<Rightarrow> if isDigit c then Some FracDigits
                else if c = CHR ''e'' \<or> c = CHR ''E'' then Some Exp else None
      | Exp \<Rightarrow> if c = CHR ''+'' \<or> c = CHR ''-'' then Some ExpSign
                else if isDigit c then Some ExpDigits else None
      | ExpSign \<Rightarrow> if isDigit c then Some ExpDigits else None
      | ExpDigits \<Rightarrow> if isDigit c then Some ExpDigits else None)"

definition numComplete :: "numstage \<Rightarrow> bool" where
  "numComplete stage \<longleftrightarrow> stage = Zero \<or> stage = IntDigits \<or> stage = FracDigits \<or> stage = ExpDigits"

text \<open>What the lexer does with the character \<open>c\<close> between two tokens: the tokens it emits
  and its next state, or nothing when no token can start with \<open>c\<close>.\<close>

definition startChar :: "char \<Rightarrow> (token list \<times> lexstate) option" where
  "startChar c =
     (if isWs c then Some ([], Start)
      else if c = CHR ''{'' then Some ([TLBrace], Start)
      else if c = CHR ''}'' then Some ([TRBrace], Start)
      else if c = CHR ''['' then Some ([TLBrack], Start)
      else if c = CHR '']'' then Some ([TRBrack], Start)
      else if c = CHR '':'' then Some ([TColon], Start)
      else if c = CHR '','' then Some ([TComma], Start)
      else if c = CHR 0x22 then Some ([], InString [])
      else if c = CHR ''-'' then Some ([], InNumber Minus [c])
      else if c = CHR ''0'' then Some ([], InNumber Zero [c])
      else if isDigit c then Some ([], InNumber IntDigits [c])
      else if c = CHR ''t'' then Some ([], InLiteral ''rue'' TTrue)
      else if c = CHR ''f'' then Some ([], InLiteral ''alse'' TFalse)
      else if c = CHR ''n'' then Some ([], InLiteral ''ull'' TNull)
      else None)"

definition lexStep :: "lexstate \<Rightarrow> char \<Rightarrow> (token list \<times> lexstate) option" where
  "lexStep st c =
     (case st of
        Start \<Rightarrow> startChar c
      | InString acc \<Rightarrow>
          if c = CHR 0x22 then Some ([TString acc], Start)
          else if c = CHR 0x5C then Some ([], InEscape (acc @ [c]))
          else if (of_char c :: nat) < 32 then None
          else Some ([], InString (acc @ [c]))
      | InEscape acc \<Rightarrow>
          if c \<in> set [CHR 0x22, CHR 0x5C, CHR ''/'', CHR ''b'', CHR ''f'', CHR ''n'', CHR ''r'', CHR ''t'']
          then Some ([], InString (acc @ [c]))
          else if c = CHR ''u'' then Some ([], InUnicode 4 (acc @ [c]))
          else None
      | InUnicode n acc \<Rightarrow>
          if isHex c
          then (if n \<le> 1 then Some ([], InString (acc @ [c]))
                else Some ([], InUnicode (n - 1) (acc @ [c])))
          else None
      | InNumber stage acc \<Rightarrow>
          (case numStep stage c of
             Some stage' \<Rightarrow> Some ([], InNumber stage' (acc @ [c]))
           | None \<Rightarrow>
               if numComplete stage
               then (case startChar c of
                       None \<Rightarrow> None
                     | Some (emit, st') \<Rightarrow> Some (TNumber acc # emit, st'))
               else None)
      | InLiteral expected tok \<Rightarrow>
          (case expected of
             [] \<Rightarrow> None
           | e # es \<Rightarrow>
               if c = e then (if es = [] then Some ([tok], Start) else Some ([], InLiteral es tok))
               else None))"

fun lex :: "lexstate \<Rightarrow> string \<Rightarrow> token list option" where
  "lex st [] =
     (case st of
        Start \<Rightarrow> Some []
      | InNumber stage acc \<Rightarrow> if numComplete stage then Some [TNumber acc] else None
      | _ \<Rightarrow> None)"
| "lex st (c # cs) =
     (case lexStep st c of
        None \<Rightarrow> None
      | Some (emit, st') \<Rightarrow> map_option (\<lambda>ts. emit @ ts) (lex st' cs))"

text \<open>The parser keeps a stack of the arrays and objects that are open.\<close>

datatype frame =
  ArrFrame "json list" | ObjOpen "(string \<times> json) list" | ObjKey "(string \<times> json) list" string

datatype mode = Value | ValueOrClose | KeyOrClose | Key | Colon | Done json

definition scalar :: "token \<Rightarrow> json option" where
  "scalar t =
     (case t of
        TString str \<Rightarrow> Some (JString str)
      | TNumber str \<Rightarrow> Some (JNumber str)
      | TTrue \<Rightarrow> Some (JBool True)
      | TFalse \<Rightarrow> Some (JBool False)
      | TNull \<Rightarrow> Some JNull
      | _ \<Rightarrow> None)"

definition valueStart :: "frame list \<Rightarrow> token \<Rightarrow> (mode \<times> frame list) option" where
  "valueStart stack t =
     (case t of
        TLBrack \<Rightarrow> Some (ValueOrClose, ArrFrame [] # stack)
      | TLBrace \<Rightarrow> Some (KeyOrClose, ObjOpen [] # stack)
      | _ \<Rightarrow> (case scalar t of None \<Rightarrow> None | Some v \<Rightarrow> Some (Done v, stack)))"

definition parseStep :: "mode \<Rightarrow> frame list \<Rightarrow> token \<Rightarrow> (mode \<times> frame list) option" where
  "parseStep m stack t =
     (case m of
        Value \<Rightarrow> valueStart stack t
      | ValueOrClose \<Rightarrow>
          (case (stack, t) of
             (ArrFrame els # rest, TRBrack) \<Rightarrow> Some (Done (JArray els), rest)
           | _ \<Rightarrow> valueStart stack t)
      | KeyOrClose \<Rightarrow>
          (case (stack, t) of
             (ObjOpen ms # rest, TRBrace) \<Rightarrow> Some (Done (JObject ms), rest)
           | (ObjOpen ms # rest, TString k) \<Rightarrow> Some (Colon, ObjKey ms k # rest)
           | _ \<Rightarrow> None)
      | Key \<Rightarrow>
          (case (stack, t) of
             (ObjOpen ms # rest, TString k) \<Rightarrow> Some (Colon, ObjKey ms k # rest)
           | _ \<Rightarrow> None)
      | Colon \<Rightarrow> (case t of TColon \<Rightarrow> Some (Value, stack) | _ \<Rightarrow> None)
      | Done v \<Rightarrow>
          (case (stack, t) of
             (ArrFrame els # rest, TComma) \<Rightarrow> Some (Value, ArrFrame (els @ [v]) # rest)
           | (ArrFrame els # rest, TRBrack) \<Rightarrow> Some (Done (JArray (els @ [v])), rest)
           | (ObjKey ms k # rest, TComma) \<Rightarrow> Some (Key, ObjOpen (ms @ [(k, v)]) # rest)
           | (ObjKey ms k # rest, TRBrace) \<Rightarrow> Some (Done (JObject (ms @ [(k, v)])), rest)
           | _ \<Rightarrow> None))"

fun parse :: "mode \<Rightarrow> frame list \<Rightarrow> token list \<Rightarrow> json option" where
  "parse m stack [] = (case (m, stack) of (Done v, []) \<Rightarrow> Some v | _ \<Rightarrow> None)"
| "parse m stack (t # ts) =
     (case parseStep m stack t of
        None \<Rightarrow> None
      | Some (m', stack') \<Rightarrow> parse m' stack' ts)"

definition JSON_parse :: "string \<Rightarrow> js_error + json" where
  "JSON_parse text =
     (case lex Start text of
        None \<Rightarrow> Inl SyntaxError
      | Some ts \<Rightarrow> (case parse Value [] ts of None \<Rightarrow> Inl SyntaxError | Some v \<Rightarrow> Inr v))"

text \<open>
  The first two statements of the initialization effect. \<^verbatim>\<open>getItem\<close> returns \<^verbatim>\<open>null\<close>
  (\<open>None\<close>) for an absent key; \<^verbatim>\<open>null\<close> and the empty string are falsy. \<open>Inr hs\<close>: the
  statements completed with the state \<^verbatim>\<open>highScores\<close> equal to \<open>hs\<close> (\<open>[]\<close> is its initial
  value) and the effect goes on to build the scene and to start the frame loop; \<open>Inl e\<close>:
  \<open>e\<close> was thrown, nothing catches it, and the rest of the effect does not run.
\<close>

definition initialization :: "string option \<Rightarrow> js_error + json" where
  "initialization stored =
     (case stored of
        None \<Rightarrow> Inr (JArray [])
      | Some str \<Rightarrow> if str = [] then Inr (JArray []) else JSON_parse str)"

subsection \<open>Vocabulary of the properties\<close>

text \<open>The cells that \<open>getRandomPosition\<close> can return: both coordinates in \<open>[-15, 14]\<close>.\<close>

definition onGrid :: "Position \<Rightarrow> bool" where
  "onGrid p \<longleftrightarrow> - 15 \<le> px p \<and> px p \<le> 14 \<and> - 15 \<le> pz p \<and> pz p \<le> 14"

text \<open>The points that the power-up step adds when a power-up lies on the cell \<open>c\<close>.\<close>

definition bonus :: "Position \<Rightarrow> game \<Rightarrow> int" where
  "bonus c s = (case powerUp s of None \<Rightarrow> 0 | Some p \<Rightarrow> if pu_pos p = c then 500 else 0)"

definition bonus_p0 :: "Position \<Rightarrow> game \<Rightarrow> int" where
  "bonus_p0 c s =
     (case powerUp s of
        None \<Rightarrow> 0
      | Some p \<Rightarrow> if pu_pos p = c
                  then (case pu_type p of MUSTARD \<Rightarrow> 500 | GHOST \<Rightarrow> 200 | BURGER \<Rightarrow> 300)
                  else 0)"

text \<open>No element of the queue is the exact negation of the one before it, the current
  direction standing before the first.\<close>

fun noReversal :: "Position \<Rightarrow> Position list \<Rightarrow> bool" where
  "noReversal d [] = True"
| "noReversal d (y # ys) = ((px y \<noteq> - px d \<or> pz y \<noteq> - pz d) \<and> noReversal y ys)"

subsection \<open>Sample inputs\<close>

text \<open>Two draws, and the values of the refs when the component is mounted
  (\<^verbatim>\<open>useRef(...)\<close>, \<^verbatim>\<open>useState(...)\<close>).\<close>

definition half :: unit_draw where
  "half = Abs_unit_draw (1 / 2)"

definition tenth :: unit_draw where
  "tenth = Abs_unit_draw (1 / 10)"

definition initialState :: "rng \<Rightarrow> game" where
  "initialState g =
     \<lparr>gameState = START, score = 0, level = 1, timeLeft = LEVEL_DURATION,
      snake = [Pos 0 0], direction = Pos 0 (- 1), moveQueue = [], foods = [],
      powerUp = None, ghostModeEndTime = 0, speedBoostEndTime = 0, dogPulseEndTime = 0,
      lastMoveTime = 0, moveInterval = 200, baseLevelSpeed = 200, levelStartScore = 0,
      timeouts = [], rand = g\<rparr>"

text \<open>A level-1 position as \<^verbatim>\<open>resetGame\<close> of \<^verbatim>\<open>src/index.tsx\<close> leaves the snake, with
  five foods; \<open>ghostAhead\<close> adds a ghost power-up on the cell in front of the head.\<close>

definition fiveFoods :: "FoodItem list" where
  "fiveFoods = [FoodItem (Pos (- 5) (- 5)) HOTDOG, FoodItem (Pos (- 4) 7) FRIES,
                FoodItem (Pos 3 (- 9)) HOTDOG, FoodItem (Pos 8 8) HOTDOG,
                FoodItem (Pos (- 12) (- 12)) HOTDOG]"

definition playState :: game where
  "playState = (initialState (sconst half))
     \<lparr>gameState := PLAYING, snake := [Pos 0 2, Pos 0 3, Pos 0 4], foods := fiveFoods\<rparr>"

definition ghostAhead :: game where
  "ghostAhead = playState\<lparr>powerUp := Some (PowerUp (Pos 0 1) GHOST)\<rparr>"

text \<open>Two coiled snakes about to turn onto their own body: the head at \<open>(0, 0)\<close> has
  just moved left and the queued move turns it to \<open>(0, 1)\<close>. In \<open>coiled5\<close> that cell is the
  fourth of five segments, in \<open>coiled4\<close> it is the tail.\<close>

definition coiled5 :: game where
  "coiled5 = playState
     \<lparr>snake := [Pos 0 0, Pos 1 0, Pos 1 1, Pos 0 1, Pos (- 1) 1],
      direction := Pos (- 1) 0, moveQueue := [Pos 0 1]\<rparr>"

definition coiled4 :: game where
  "coiled4 = playState
     \<lparr>snake := [Pos 0 0, Pos 1 0, Pos 1 1, Pos 0 1],
      direction := Pos (- 1) 0, moveQueue := [Pos 0 1]\<rparr>"

text \<open>The snake of \<open>playState\<close> moved to the right-hand edge: head at \<open>(14, 0)\<close>, heading
  right.\<close>

definition edgeState :: game where
  "edgeState = playState\<lparr>snake := [Pos 14 0, Pos 13 0, Pos 12 0], direction := Pos 1 0\<rparr>"

text \<open>The snake of \<open>playState\<close> one cell below the hotdog at \<open>(-12, -12)\<close>, heading for it,
  with a given random source.\<close>

definition foodAhead :: "rng \<Rightarrow> game" where
  "foodAhead g = playState
     \<lparr>snake := [Pos (- 12) (- 11), Pos (- 12) (- 10), Pos (- 12) (- 9)], rand := g\<rparr>"

text \<open>Draws that make the tick of \<open>foodAhead\<close> eat the hotdog, put the replacement on
  \<open>(0, 0)\<close> and spawn a burger power-up on the cell the head has just entered.\<close>

definition nineTenths :: unit_draw where
  "nineTenths = Abs_unit_draw (9 / 10)"

definition burgerDraws :: rng where
  "burgerDraws = half ## half ## half ## tenth ## tenth ## tenth ## nineTenths ## sconst half"

text \<open>\<open>playState\<close> with the speed boost active until the clock reads 9000, and \<open>playState\<close>
  with a sixteenth of a second left on the countdown.\<close>

definition boosted :: game where
  "boosted = playState\<lparr>speedBoostEndTime := 9000\<rparr>"

definition nearlyDone :: game where
  "nearlyDone = playState\<lparr>timeLeft := 1 / 16\<rparr>"

text \<open>A run that ended at the clock reading 5000 with score 700 (300 at the start of the
  level), the tick interval tightened to 186, and both the speed boost (until 9000) and
  the invulnerability (until 12000) still running.\<close>

definition crashedBoosted :: game where
  "crashedBoosted = playState
     \<lparr>gameState := GAME_OVER, score := 700, levelStartScore := 300, moveInterval := 186,
      ghostModeEndTime := 12000, speedBoostEndTime := 9000\<rparr>"

text \<open>The text that \<^verbatim>\<open>JSON.stringify\<close> writes for the leaderboard
  \<^verbatim>\<open>[{name: 'AB', score: 100}]\<close>.\<close>

definition quoted :: "string \<Rightarrow> string" where
  "quoted str = CHR 0x22 # str @ [CHR 0x22]"

definition storedScores :: string where
  "storedScores = ''[{'' @ quoted ''name'' @ '':'' @ quoted ''AB'' @ '','' @ quoted ''score''
                   @ '':100}]''"

section \<open>Properties\<close>

subsection \<open>Evaluating the sample inputs\<close>

text \<open>The equations that \<open>simp\<close> needs to run the model on the sample inputs.\<close>

lemma Rep_half [simp]: "Rep_unit_draw half = 1 / 2"
  by (simp add: half_def Abs_unit_draw_inverse)

lemma Rep_tenth [simp]: "Rep_unit_draw tenth = 1 / 10"
  by (simp add: tenth_def Abs_unit_draw_inverse)

lemma Rep_nineTenths [simp]: "Rep_unit_draw nineTenths = 9 / 10"
  by (simp add: nineTenths_def Abs_unit_draw_inverse)

text \<open>Running \<open>round_double\<close>: the search for the exponent one step at a time, and the
  floor of a quotient of numerals.\<close>

lemma exponent_halve:
  "2 \<le> a \<Longrightarrow> exponent (numeral k) a = exponent (pred_numeral k) (a / 2) + 1"
  by (subst numeral_eq_Suc) simp

lemma exponent_double:
  "a < 1 \<Longrightarrow> exponent (numeral k) a = exponent (pred_numeral k) (a * 2) - 1"
  by (subst numeral_eq_Suc) simp

lemma exponent_found:
  "1 \<le> a \<Longrightarrow> a < 2 \<Longrightarrow> exponent (numeral k) a = 0"
  by (subst numeral_eq_Suc) simp

lemma floor_rat_numeral:
  "\<lfloor>(numeral a / numeral b :: rat)\<rfloor> = numeral a div numeral b"
  using floor_divide_of_int_eq [where ?'a = rat, of "numeral a" "numeral b"] by simp

lemmas double_defs = round_double_def double_sub_def double_div_def pow2_def
  roundHalfEven_def Let_def exponent_halve exponent_double exponent_found floor_rat_numeral

lemma timerLogic_p0_start: "0 < timerLogic_p0 25"
  by (simp add: timerLogic_p0_def double_defs)

lemma candidate_half: "candidate (sconst half) = (Pos 0 0, sconst half)"
  by (simp add: candidate_def Math_random_def GRID_SIZE_def)

lemmas sample_defs = playState_def initialState_def fiveFoods_def LEVEL_DURATION_def
  GRID_SIZE_def determineDirection_def nextHeadOf_def atCell_def
  hitWall_def hitWall_p0_def

lemmas spawn_defs = spawnFood_def spawnFood_loop.simps spawnFood_body_def spawnPowerUp_def
  spawnPowerUp_p0_def getRandomPosition_def getRandomPosition_loop.simps candidate_def
  Math_random_def is_occupied_def splice1_def

lemmas json_defs = JSON_parse_def lexStep_def startChar_def numStep_def numComplete_def
  isDigit_def isHex_def isWs_def parseStep_def valueStart_def scalar_def quoted_def

subsection \<open>Rounding to doubles\<close>

lemma pow2_pos: "0 < pow2 e"
  by (simp add: pow2_def)

lemma pow2_Suc: "pow2 (e + 1) = 2 * pow2 e"
proof (cases "0 \<le> e")
  case True
  then show ?thesis by (simp add: pow2_def nat_add_distrib)
next
  case False
  then have "nat (- e) = Suc (nat (- (e + 1)))" by simp
  then show ?thesis using False by (simp add: pow2_def)
qed

lemma pow2_pred: "pow2 (e - 1) = pow2 e / 2"
  using pow2_Suc [of "e - 1"] by simp

lemma pow2_nat_ge_1: "1 \<le> pow2 (int n)"
  by (simp add: pow2_def)

lemma pow2_neg_le_1: "pow2 (- int n) \<le> 1"
  by (cases n) (simp_all add: pow2_def)

text \<open>\<open>exponent n a\<close> is the binary exponent of \<open>a\<close> as long as \<open>a\<close> lies between \<open>2 ^ - n\<close> and
  \<open>2 ^ n\<close>.\<close>

lemma exponent_bounds:
  "pow2 (- int n) \<le> a \<Longrightarrow> a < pow2 (int n) \<Longrightarrow>
     pow2 (exponent n a) \<le> a \<and> a < pow2 (exponent n a + 1)"
proof (induction n arbitrary: a)
  case 0
  then show ?case by (simp add: pow2_def)
next
  case (Suc n)
  consider (big) "2 \<le> a" | (small) "a < 1" | (mid) "1 \<le> a" "a < 2" by linarith
  then show ?case
  proof cases
    case big
    have "pow2 (- int n) \<le> a / 2" using big pow2_neg_le_1 [of n] by simp
    moreover have "a / 2 < pow2 (int n)"
      using Suc.prems(2) pow2_Suc [of "int n"] by (simp add: add.commute)
    ultimately have "pow2 (exponent n (a / 2)) \<le> a / 2 \<and> a / 2 < pow2 (exponent n (a / 2) + 1)"
      by (rule Suc.IH)
    then show ?thesis
      using big pow2_Suc [of "exponent n (a / 2)"] pow2_Suc [of "exponent n (a / 2) + 1"]
      by (simp add: add.commute)
  next
    case small
    show ?thesis
    proof (cases n)
      case 0
      then show ?thesis using small Suc.prems by (simp add: pow2_def)
    next
      case (Suc m)
      have e: "- int (Suc n) = - int n - 1" by simp
      have "pow2 (- int n - 1) \<le> a" using Suc.prems(1) unfolding e .
      moreover have "pow2 (- int n) = 2 * pow2 (- int n - 1)"
        using pow2_Suc [of "- int n - 1"] by simp
      ultimately have "pow2 (- int n) \<le> a * 2" by simp
      moreover have "a * 2 < pow2 (int n)"
        using small Suc pow2_Suc [of "int m"] pow2_nat_ge_1 [of m] by (simp add: add.commute)
      ultimately have "pow2 (exponent n (a * 2)) \<le> a * 2 \<and> a * 2 < pow2 (exponent n (a * 2) + 1)"
        by (rule Suc.IH)
      then show ?thesis
        using small pow2_pred [of "exponent n (a * 2)"] pow2_Suc [of "exponent n (a * 2)"]
        by simp
    qed
  next
    case mid
    then show ?thesis by (simp add: pow2_def)
  qed
qed

text \<open>\<open>roundHalfEven\<close> returns a nearest integer, and \<open>round_double\<close> a nearest multiple of
  the spacing at its argument.\<close>

lemma roundHalfEven_nearest: "\<bar>of_int (roundHalfEven q) - q\<bar> \<le> 1 / 2"
proof -
  have "of_int \<lfloor>q\<rfloor> \<le> q" "q < of_int \<lfloor>q\<rfloor> + 1" by linarith+
  then show ?thesis by (auto simp: roundHalfEven_def Let_def)
qed

lemma round_double_nearest:
  assumes "ulp = pow2 (max (exponent 1100 \<bar>q\<bar> - 52) (- 1074))"
  shows "(\<exists>m. round_double q = of_int m * ulp) \<and> \<bar>round_double q - q\<bar> \<le> ulp / 2"
proof (cases "q = 0")
  case True
  then show ?thesis using pow2_pos [of "max (exponent 1100 \<bar>q\<bar> - 52) (- 1074)"] assms
    by (auto simp: round_double_def intro: exI [of _ 0])
next
  case False
  have u: "0 < ulp" unfolding assms by (rule pow2_pos)
  define m where "m = roundHalfEven (\<bar>q\<bar> / ulp)"
  have r: "round_double q = sgn q * of_int m * ulp"
    using False by (simp add: round_double_def Let_def m_def assms)
  have "\<bar>of_int m - \<bar>q\<bar> / ulp\<bar> \<le> 1 / 2" unfolding m_def by (rule roundHalfEven_nearest)
  then have "\<bar>of_int m - \<bar>q\<bar> / ulp\<bar> * ulp \<le> 1 / 2 * ulp"
    using u by (simp add: mult_right_mono)
  moreover have "(of_int m - \<bar>q\<bar> / ulp) * ulp = of_int m * ulp - \<bar>q\<bar>"
    using u by (simp add: left_diff_distrib)
  then have "\<bar>of_int m * ulp - \<bar>q\<bar>\<bar> = \<bar>of_int m - \<bar>q\<bar> / ulp\<bar> * ulp"
    using u by (metis abs_mult abs_of_pos)
  ultimately have d: "\<bar>of_int m * ulp - \<bar>q\<bar>\<bar> \<le> ulp / 2" by simp
  have "round_double q = of_int (if 0 < q then m else - m) * ulp"
    unfolding r using False by (simp add: sgn_if)
  moreover have "\<bar>round_double q - q\<bar> = \<bar>of_int m * ulp - \<bar>q\<bar>\<bar>"
    unfolding r using False by (cases "0 < q") (simp_all add: sgn_if abs_minus_commute)
  ultimately show ?thesis using d by auto
qed

text \<open>The doubles of the first tick of a level: \<^verbatim>\<open>0.1\<close>, \<^verbatim>\<open>200 / 1000\<close>, \<^verbatim>\<open>25 - 0.1\<close> and
  \<^verbatim>\<open>25 - 200 / 1000\<close>.\<close>

lemma first_tick_doubles:
  "round_double (1 / 10) = 3602879701896397 / 2 ^ 55 \<and>
   double_div 200 1000 = 3602879701896397 / 2 ^ 54 \<and>
   timerLogic_p0 25 = 3504363460047667 / 2 ^ 47 \<and>
   double_sub 25 (double_div 200 1000) = 6980579422424269 / 2 ^ 48"
  by (simp add: timerLogic_p0_def double_defs)

subsection \<open>The placement search\<close>

lemma Math_random_range: "0 \<le> fst (Math_random g) \<and> fst (Math_random g) < 1"
  using Rep_unit_draw [of "shd g"] by (simp add: Math_random_def)

lemma floor_draw_range:
  fixes r :: rat
  assumes "0 \<le> r \<and> r < 1"
  shows "0 \<le> \<lfloor>r * 30\<rfloor> \<and> \<lfloor>r * 30\<rfloor> \<le> 29"
proof -
  have "0 \<le> r * 30" using assms by simp
  moreover have "r * 30 < 30" using assms by simp
  ultimately show ?thesis by (simp add: floor_less_iff le_floor_iff)
qed

lemma candidate_range:
  "- 15 \<le> px (fst (candidate g)) \<and> px (fst (candidate g)) \<le> 14 \<and>
   - 15 \<le> pz (fst (candidate g)) \<and> pz (fst (candidate g)) \<le> 14"
  using floor_draw_range [OF Math_random_range [of g]]
        floor_draw_range [OF Math_random_range [of "snd (Math_random g)"]]
  by (simp add: candidate_def GRID_SIZE_def case_prod_beta)

lemma candidate_rest: "snd (candidate g) = stl (stl g)"
  by (simp add: candidate_def Math_random_def case_prod_beta)

lemma loop_props:
  "tries < 100 \<Longrightarrow> getRandomPosition_loop occupied tries g = (pos, g', n) \<Longrightarrow>
     tries < n \<and> n \<le> 100 \<and>
     - 15 \<le> px pos \<and> px pos \<le> 14 \<and> - 15 \<le> pz pos \<and> pz pos \<le> 14 \<and>
     (is_occupied occupied pos \<longrightarrow> n = 100) \<and>
     g' = sdrop (2 * (n - tries)) g \<and>
     pos = fst (candidate (sdrop (2 * (n - tries - 1)) g))"
proof (induction occupied tries g rule: getRandomPosition_loop.induct)
  case (1 occupied tries g)
  obtain c gc where c: "candidate g = (c, gc)" by (cases "candidate g")
  have gc: "gc = sdrop 2 g" using candidate_rest [of g] c by (simp add: numeral_2_eq_2)
  have unfold: "getRandomPosition_loop occupied tries g =
      (if is_occupied occupied c \<and> tries + 1 < 100
       then getRandomPosition_loop occupied (tries + 1) gc else (c, gc, tries + 1))"
    by (subst getRandomPosition_loop.simps) (simp add: c)
  show ?case
  proof (cases "is_occupied occupied c \<and> tries + 1 < 100")
    case True
    from "1.prems"(2) True
    have rec: "getRandomPosition_loop occupied (tries + 1) gc = (pos, g', n)"
      unfolding unfold by simp
    from True have lt: "tries + 1 < 100" by simp
    have ih: "tries + 1 < n \<and> n \<le> 100 \<and>
     - 15 \<le> px pos \<and> px pos \<le> 14 \<and> - 15 \<le> pz pos \<and> pz pos \<le> 14 \<and>
     (is_occupied occupied pos \<longrightarrow> n = 100) \<and>
     g' = sdrop (2 * (n - (tries + 1))) gc \<and>
     pos = fst (candidate (sdrop (2 * (n - (tries + 1) - 1)) gc))"
      by (rule "1.IH" [OF refl c [symmetric] refl True lt rec])
    have a1: "2 * (n - (tries + 1)) + 2 = 2 * (n - tries)" using ih by arith
    have a2: "2 * (n - (tries + 1) - 1) + 2 = 2 * (n - tries - 1)" using ih by arith
    have e1: "sdrop (2 * (n - (tries + 1))) gc = sdrop (2 * (n - tries)) g"
      unfolding gc sdrop_add by (simp only: add.commute [of 2] a1)
    have e2: "sdrop (2 * (n - (tries + 1) - 1)) gc = sdrop (2 * (n - tries - 1)) g"
      unfolding gc sdrop_add by (simp only: add.commute [of 2] a2)
    from ih have "tries < n" by arith
    with ih show ?thesis unfolding e1 e2 by blast
  next
    case False
    from "1.prems"(2) False have res: "pos = c \<and> g' = gc \<and> n = tries + 1"
      unfolding unfold by (auto split: if_splits)
    have r: "- 15 \<le> px c \<and> px c \<le> 14 \<and> - 15 \<le> pz c \<and> pz c \<le> 14"
      using candidate_range [of g] c by simp
    have o: "is_occupied occupied c \<longrightarrow> tries + 1 = 100" using False "1.prems"(1) by arith
    have l: "c = fst (candidate (sdrop (2 * (tries + 1 - tries - 1)) g))" using c by simp
    have d: "gc = sdrop (2 * (tries + 1 - tries)) g" using gc by simp
    show ?thesis using res r o l d "1.prems"(1) by simp
  qed
qed

lemma getRandomPosition_loop_total:
  "\<exists>pos g' n. getRandomPosition_loop occupied tries g = (pos, g', n)"
  by (cases "getRandomPosition_loop occupied tries g") blast

lemma getRandomPosition_onGrid: "onGrid (fst (getRandomPosition occupied g))"
proof -
  obtain pos g' n where r: "getRandomPosition_loop occupied 0 g = (pos, g', n)"
    by (cases "getRandomPosition_loop occupied 0 g")
  have "(0::nat) < 100" by simp
  from loop_props [OF this r] have "onGrid pos" unfolding onGrid_def by blast
  with r show ?thesis by (simp add: getRandomPosition_def)
qed

lemma spawnFood_body_frame:
  "\<exists>f g. spawnFood_body s = s\<lparr>foods := foods s @ [f], rand := g\<rparr> \<and> onGrid (food_pos f)"
  unfolding spawnFood_body_def Let_def case_prod_beta
  using getRandomPosition_onGrid by (intro exI conjI) (rule refl, simp)

lemma spawnPowerUp_frame:
  "\<exists>p g. spawnPowerUp s = s\<lparr>powerUp := Some p, rand := g\<rparr> \<and> onGrid (pu_pos p)"
  unfolding spawnPowerUp_def Let_def case_prod_beta
  using getRandomPosition_onGrid by (intro exI conjI) (rule refl, simp)

lemma spawnFood_loop_frame:
  "\<exists>new g. spawnFood_loop s = s\<lparr>foods := foods s @ new, rand := g\<rparr> \<and>
      list_all (\<lambda>f. onGrid (food_pos f)) new \<and>
      int (length new) = max 0 (level s * 5 - int (length (foods s)))"
proof (induction s rule: spawnFood_loop.induct)
  case (1 s)
  show ?case
  proof (cases "int (length (foods s)) < level s * 5")
    case True
    obtain f g where b: "spawnFood_body s = s\<lparr>foods := foods s @ [f], rand := g\<rparr>"
      and f: "onGrid (food_pos f)" using spawnFood_body_frame by blast
    from "1.IH" [OF True] obtain new g' where
      l: "spawnFood_loop (spawnFood_body s) =
            (spawnFood_body s)\<lparr>foods := foods (spawnFood_body s) @ new, rand := g'\<rparr>"
      and n: "list_all (\<lambda>f. onGrid (food_pos f)) new"
      and c: "int (length new) =
            max 0 (level (spawnFood_body s) * 5 - int (length (foods (spawnFood_body s))))"
      by blast
    have u: "spawnFood_loop s = spawnFood_loop (spawnFood_body s)"
      using True by (subst spawnFood_loop.simps) simp
    have "spawnFood_loop s = s\<lparr>foods := foods s @ (f # new), rand := g'\<rparr>"
      using l unfolding u b by simp
    moreover have "list_all (\<lambda>f. onGrid (food_pos f)) (f # new)" using f n by simp
    moreover have "int (length (f # new)) = max 0 (level s * 5 - int (length (foods s)))"
      using c True unfolding b by simp
    ultimately show ?thesis by blast
  next
    case False
    have "spawnFood_loop s = s" using False by (subst spawnFood_loop.simps) simp
    then have "spawnFood_loop s = s\<lparr>foods := foods s @ [], rand := rand s\<rparr>" by simp
    moreover have "int (length ([] :: FoodItem list)) = max 0 (level s * 5 - int (length (foods s)))"
      using False by simp
    moreover have "list_all (\<lambda>f. onGrid (food_pos f)) ([] :: FoodItem list)" by simp
    ultimately show ?thesis by blast
  qed
qed

lemma spawnFood_frame:
  "\<exists>new pu g. spawnFood s = s\<lparr>foods := foods s @ new, powerUp := pu, rand := g\<rparr> \<and>
      list_all (\<lambda>f. onGrid (food_pos f)) new \<and>
      int (length new) = max 0 (level s * 5 - int (length (foods s))) \<and>
      (pu = powerUp s \<or> (powerUp s = None \<and> (\<exists>p. pu = Some p \<and> onGrid (pu_pos p))))"
proof -
  obtain new g where l: "spawnFood_loop s = s\<lparr>foods := foods s @ new, rand := g\<rparr>"
    and n: "list_all (\<lambda>f. onGrid (food_pos f)) new"
    and c: "int (length new) = max 0 (level s * 5 - int (length (foods s)))"
    using spawnFood_loop_frame by blast
  show ?thesis
  proof (cases "powerUp s")
    case (Some p)
    then have "spawnFood s = s\<lparr>foods := foods s @ new, powerUp := powerUp s, rand := g\<rparr>"
      by (simp add: spawnFood_def l)
    with n c show ?thesis by blast
  next
    case None
    let ?g1 = "snd (Math_random g)"
    let ?s1 = "s\<lparr>foods := foods s @ new, rand := ?g1\<rparr>"
    show ?thesis
    proof (cases "fst (Math_random g) < 3 / 10")
      case True
      obtain p g2 where sp: "spawnPowerUp ?s1 = ?s1\<lparr>powerUp := Some p, rand := g2\<rparr>"
        and p: "onGrid (pu_pos p)" using spawnPowerUp_frame by blast
      have "spawnFood s = s\<lparr>foods := foods s @ new, powerUp := Some p, rand := g2\<rparr>"
        using None True by (simp add: spawnFood_def l case_prod_beta sp)
      with n c p None show ?thesis by blast
    next
      case False
      have "spawnFood s = s\<lparr>foods := foods s @ new, powerUp := powerUp s, rand := ?g1\<rparr>"
        using None False by (simp add: spawnFood_def l case_prod_beta)
      with n c show ?thesis by blast
    qed
  qed
qed

lemma spawnFood_p0_frame:
  "\<exists>new g. spawnFood_p0 n s = s\<lparr>foods := foods s @ new, rand := g\<rparr> \<and>
      list_all (\<lambda>f. onGrid (food_pos f)) new \<and> length new = n"
proof (induction n arbitrary: s)
  case 0
  have "spawnFood_p0 0 s = s\<lparr>foods := foods s @ [], rand := rand s\<rparr>" by simp
  moreover have "list_all (\<lambda>f. onGrid (food_pos f)) ([] :: FoodItem list)" by simp
  ultimately show ?case by (metis list.size(3))
next
  case (Suc n)
  obtain f g where b: "spawnFood_body s = s\<lparr>foods := foods s @ [f], rand := g\<rparr>"
    and f: "onGrid (food_pos f)" using spawnFood_body_frame by blast
  from Suc.IH [of "spawnFood_body s"] obtain new g' where
    l: "spawnFood_p0 n (spawnFood_body s) =
          (spawnFood_body s)\<lparr>foods := foods (spawnFood_body s) @ new, rand := g'\<rparr>"
    and n: "list_all (\<lambda>f. onGrid (food_pos f)) new" and c: "length new = n"
    by blast
  have "spawnFood_p0 (Suc n) s = s\<lparr>foods := foods s @ (f # new), rand := g'\<rparr>"
    using l by (simp add: b)
  moreover have "list_all (\<lambda>f. onGrid (food_pos f)) (f # new)" using f n by simp
  moreover have "length (f # new) = Suc n" using c by simp
  ultimately show ?case by blast
qed

lemma spawnPowerUp_p0_frame:
  "\<exists>pu g. spawnPowerUp_p0 s = s\<lparr>powerUp := pu, rand := g\<rparr> \<and>
      (pu = powerUp s \<or> (\<exists>p. pu = Some p \<and> onGrid (pu_pos p)))"
proof (cases "fst (Math_random (rand s)) > 3 / 10")
  case True
  then have "spawnPowerUp_p0 s = s\<lparr>powerUp := powerUp s, rand := snd (Math_random (rand s))\<rparr>"
    by (simp add: spawnPowerUp_p0_def case_prod_beta)
  then show ?thesis by blast
next
  case False
  let ?occ = "snake s @ map food_pos (foods s)"
  let ?gp = "getRandomPosition ?occ (snd (Math_random (rand s)))"
  let ?p = "PowerUp (fst ?gp) ([MUSTARD, GHOST, BURGER] ! nat \<lfloor>fst (Math_random (snd ?gp)) * 3\<rfloor>)"
  from False have "spawnPowerUp_p0 s = s\<lparr>powerUp := Some ?p, rand := snd (Math_random (snd ?gp))\<rparr>"
    by (simp add: spawnPowerUp_p0_def case_prod_beta Let_def)
  moreover have "onGrid (pu_pos ?p)" using getRandomPosition_onGrid by simp
  ultimately show ?thesis by blast
qed

text \<open>
  Claim C10. For every list of occupied cells and every random source, the search of
  \<open>getRandomPosition\<close> ends after \<open>n\<close> iterations with \<open>1 \<le> n \<le> 100\<close> (the function is
  total, and \<open>n\<close> is the final value of \<^verbatim>\<open>tries\<close>); it has consumed \<open>2 * n\<close> draws and
  returns the candidate of its last iteration; a returned cell that is occupied means
  that all 100 tries were used; both coordinates of the result lie in \<open>[-15, 14]\<close>.
  Consequently every food and every power-up that the spawners of either file place lies
  on a cell with coordinates in \<open>[-15, 14]\<close>, never on \<open>x = 15\<close> or \<open>z = 15\<close>.
\<close>

theorem getRandomPosition_bounded_search:
  "(\<exists>pos g' n. getRandomPosition_loop occupied 0 g = (pos, g', n) \<and>
        getRandomPosition occupied g = (pos, g') \<and>
        1 \<le> n \<and> n \<le> 100 \<and>
        g' = sdrop (2 * n) g \<and> pos = fst (candidate (sdrop (2 * (n - 1)) g)) \<and>
        (is_occupied occupied pos \<longrightarrow> n = 100) \<and>
        - 15 \<le> px pos \<and> px pos \<le> 14 \<and> - 15 \<le> pz pos \<and> pz pos \<le> 14) \<and>
   (\<exists>new pu g1. spawnFood s = s\<lparr>foods := foods s @ new, powerUp := pu, rand := g1\<rparr> \<and>
        list_all (\<lambda>f. onGrid (food_pos f)) new \<and>
        (pu = powerUp s \<or> (\<exists>p. pu = Some p \<and> onGrid (pu_pos p)))) \<and>
   (\<exists>p g1. spawnPowerUp s = s\<lparr>powerUp := Some p, rand := g1\<rparr> \<and> onGrid (pu_pos p)) \<and>
   (\<exists>new g1. spawnFood_p0 k s = s\<lparr>foods := foods s @ new, rand := g1\<rparr> \<and>
        list_all (\<lambda>f. onGrid (food_pos f)) new) \<and>
   (\<exists>pu g1. spawnPowerUp_p0 s = s\<lparr>powerUp := pu, rand := g1\<rparr> \<and>
        (pu = powerUp s \<or> (\<exists>p. pu = Some p \<and> onGrid (pu_pos p))))"
proof (intro conjI)
  obtain pos g' n where r: "getRandomPosition_loop occupied 0 g = (pos, g', n)"
    by (cases "getRandomPosition_loop occupied 0 g")
  have z: "(0::nat) < 100" by simp
  note p = loop_props [OF z r]
  have "getRandomPosition occupied g = (pos, g')" by (simp add: getRandomPosition_def r)
  moreover have "1 \<le> n" using p by arith
  moreover have "g' = sdrop (2 * n) g" using p by (metis diff_zero)
  moreover have "pos = fst (candidate (sdrop (2 * (n - 1)) g))" using p by (metis diff_zero)
  ultimately show "\<exists>pos g' n. getRandomPosition_loop occupied 0 g = (pos, g', n) \<and>
        getRandomPosition occupied g = (pos, g') \<and>
        1 \<le> n \<and> n \<le> 100 \<and>
        g' = sdrop (2 * n) g \<and> pos = fst (candidate (sdrop (2 * (n - 1)) g)) \<and>
        (is_occupied occupied pos \<longrightarrow> n = 100) \<and>
        - 15 \<le> px pos \<and> px pos \<le> 14 \<and> - 15 \<le> pz pos \<and> pz pos \<le> 14"
    using r p by blast
next
  show "\<exists>new pu g1. spawnFood s = s\<lparr>foods := foods s @ new, powerUp := pu, rand := g1\<rparr> \<and>
        list_all (\<lambda>f. onGrid (food_pos f)) new \<and>
        (pu = powerUp s \<or> (\<exists>p. pu = Some p \<and> onGrid (pu_pos p)))"
    using spawnFood_frame [of s] by blast
next
  show "\<exists>p g1. spawnPowerUp s = s\<lparr>powerUp := Some p, rand := g1\<rparr> \<and> onGrid (pu_pos p)"
    by (rule spawnPowerUp_frame)
next
  show "\<exists>new g1. spawnFood_p0 k s = s\<lparr>foods := foods s @ new, rand := g1\<rparr> \<and>
        list_all (\<lambda>f. onGrid (food_pos f)) new"
    using spawnFood_p0_frame [of k s] by blast
next
  show "\<exists>pu g1. spawnPowerUp_p0 s = s\<lparr>powerUp := pu, rand := g1\<rparr> \<and>
        (pu = powerUp s \<or> (\<exists>p. pu = Some p \<and> onGrid (pu_pos p)))"
    by (rule spawnPowerUp_p0_frame)
qed

text \<open>With every draw equal to 1/2 each candidate is the cell \<open>(0, 0)\<close>; when that cell is
  occupied the search uses all its 100 tries and returns it.\<close>

theorem getRandomPosition_bounded_search_witness:
  "is_occupied [Pos 0 0] (fst (getRandomPosition_loop [Pos 0 0] 0 (sconst half))) \<and>
   getRandomPosition_loop [Pos 0 0] 0 (sconst half) = (Pos 0 0, sconst half, 100)"
proof -
  from getRandomPosition_bounded_search [of "[Pos 0 0]" "sconst half"]
  obtain pos g' n where r: "getRandomPosition_loop [Pos 0 0] 0 (sconst half) = (pos, g', n)"
    and g: "g' = sdrop (2 * n) (sconst half)"
    and c: "pos = fst (candidate (sdrop (2 * (n - 1)) (sconst half)))"
    and o: "is_occupied [Pos 0 0] pos \<longrightarrow> n = 100"
    by blast
  have pos: "pos = Pos 0 0" unfolding c by (simp add: candidate_half)
  have occ: "is_occupied [Pos 0 0] pos" unfolding pos by (simp add: is_occupied_def)
  with o have n: "n = 100" by blast
  have g': "g' = sconst half" unfolding g by simp
  show ?thesis using r occ unfolding pos n g' by simp
qed

subsection \<open>Lists: \<open>findIndex\<close>, \<open>splice\<close> and the two self-collision tests\<close>

lemma findIndex_range: "- 1 \<le> findIndex P ys \<and> findIndex P ys < int (length ys)"
  by (induction ys) (auto simp: Let_def)

lemma findIndex_none: "findIndex P ys = - 1 \<longleftrightarrow> \<not> list_ex P ys"
proof (induction ys)
  case Nil
  show ?case by simp
next
  case (Cons y ys)
  have "findIndex P ys \<noteq> - 1 \<Longrightarrow> findIndex P ys + 1 \<noteq> - 1"
    using findIndex_range [of P ys] by arith
  with Cons show ?case by (auto simp: Let_def)
qed

lemma findIndex_found:
  "findIndex P ys \<noteq> - 1 \<Longrightarrow>
     nat (findIndex P ys) < length ys \<and> P (ys ! nat (findIndex P ys))"
proof (induction ys)
  case Nil
  then show ?case by simp
next
  case (Cons y ys)
  show ?case
  proof (cases "P y")
    case True
    then show ?thesis by simp
  next
    case False
    with Cons.prems have ne: "findIndex P ys \<noteq> - 1" by (auto simp: Let_def split: if_splits)
    then have ge: "0 \<le> findIndex P ys" using findIndex_range [of P ys] by arith
    from False ne have e: "findIndex P (y # ys) = findIndex P ys + 1" by (simp add: Let_def)
    have n: "nat (findIndex P ys + 1) = Suc (nat (findIndex P ys))" using ge by arith
    from Cons.IH [OF ne] show ?thesis unfolding e n by simp
  qed
qed

lemma length_splice1: "i < length ys \<Longrightarrow> length (splice1 i ys) = length ys - 1"
  by (simp add: splice1_def)

lemma same_cell: "(px p = px q \<and> pz p = pz q) \<longleftrightarrow> p = q"
  by (cases p, cases q) auto

lemma list_ex_enumerate_Suc:
  "list_ex (\<lambda>(index, segment). index \<noteq> 0 \<and> Q segment) (enumerate (Suc k) ys) = list_ex Q ys"
  by (induction ys arbitrary: k) auto

lemma hitSelf_iff: "hitSelf (h # rest) nh \<longleftrightarrow> nh \<in> set rest"
proof -
  have "hitSelf (h # rest) nh = list_ex (\<lambda>segment. px segment = px nh \<and> pz segment = pz nh) rest"
    unfolding hitSelf_def using list_ex_enumerate_Suc [of "\<lambda>segment. px segment = px nh \<and> pz segment = pz nh" 0 rest]
    by simp
  also have "\<dots> \<longleftrightarrow> nh \<in> set rest" by (auto simp: list_ex_iff same_cell)
  finally show ?thesis .
qed

lemma list_ex_enumerate_butlast:
  "list_ex (\<lambda>(i, p). int i \<noteq> int k + int (length ys) - 1 \<and> Q p) (enumerate k ys)
     = list_ex Q (butlast ys)"
proof (induction ys arbitrary: k)
  case Nil
  show ?case by simp
next
  case (Cons y ys)
  have e: "int (Suc k) + int (length ys) - 1 = int k + int (length (y # ys)) - 1" by simp
  show ?case
  proof (cases ys)
    case Nil
    then show ?thesis by simp
  next
    case (Cons z zs)
    with Cons.IH [of "Suc k"] show ?thesis unfolding e [symmetric] by auto
  qed
qed

lemma hitSelf_p0_iff: "hitSelf_p0 sn nh \<longleftrightarrow> nh \<in> set (butlast sn)"
proof -
  have "hitSelf_p0 sn nh = list_ex (\<lambda>p. px p = px nh \<and> pz p = pz nh) (butlast sn)"
    unfolding hitSelf_p0_def
    using list_ex_enumerate_butlast [of 0 sn "\<lambda>p. px p = px nh \<and> pz p = pz nh"] by simp
  also have "\<dots> \<longleftrightarrow> nh \<in> set (butlast sn)" by (auto simp: list_ex_iff same_cell)
  finally show ?thesis .
qed

subsection \<open>What each step of a tick changes\<close>

lemma foodCollision_nofood:
  "findIndex (atCell nh) (foods s) = - 1 \<Longrightarrow>
     foodCollision nh s = s\<lparr>snake := butlast (nh # snake s)\<rparr>"
  by (simp add: foodCollision_def)

lemma foodCollision_food:
  assumes "findIndex (atCell nh) (foods s) = i" and "i \<noteq> - 1"
  shows "\<exists>new pu g.
     foodCollision nh s =
       s\<lparr>score := score s + (if food_type (foods s ! nat i) = FRIES then 150 else 100),
         moveInterval := max 50 (moveInterval s - 2),
         foods := splice1 (nat i) (foods s) @ new, powerUp := pu, rand := g,
         snake := nh # snake s\<rparr> \<and>
     list_all (\<lambda>f. onGrid (food_pos f)) new \<and>
     int (length new) = max 0 (level s * 5 - int (length (splice1 (nat i) (foods s)))) \<and>
     (pu = powerUp s \<or> (powerUp s = None \<and> (\<exists>p. pu = Some p \<and> onGrid (pu_pos p))))"
proof -
  define s3 where "s3 = s\<lparr>score := score s + (if food_type (foods s ! nat i) = FRIES then 150 else 100),
         moveInterval := max 50 (moveInterval s - 2),
         foods := splice1 (nat i) (foods s)\<rparr>"
  have fc: "foodCollision nh s = (spawnFood s3)\<lparr>snake := nh # snake s\<rparr>"
    using assms by (simp add: foodCollision_def Let_def s3_def)
  from spawnFood_frame [of s3] obtain new pu g where
    sf: "spawnFood s3 = s3\<lparr>foods := foods s3 @ new, powerUp := pu, rand := g\<rparr>"
    and n: "list_all (\<lambda>f. onGrid (food_pos f)) new"
    and c: "int (length new) = max 0 (level s3 * 5 - int (length (foods s3)))"
    and p: "pu = powerUp s3 \<or> (powerUp s3 = None \<and> (\<exists>p. pu = Some p \<and> onGrid (pu_pos p)))"
    by blast
  have "foodCollision nh s =
       s\<lparr>score := score s + (if food_type (foods s ! nat i) = FRIES then 150 else 100),
         moveInterval := max 50 (moveInterval s - 2),
         foods := splice1 (nat i) (foods s) @ new, powerUp := pu, rand := g,
         snake := nh # snake s\<rparr>"
    unfolding fc sf by (simp add: s3_def)
  moreover have "int (length new) = max 0 (level s * 5 - int (length (splice1 (nat i) (foods s))))"
    using c by (simp add: s3_def)
  moreover have "pu = powerUp s \<or> (powerUp s = None \<and> (\<exists>p. pu = Some p \<and> onGrid (pu_pos p)))"
    using p by (simp add: s3_def)
  ultimately show ?thesis using n by blast
qed

lemma eatFood_p0_nofood:
  "findIndex (atCell nh) (foods s) = - 1 \<Longrightarrow> eatFood_p0 nh s = (s, False)"
  by (simp add: eatFood_p0_def)

lemma eatFood_p0_food:
  assumes "findIndex (atCell nh) (foods s) = i" and "i \<noteq> - 1"
  shows "\<exists>f pu g.
     eatFood_p0 nh s =
       (s\<lparr>score := score s + (if food_type (foods s ! nat i) = FRIES then 150 else 100),
          moveInterval := max 50 (moveInterval s - 2),
          foods := splice1 (nat i) (foods s) @ [f], powerUp := pu, rand := g\<rparr>, True) \<and>
     onGrid (food_pos f) \<and>
     (pu = powerUp s \<or> (\<exists>p. pu = Some p \<and> onGrid (pu_pos p)))"
proof -
  define s3 where "s3 = s\<lparr>score := score s + (if food_type (foods s ! nat i) = FRIES then 150 else 100),
         moveInterval := max 50 (moveInterval s - 2),
         foods := splice1 (nat i) (foods s)\<rparr>"
  have ef: "eatFood_p0 nh s = (spawnPowerUp_p0 (spawnFood_body s3), True)"
    using assms by (auto simp: eatFood_p0_def Let_def s3_def)
  from spawnFood_body_frame [of s3] obtain f g1 where
    b: "spawnFood_body s3 = s3\<lparr>foods := foods s3 @ [f], rand := g1\<rparr>"
    and f: "onGrid (food_pos f)" by blast
  define s4 where "s4 = s3\<lparr>foods := foods s3 @ [f], rand := g1\<rparr>"
  from spawnPowerUp_p0_frame [of s4] obtain pu g where
    sp: "spawnPowerUp_p0 s4 = s4\<lparr>powerUp := pu, rand := g\<rparr>"
    and p: "pu = powerUp s4 \<or> (\<exists>p. pu = Some p \<and> onGrid (pu_pos p))" by blast
  have "eatFood_p0 nh s =
       (s\<lparr>score := score s + (if food_type (foods s ! nat i) = FRIES then 150 else 100),
          moveInterval := max 50 (moveInterval s - 2),
          foods := splice1 (nat i) (foods s) @ [f], powerUp := pu, rand := g\<rparr>, True)"
    unfolding ef b s4_def [symmetric] sp by (simp add: s4_def s3_def)
  moreover have "pu = powerUp s \<or> (\<exists>p. pu = Some p \<and> onGrid (pu_pos p))"
    using p by (simp add: s4_def s3_def)
  ultimately show ?thesis using f by blast
qed

lemma resetGame_frame:
  "\<exists>new pu g.
     resetGame fullReset s =
       (if fullReset
        then s\<lparr>score := 0, level := 1, timeLeft := LEVEL_DURATION, moveInterval := 200,
               baseLevelSpeed := 200, levelStartScore := 0, ghostModeEndTime := 0,
               speedBoostEndTime := 0\<rparr>
        else s)
       \<lparr>gameState := PLAYING, direction := Pos 0 (- 1), moveQueue := [],
        snake := [Pos 0 2, Pos 0 3, Pos 0 4], foods := new, powerUp := pu, rand := g\<rparr> \<and>
     list_all (\<lambda>f. onGrid (food_pos f)) new \<and>
     int (length new) = max 0 ((if fullReset then 1 else level s) * 5)"
proof -
  define s3 where "s3 = (if fullReset
        then s\<lparr>score := 0, level := 1, timeLeft := LEVEL_DURATION, moveInterval := 200,
               baseLevelSpeed := 200, levelStartScore := 0, ghostModeEndTime := 0,
               speedBoostEndTime := 0\<rparr>
        else s)
       \<lparr>gameState := PLAYING, direction := Pos 0 (- 1), moveQueue := [],
        snake := [Pos 0 2, Pos 0 3, Pos 0 4], foods := [], powerUp := None\<rparr>"
  have r: "resetGame fullReset s = spawnFood s3"
    unfolding resetGame_def Let_def s3_def
    by (cases fullReset) (auto intro!: arg_cong [where f = spawnFood] game.equality)
  from spawnFood_frame [of s3] obtain new pu g where
    sf: "spawnFood s3 = s3\<lparr>foods := foods s3 @ new, powerUp := pu, rand := g\<rparr>"
    and n: "list_all (\<lambda>f. onGrid (food_pos f)) new"
    and c: "int (length new) = max 0 (level s3 * 5 - int (length (foods s3)))"
    by blast
  have "resetGame fullReset s =
       (if fullReset
        then s\<lparr>score := 0, level := 1, timeLeft := LEVEL_DURATION, moveInterval := 200,
               baseLevelSpeed := 200, levelStartScore := 0, ghostModeEndTime := 0,
               speedBoostEndTime := 0\<rparr>
        else s)
       \<lparr>gameState := PLAYING, direction := Pos 0 (- 1), moveQueue := [],
        snake := [Pos 0 2, Pos 0 3, Pos 0 4], foods := new, powerUp := pu, rand := g\<rparr>"
    unfolding r sf by (simp add: s3_def)
  moreover have "int (length new) = max 0 ((if fullReset then 1 else level s) * 5)"
    using c by (simp add: s3_def)
  ultimately show ?thesis using n by blast
qed

lemma resetGame_p0_frame:
  "\<exists>new g.
     resetGame_p0 lvl s =
       s\<lparr>level := lvl, score := (if lvl = 1 then 0 else score s),
         levelStartScore := (if lvl = 1 then 0 else score s),
         snake := [Pos 0 0], direction := Pos 0 (- 1), moveQueue := [],
         timeLeft := LEVEL_DURATION, baseLevelSpeed := max 80 (200 - (lvl - 1) * 20),
         moveInterval := max 80 (200 - (lvl - 1) * 20),
         ghostModeEndTime := 0, speedBoostEndTime := 0, dogPulseEndTime := 0,
         foods := new, rand := g\<rparr> \<and>
     list_all (\<lambda>f. onGrid (food_pos f)) new \<and> length new = nat (lvl * 5)"
proof -
  define s8 where "s8 = s\<lparr>level := lvl, score := (if lvl = 1 then 0 else score s),
         levelStartScore := (if lvl = 1 then 0 else score s),
         snake := [Pos 0 0], direction := Pos 0 (- 1), moveQueue := [],
         timeLeft := LEVEL_DURATION, baseLevelSpeed := max 80 (200 - (lvl - 1) * 20),
         moveInterval := max 80 (200 - (lvl - 1) * 20),
         ghostModeEndTime := 0, speedBoostEndTime := 0, dogPulseEndTime := 0,
         foods := []\<rparr>"
  have r: "resetGame_p0 lvl s = spawnFood_p0 (nat (lvl * 5)) s8"
    by (simp add: resetGame_p0_def Let_def s8_def)
  from spawnFood_p0_frame [of "nat (lvl * 5)" s8] obtain new g where
    sf: "spawnFood_p0 (nat (lvl * 5)) s8 = s8\<lparr>foods := foods s8 @ new, rand := g\<rparr>"
    and n: "list_all (\<lambda>f. onGrid (food_pos f)) new"
    and c: "length new = nat (lvl * 5)"
    by blast
  have "resetGame_p0 lvl s =
       s\<lparr>level := lvl, score := (if lvl = 1 then 0 else score s),
         levelStartScore := (if lvl = 1 then 0 else score s),
         snake := [Pos 0 0], direction := Pos 0 (- 1), moveQueue := [],
         timeLeft := LEVEL_DURATION, baseLevelSpeed := max 80 (200 - (lvl - 1) * 20),
         moveInterval := max 80 (200 - (lvl - 1) * 20),
         ghostModeEndTime := 0, speedBoostEndTime := 0, dogPulseEndTime := 0,
         foods := new, rand := g\<rparr>"
    unfolding r sf by (simp add: s8_def)
  then show ?thesis using n c by blast
qed

lemma retryLevel_frame:
  "\<exists>new pu g.
     retryLevel s =
       s\<lparr>score := levelStartScore s, timeLeft := LEVEL_DURATION,
         moveInterval := baseLevelSpeed s, gameState := PLAYING,
         direction := Pos 0 (- 1), moveQueue := [],
         snake := [Pos 0 2, Pos 0 3, Pos 0 4], foods := new, powerUp := pu, rand := g\<rparr> \<and>
     list_all (\<lambda>f. onGrid (food_pos f)) new \<and> int (length new) = max 0 (level s * 5)"
proof -
  define s3 where "s3 = s\<lparr>score := levelStartScore s, timeLeft := LEVEL_DURATION,
         moveInterval := baseLevelSpeed s\<rparr>"
  from resetGame_frame [of False s3] obtain new pu g where
    r: "resetGame False s3 = s3\<lparr>gameState := PLAYING, direction := Pos 0 (- 1), moveQueue := [],
        snake := [Pos 0 2, Pos 0 3, Pos 0 4], foods := new, powerUp := pu, rand := g\<rparr>"
    and n: "list_all (\<lambda>f. onGrid (food_pos f)) new"
    and c: "int (length new) = max 0 (level s3 * 5)"
    by auto
  have "retryLevel s = (resetGame False s3)\<lparr>gameState := PLAYING\<rparr>"
    by (simp add: retryLevel_def Let_def s3_def)
  then have "retryLevel s =
       s\<lparr>score := levelStartScore s, timeLeft := LEVEL_DURATION,
         moveInterval := baseLevelSpeed s, gameState := PLAYING,
         direction := Pos 0 (- 1), moveQueue := [],
         snake := [Pos 0 2, Pos 0 3, Pos 0 4], foods := new, powerUp := pu, rand := g\<rparr>"
    unfolding r by (simp add: s3_def)
  moreover have "int (length new) = max 0 (level s * 5)" using c by (simp add: s3_def)
  ultimately show ?thesis using n by blast
qed

lemma retryLevel_p0_frame:
  "\<exists>new g.
     retryLevel_p0 s =
       s\<lparr>gameState := PLAYING, score := levelStartScore s,
         snake := [Pos 0 0], direction := Pos 0 (- 1), moveQueue := [],
         timeLeft := LEVEL_DURATION, moveInterval := baseLevelSpeed s,
         foods := new, rand := g\<rparr> \<and>
     list_all (\<lambda>f. onGrid (food_pos f)) new \<and> length new = nat (level s * 5)"
proof -
  define s6 where "s6 = s\<lparr>gameState := PLAYING, score := levelStartScore s,
         snake := [Pos 0 0], direction := Pos 0 (- 1), moveQueue := [],
         timeLeft := LEVEL_DURATION, moveInterval := baseLevelSpeed s, foods := []\<rparr>"
  have r: "retryLevel_p0 s = spawnFood_p0 (nat (level s * 5)) s6"
    by (simp add: retryLevel_p0_def Let_def s6_def)
  from spawnFood_p0_frame [of "nat (level s * 5)" s6] obtain new g where
    sf: "spawnFood_p0 (nat (level s * 5)) s6 = s6\<lparr>foods := foods s6 @ new, rand := g\<rparr>"
    and n: "list_all (\<lambda>f. onGrid (food_pos f)) new"
    and c: "length new = nat (level s * 5)"
    by blast
  have "retryLevel_p0 s =
       s\<lparr>gameState := PLAYING, score := levelStartScore s,
         snake := [Pos 0 0], direction := Pos 0 (- 1), moveQueue := [],
         timeLeft := LEVEL_DURATION, moveInterval := baseLevelSpeed s,
         foods := new, rand := g\<rparr>"
    unfolding r sf by (simp add: s6_def)
  then show ?thesis using n c by blast
qed

lemma determineDirection_fields:
  "snake (determineDirection s) = snake s \<and> gameState (determineDirection s) = gameState s \<and>
   score (determineDirection s) = score s \<and> level (determineDirection s) = level s \<and>
   timeLeft (determineDirection s) = timeLeft s \<and> foods (determineDirection s) = foods s \<and>
   powerUp (determineDirection s) = powerUp s \<and>
   ghostModeEndTime (determineDirection s) = ghostModeEndTime s \<and>
   speedBoostEndTime (determineDirection s) = speedBoostEndTime s \<and>
   dogPulseEndTime (determineDirection s) = dogPulseEndTime s \<and>
   moveInterval (determineDirection s) = moveInterval s \<and>
   baseLevelSpeed (determineDirection s) = baseLevelSpeed s \<and>
   levelStartScore (determineDirection s) = levelStartScore s \<and>
   timeouts (determineDirection s) = timeouts s"
  by (simp add: determineDirection_def split: list.splits)

lemma determineDirection_timeLeft:
  "determineDirection (s\<lparr>timeLeft := t\<rparr>) = (determineDirection s)\<lparr>timeLeft := t\<rparr>"
  by (simp add: determineDirection_def split: list.splits)

lemma updateGameLogic_crash:
  assumes "s = determineDirection s0" and "snake s = h # rest"
    and "nh = nextHeadOf h (direction s)"
    and "hitWall nh \<or> (nh \<in> set rest \<and> ghostModeEndTime s < now)"
  shows "updateGameLogic now s0 = Inr (s\<lparr>gameState := GAME_OVER\<rparr>)"
  using assms hitSelf_iff [of h rest nh]
  by (auto simp: updateGameLogic_def Let_def)

lemma updateGameLogic_move:
  assumes "s = determineDirection s0" and "snake s = h # rest"
    and "nh = nextHeadOf h (direction s)"
    and "\<not> hitWall nh" and "nh \<notin> set rest \<or> now \<le> ghostModeEndTime s"
  shows "updateGameLogic now s0 =
           Inr (updateTimer now (powerUpCollision now nh (foodCollision nh s)))"
  using assms hitSelf_iff [of h rest nh]
  by (auto simp: updateGameLogic_def Let_def)

lemma updateGameLogic_p0_expired:
  "timerLogic_p0 (timeLeft s0) \<le> 0 \<Longrightarrow>
     updateGameLogic_p0 now s0 = Inr (finishLevel_p0 now (s0\<lparr>timeLeft := timerLogic_p0 (timeLeft s0)\<rparr>))"
  by (simp add: updateGameLogic_p0_def Let_def)

lemma updateGameLogic_p0_crash:
  assumes "0 < timerLogic_p0 (timeLeft s0)"
    and "s = determineDirection s0" and "snake s = h # rest"
    and "nh = nextHeadOf h (direction s)"
    and "hitWall_p0 nh \<or> (nh \<in> set (butlast (snake s)) \<and> \<not> now < ghostModeEndTime s)"
  shows "updateGameLogic_p0 now s0 =
           Inr (s\<lparr>timeLeft := timerLogic_p0 (timeLeft s0), gameState := GAME_OVER\<rparr>)"
  using assms hitSelf_p0_iff [of "h # rest" nh]
  by (auto simp: updateGameLogic_p0_def Let_def determineDirection_timeLeft triggerCrash_p0_def)

lemma updateGameLogic_p0_move:
  assumes "0 < timerLogic_p0 (timeLeft s0)"
    and "s = determineDirection s0" and "snake s = h # rest"
    and "nh = nextHeadOf h (direction s)"
    and "\<not> hitWall_p0 nh"
    and "nh \<notin> set (butlast (snake s)) \<or> now < ghostModeEndTime s"
    and "st = s\<lparr>timeLeft := timerLogic_p0 (timeLeft s0)\<rparr>"
  shows "updateGameLogic_p0 now s0 =
           Inr ((eatPowerUp_p0 now nh (fst (eatFood_p0 nh st)))
                  \<lparr>snake := (if snd (eatFood_p0 nh st) then nh # snake s
                              else butlast (nh # snake s))\<rparr>)"
  using assms hitSelf_p0_iff [of "h # rest" nh]
  by (auto simp: updateGameLogic_p0_def Let_def determineDirection_timeLeft case_prod_beta)

lemma powerUpCollision_hit:
  "powerUp s = Some (PowerUp nh ty) \<Longrightarrow>
     powerUpCollision now nh s =
       s\<lparr>score := score s + 500,
         ghostModeEndTime := (if ty = GHOST then now + 10000 else ghostModeEndTime s),
         speedBoostEndTime := (if ty = BURGER then now + 8000 else speedBoostEndTime s),
         dogPulseEndTime := (if ty = BURGER then now + 1000 else dogPulseEndTime s),
         powerUp := None\<rparr>"
  by (cases ty) (simp_all add: powerUpCollision_def Let_def)

lemma powerUpCollision_miss:
  "powerUp s = None \<or> (\<exists>p. powerUp s = Some p \<and> pu_pos p \<noteq> nh) \<Longrightarrow>
     powerUpCollision now nh s = s"
  by (auto simp: powerUpCollision_def same_cell)

lemma eatPowerUp_p0_hit:
  "powerUp s = Some (PowerUp nh ty) \<Longrightarrow>
     eatPowerUp_p0 now nh s =
       s\<lparr>score := score s + (case ty of MUSTARD \<Rightarrow> 500 | GHOST \<Rightarrow> 200 | BURGER \<Rightarrow> 300),
         ghostModeEndTime := (if ty = GHOST then now + 10000 else ghostModeEndTime s),
         speedBoostEndTime := (if ty = BURGER then now + 8000 else speedBoostEndTime s),
         dogPulseEndTime := (if ty = BURGER then now + 2000 else dogPulseEndTime s),
         powerUp := None\<rparr>"
  by (cases ty) (simp_all add: eatPowerUp_p0_def handlePowerUp_p0_def)

lemma eatPowerUp_p0_miss:
  "powerUp s = None \<or> (\<exists>p. powerUp s = Some p \<and> pu_pos p \<noteq> nh) \<Longrightarrow>
     eatPowerUp_p0 now nh s = s"
  by (auto simp: eatPowerUp_p0_def same_cell)

lemma updateTimer_fields:
  "score (updateTimer now s) = score s \<and> snake (updateTimer now s) = snake s \<and>
   level (updateTimer now s) = level s \<and> foods (updateTimer now s) = foods s \<and>
   powerUp (updateTimer now s) = powerUp s \<and>
   ghostModeEndTime (updateTimer now s) = ghostModeEndTime s \<and>
   speedBoostEndTime (updateTimer now s) = speedBoostEndTime s \<and>
   dogPulseEndTime (updateTimer now s) = dogPulseEndTime s \<and>
   moveInterval (updateTimer now s) = moveInterval s \<and>
   baseLevelSpeed (updateTimer now s) = baseLevelSpeed s \<and>
   levelStartScore (updateTimer now s) = levelStartScore s \<and>
   timeLeft (updateTimer now s) = double_sub (timeLeft s) (double_div (of_int (moveInterval s)) 1000)"
  by (simp add: updateTimer_def nextLevel_def Let_def)

lemma updateTimer_state:
  "gameState (updateTimer now s) =
     (if double_sub (timeLeft s) (double_div (of_int (moveInterval s)) 1000) \<le> 0 then LEVEL_TRANSITION else gameState s) \<and>
   timeouts (updateTimer now s) =
     (if double_sub (timeLeft s) (double_div (of_int (moveInterval s)) 1000) \<le> 0
      then timeouts s @ map (\<lambda>i. (now + int i * 300, SpawnFirework)) [0..<15]
                      @ [(now + 4000, AdvanceLevel)]
      else timeouts s)"
  by (simp add: updateTimer_def nextLevel_def Let_def)

subsection \<open>Self collision and invulnerability\<close>

lemma foodCollision_fields:
  "gameState (foodCollision nh s) = gameState s \<and> level (foodCollision nh s) = level s \<and>
   timeLeft (foodCollision nh s) = timeLeft s \<and>
   ghostModeEndTime (foodCollision nh s) = ghostModeEndTime s \<and>
   speedBoostEndTime (foodCollision nh s) = speedBoostEndTime s \<and>
   dogPulseEndTime (foodCollision nh s) = dogPulseEndTime s \<and>
   baseLevelSpeed (foodCollision nh s) = baseLevelSpeed s \<and>
   levelStartScore (foodCollision nh s) = levelStartScore s \<and>
   timeouts (foodCollision nh s) = timeouts s"
proof (cases "findIndex (atCell nh) (foods s) = - 1")
  case True
  then show ?thesis by (simp add: foodCollision_nofood)
next
  case False
  from foodCollision_food [OF refl False] obtain new pu g where
    "foodCollision nh s =
       s\<lparr>score := score s + (if food_type (foods s ! nat (findIndex (atCell nh) (foods s))) = FRIES
                              then 150 else 100),
         moveInterval := max 50 (moveInterval s - 2),
         foods := splice1 (nat (findIndex (atCell nh) (foods s))) (foods s) @ new,
         powerUp := pu, rand := g, snake := nh # snake s\<rparr>"
    by blast
  then show ?thesis by simp
qed

lemma powerUpCollision_fields:
  "gameState (powerUpCollision now nh s) = gameState s \<and>
   level (powerUpCollision now nh s) = level s \<and>
   timeLeft (powerUpCollision now nh s) = timeLeft s \<and>
   snake (powerUpCollision now nh s) = snake s \<and>
   foods (powerUpCollision now nh s) = foods s \<and>
   moveInterval (powerUpCollision now nh s) = moveInterval s \<and>
   baseLevelSpeed (powerUpCollision now nh s) = baseLevelSpeed s \<and>
   levelStartScore (powerUpCollision now nh s) = levelStartScore s \<and>
   timeouts (powerUpCollision now nh s) = timeouts s"
  by (simp add: powerUpCollision_def Let_def split: option.splits PowerUpType.splits)

lemma eatFood_p0_fields:
  "gameState (fst (eatFood_p0 nh s)) = gameState s \<and> level (fst (eatFood_p0 nh s)) = level s \<and>
   timeLeft (fst (eatFood_p0 nh s)) = timeLeft s \<and>
   snake (fst (eatFood_p0 nh s)) = snake s \<and>
   ghostModeEndTime (fst (eatFood_p0 nh s)) = ghostModeEndTime s \<and>
   speedBoostEndTime (fst (eatFood_p0 nh s)) = speedBoostEndTime s \<and>
   dogPulseEndTime (fst (eatFood_p0 nh s)) = dogPulseEndTime s \<and>
   baseLevelSpeed (fst (eatFood_p0 nh s)) = baseLevelSpeed s \<and>
   levelStartScore (fst (eatFood_p0 nh s)) = levelStartScore s \<and>
   timeouts (fst (eatFood_p0 nh s)) = timeouts s"
proof (cases "findIndex (atCell nh) (foods s) = - 1")
  case True
  then show ?thesis by (simp add: eatFood_p0_nofood)
next
  case False
  from eatFood_p0_food [OF refl False] obtain f pu g where
    "eatFood_p0 nh s =
       (s\<lparr>score := score s + (if food_type (foods s ! nat (findIndex (atCell nh) (foods s))) = FRIES
                               then 150 else 100),
          moveInterval := max 50 (moveInterval s - 2),
          foods := splice1 (nat (findIndex (atCell nh) (foods s))) (foods s) @ [f],
          powerUp := pu, rand := g\<rparr>, True)"
    by blast
  then show ?thesis by simp
qed

lemma eatPowerUp_p0_fields:
  "gameState (eatPowerUp_p0 now nh s) = gameState s \<and>
   level (eatPowerUp_p0 now nh s) = level s \<and>
   timeLeft (eatPowerUp_p0 now nh s) = timeLeft s \<and>
   snake (eatPowerUp_p0 now nh s) = snake s \<and>
   foods (eatPowerUp_p0 now nh s) = foods s \<and>
   moveInterval (eatPowerUp_p0 now nh s) = moveInterval s \<and>
   baseLevelSpeed (eatPowerUp_p0 now nh s) = baseLevelSpeed s \<and>
   levelStartScore (eatPowerUp_p0 now nh s) = levelStartScore s \<and>
   timeouts (eatPowerUp_p0 now nh s) = timeouts s"
  by (simp add: eatPowerUp_p0_def handlePowerUp_p0_def split: option.splits PowerUpType.splits)

lemma updateGameLogic_move_state:
  assumes "s = determineDirection s0" and "snake s = h # rest"
    and "nh = nextHeadOf h (direction s)"
    and "\<not> hitWall nh" and "nh \<notin> set rest \<or> now \<le> ghostModeEndTime s"
  shows "\<exists>s'. updateGameLogic now s0 = Inr s' \<and>
           (gameState s' = gameState s0 \<or> gameState s' = LEVEL_TRANSITION)"
  using updateGameLogic_move [OF assms] determineDirection_fields [of s0, folded assms(1)]
  by (simp add: updateTimer_state powerUpCollision_fields foodCollision_fields)

lemma updateGameLogic_p0_move_state:
  assumes "0 < timerLogic_p0 (timeLeft s0)"
    and "s = determineDirection s0" and "snake s = h # rest"
    and "nh = nextHeadOf h (direction s)"
    and "\<not> hitWall_p0 nh"
    and "nh \<notin> set (butlast (snake s)) \<or> now < ghostModeEndTime s"
  shows "\<exists>s'. updateGameLogic_p0 now s0 = Inr s' \<and> gameState s' = gameState s0"
  using updateGameLogic_p0_move [OF assms refl] determineDirection_fields [of s0, folded assms(2)]
  by (simp add: eatPowerUp_p0_fields eatFood_p0_fields)

text \<open>
  Claim C1, as amended. Take a tick, run while \<open>PLAYING\<close>, whose next head cell is inside
  the walls. In \<^verbatim>\<open>src/index.tsx\<close>, when the next head lies on a segment behind the head,
  the tick ends the run if the clock is past the invulnerability expiry and does not end
  it if the clock is before the expiry. In \<^verbatim>\<open>src/unnamed/part_000\<close>, when the countdown
  has not run out and the next head lies on a segment other than the last one, the tick
  ends the run exactly when invulnerability is not active (\<open>now < expiry\<close> is false);
  a next head that lies on no segment but the last one never ends the run. The expiry is
  the one the ghost power-up sets: the clock reading at its consumption plus 10000 ms.
\<close>

theorem self_collision_and_invulnerability:
  assumes "gameState s0 = PLAYING"
    and "s = determineDirection s0" and "snake s = h # rest"
    and "nh = nextHeadOf h (direction s)"
  shows "(\<not> hitWall nh \<and> nh \<in> set rest \<and> ghostModeEndTime s < now \<longrightarrow>
            updateGameLogic now s0 = Inr (s\<lparr>gameState := GAME_OVER\<rparr>)) \<and>
         (\<not> hitWall nh \<and> nh \<in> set rest \<and> now < ghostModeEndTime s \<longrightarrow>
            (\<exists>s'. updateGameLogic now s0 = Inr s' \<and> gameState s' \<noteq> GAME_OVER)) \<and>
         (0 < timerLogic_p0 (timeLeft s0) \<and> \<not> hitWall_p0 nh \<and> nh \<in> set (butlast (snake s)) \<longrightarrow>
            ((\<exists>s'. updateGameLogic_p0 now s0 = Inr s' \<and> gameState s' = GAME_OVER)
               \<longleftrightarrow> \<not> now < ghostModeEndTime s)) \<and>
         (0 < timerLogic_p0 (timeLeft s0) \<and> \<not> hitWall_p0 nh \<and> nh \<notin> set (butlast (snake s)) \<longrightarrow>
            (\<exists>s'. updateGameLogic_p0 now s0 = Inr s' \<and> gameState s' \<noteq> GAME_OVER)) \<and>
         (powerUp sg = Some (PowerUp c GHOST) \<longrightarrow>
            ghostModeEndTime (powerUpCollision t0 c sg) = t0 + 10000 \<and>
            ghostModeEndTime (eatPowerUp_p0 t0 c sg) = t0 + 10000)"
proof (intro conjI impI)
  assume "\<not> hitWall nh \<and> nh \<in> set rest \<and> ghostModeEndTime s < now"
  then show "updateGameLogic now s0 = Inr (s\<lparr>gameState := GAME_OVER\<rparr>)"
    using updateGameLogic_crash [OF assms(2-4), of now] by blast
next
  assume "\<not> hitWall nh \<and> nh \<in> set rest \<and> now < ghostModeEndTime s"
  then have "\<not> hitWall nh" and "nh \<notin> set rest \<or> now \<le> ghostModeEndTime s" by auto
  from updateGameLogic_move_state [OF assms(2-4) this] assms(1)
  show "\<exists>s'. updateGameLogic now s0 = Inr s' \<and> gameState s' \<noteq> GAME_OVER" by auto
next
  assume a: "0 < timerLogic_p0 (timeLeft s0) \<and> \<not> hitWall_p0 nh \<and> nh \<in> set (butlast (snake s))"
  show "(\<exists>s'. updateGameLogic_p0 now s0 = Inr s' \<and> gameState s' = GAME_OVER)
               \<longleftrightarrow> \<not> now < ghostModeEndTime s"
  proof (cases "now < ghostModeEndTime s")
    case True
    from a True have "0 < timerLogic_p0 (timeLeft s0)" "\<not> hitWall_p0 nh"
      "nh \<notin> set (butlast (snake s)) \<or> now < ghostModeEndTime s" by auto
    from updateGameLogic_p0_move_state [OF this(1) assms(2-4) this(2,3)] assms(1) True
    show ?thesis by auto
  next
    case False
    from a False have "0 < timerLogic_p0 (timeLeft s0)"
      "hitWall_p0 nh \<or> (nh \<in> set (butlast (snake s)) \<and> \<not> now < ghostModeEndTime s)" by auto
    from updateGameLogic_p0_crash [OF this(1) assms(2-4) this(2)] False
    show ?thesis by simp
  qed
next
  assume a: "0 < timerLogic_p0 (timeLeft s0) \<and> \<not> hitWall_p0 nh \<and> nh \<notin> set (butlast (snake s))"
  then have "0 < timerLogic_p0 (timeLeft s0)" "\<not> hitWall_p0 nh"
      "nh \<notin> set (butlast (snake s)) \<or> now < ghostModeEndTime s" by auto
  from updateGameLogic_p0_move_state [OF this(1) assms(2-4) this(2,3)] assms(1)
  show "\<exists>s'. updateGameLogic_p0 now s0 = Inr s' \<and> gameState s' \<noteq> GAME_OVER" by auto
next
  assume "powerUp sg = Some (PowerUp c GHOST)"
  then show "ghostModeEndTime (powerUpCollision t0 c sg) = t0 + 10000"
    by (simp add: powerUpCollision_hit)
next
  assume "powerUp sg = Some (PowerUp c GHOST)"
  then show "ghostModeEndTime (eatPowerUp_p0 t0 c sg) = t0 + 10000"
    by (simp add: eatPowerUp_p0_hit)
qed

text \<open>The turn of \<open>coiled5\<close> onto its fourth segment ends the run in both files when the
  expiry has passed and not when it lies ahead; the turn of \<open>coiled4\<close> onto its tail does
  not end it in part_000.\<close>

theorem self_collision_and_invulnerability_witness:
  "updateGameLogic 5000 coiled5 = Inr ((determineDirection coiled5)\<lparr>gameState := GAME_OVER\<rparr>) \<and>
   (\<exists>s'. updateGameLogic 5000 (coiled5\<lparr>ghostModeEndTime := 9000\<rparr>) = Inr s' \<and>
         gameState s' \<noteq> GAME_OVER) \<and>
   (\<exists>s'. updateGameLogic_p0 5000 coiled5 = Inr s' \<and> gameState s' = GAME_OVER) \<and>
   (\<exists>s'. updateGameLogic_p0 5000 coiled4 = Inr s' \<and> gameState s' \<noteq> GAME_OVER) \<and>
   ghostModeEndTime (powerUpCollision 5000 (Pos 0 1) ghostAhead) = 15000"
proof -
  let ?rest = "[Pos 1 0, Pos 1 1, Pos 0 1, Pos (- 1) 1]"
  let ?g = "coiled5\<lparr>ghostModeEndTime := 9000\<rparr>"
  have p5: "gameState coiled5 = PLAYING" by (simp add: coiled5_def sample_defs)
  have s5: "snake (determineDirection coiled5) = Pos 0 0 # ?rest"
    by (simp add: coiled5_def sample_defs)
  have n5: "Pos 0 1 = nextHeadOf (Pos 0 0) (direction (determineDirection coiled5))"
    by (simp add: coiled5_def sample_defs)
  have a1: "\<not> hitWall (Pos 0 1) \<and> Pos 0 1 \<in> set ?rest \<and>
      ghostModeEndTime (determineDirection coiled5) < 5000"
    by (simp add: coiled5_def sample_defs)
  have a3: "0 < timerLogic_p0 (timeLeft coiled5) \<and> \<not> hitWall_p0 (Pos 0 1) \<and>
      Pos 0 1 \<in> set (butlast (snake (determineDirection coiled5)))"
    by (simp add: coiled5_def sample_defs timerLogic_p0_start)
  have g3: "\<not> 5000 < ghostModeEndTime (determineDirection coiled5)"
    by (simp add: coiled5_def sample_defs)
  note t5 = self_collision_and_invulnerability [OF p5 refl s5 n5, of 5000]
  have w1: "updateGameLogic 5000 coiled5 = Inr ((determineDirection coiled5)\<lparr>gameState := GAME_OVER\<rparr>)"
    using t5 a1 by blast
  have w3: "\<exists>s'. updateGameLogic_p0 5000 coiled5 = Inr s' \<and> gameState s' = GAME_OVER"
    using t5 a3 g3 by blast
  have pg: "gameState ?g = PLAYING" by (simp add: coiled5_def sample_defs)
  have sg: "snake (determineDirection ?g) = Pos 0 0 # ?rest"
    by (simp add: coiled5_def sample_defs)
  have ng: "Pos 0 1 = nextHeadOf (Pos 0 0) (direction (determineDirection ?g))"
    by (simp add: coiled5_def sample_defs)
  have a2: "\<not> hitWall (Pos 0 1) \<and> Pos 0 1 \<in> set ?rest \<and>
      5000 < ghostModeEndTime (determineDirection ?g)"
    by (simp add: coiled5_def sample_defs)
  have w2: "\<exists>s'. updateGameLogic 5000 ?g = Inr s' \<and> gameState s' \<noteq> GAME_OVER"
    using self_collision_and_invulnerability [OF pg refl sg ng, of 5000] a2 by blast
  have p4: "gameState coiled4 = PLAYING" by (simp add: coiled4_def sample_defs)
  have s4: "snake (determineDirection coiled4) = Pos 0 0 # [Pos 1 0, Pos 1 1, Pos 0 1]"
    by (simp add: coiled4_def sample_defs)
  have n4: "Pos 0 1 = nextHeadOf (Pos 0 0) (direction (determineDirection coiled4))"
    by (simp add: coiled4_def sample_defs)
  have a4: "0 < timerLogic_p0 (timeLeft coiled4) \<and> \<not> hitWall_p0 (Pos 0 1) \<and>
      Pos 0 1 \<notin> set (butlast (snake (determineDirection coiled4)))"
    by (simp add: coiled4_def sample_defs timerLogic_p0_start)
  have w4: "\<exists>s'. updateGameLogic_p0 5000 coiled4 = Inr s' \<and> gameState s' \<noteq> GAME_OVER"
    using self_collision_and_invulnerability [OF p4 refl s4 n4, of 5000] a4 by blast
  have a5: "powerUp ghostAhead = Some (PowerUp (Pos 0 1) GHOST)" by (simp add: ghostAhead_def)
  have w5: "ghostModeEndTime (powerUpCollision 5000 (Pos 0 1) ghostAhead) = 15000"
    using self_collision_and_invulnerability [OF p5 refl s5 n5, of 5000 ghostAhead "Pos 0 1" 5000] a5
    by simp
  show ?thesis using w1 w2 w3 w4 w5 by blast
qed

text \<open>Claim C1 as stated fails in \<^verbatim>\<open>src/unnamed/part_000\<close>: invulnerability is not active
  (the expiry is 0, the clock reads 5000), the next head \<open>(0, 1)\<close> is a cell of the snake
  (its tail), and the tick moves the snake there without ending the run.\<close>

theorem tail_cell_move_does_not_crash:
  "gameState coiled4 = PLAYING \<and> \<not> 5000 < ghostModeEndTime coiled4 \<and>
   determineDirection coiled4 = coiled4\<lparr>direction := Pos 0 1, moveQueue := []\<rparr> \<and>
   nextHeadOf (Pos 0 0) (Pos 0 1) = Pos 0 1 \<and> Pos 0 1 \<in> set (snake coiled4) \<and>
   updateGameLogic_p0 5000 coiled4 =
     Inr (coiled4\<lparr>direction := Pos 0 1, moveQueue := [], timeLeft := timerLogic_p0 25,
                  snake := [Pos 0 1, Pos 0 0, Pos 1 0, Pos 1 1]\<rparr>)"
  by (simp add: updateGameLogic_p0_def coiled4_def sample_defs hitSelf_p0_def eatFood_p0_def
      eatPowerUp_p0_def Let_def
      timerLogic_p0_def double_defs)

text \<open>In \<^verbatim>\<open>src/index.tsx\<close> the test is \<^verbatim>\<open>Date.now() > ghostModeEndTimeRef.current\<close>: on the
  millisecond of the expiry a move onto the body does not end the run.\<close>

lemma self_hit_at_expiry_index:
  "updateGameLogic 9000 (coiled5\<lparr>ghostModeEndTime := 9000\<rparr>) =
     Inr (coiled5\<lparr>ghostModeEndTime := 9000, direction := Pos 0 1, moveQueue := [],
                  timeLeft := double_sub 25 (double_div 200 1000),
                  snake := [Pos 0 1, Pos 0 0, Pos 1 0, Pos 1 1, Pos 0 1]\<rparr>)"
  by (simp add: updateGameLogic_def coiled5_def sample_defs hitSelf_def foodCollision_def
      powerUpCollision_def updateTimer_def Let_def
      double_defs)

subsection \<open>Walls\<close>

text \<open>The wall test of \<^verbatim>\<open>src/unnamed/part_000\<close> is the half-open range \<open>[-15, 15)\<close>; the
  test of \<^verbatim>\<open>src/index.tsx\<close> admits the coordinate 15.\<close>

lemma hitWall_p0_iff: "hitWall_p0 p \<longleftrightarrow> \<not> onGrid p"
  by (auto simp: hitWall_p0_def onGrid_def GRID_SIZE_def)

lemma hitWall_iff:
  "hitWall p \<longleftrightarrow> \<not> (- 15 \<le> px p \<and> px p \<le> 15 \<and> - 15 \<le> pz p \<and> pz p \<le> 15)"
  by (auto simp: hitWall_def GRID_SIZE_def)

lemma wall_collision_p0:
  assumes "0 < timerLogic_p0 (timeLeft s0)"
    and "s = determineDirection s0" and "snake s = h # rest"
    and "nh = nextHeadOf h (direction s)" and "\<not> onGrid nh"
  shows "updateGameLogic_p0 now s0 =
           Inr (s\<lparr>timeLeft := timerLogic_p0 (timeLeft s0), gameState := GAME_OVER\<rparr>)"
  using updateGameLogic_p0_crash [OF assms(1-4), of now] assms(5) by (simp add: hitWall_p0_iff)

text \<open>
  Claim C2 at the input where \<^verbatim>\<open>src/index.tsx\<close> departs from it: the head is at
  \<open>(14, 0)\<close> and moves right, so the next head is \<open>(15, 0)\<close>, outside \<open>[-15, 15)\<close>. The
  tick does not crash: the state stays \<open>PLAYING\<close> and the head is at \<open>x = 15\<close>.
\<close>

theorem wall_check_admits_coordinate_15:
  "gameState edgeState = PLAYING \<and>
   nextHeadOf (Pos 14 0) (direction edgeState) = Pos 15 0 \<and> \<not> onGrid (Pos 15 0) \<and>
   updateGameLogic 5000 edgeState =
     Inr (edgeState\<lparr>snake := [Pos 15 0, Pos 14 0, Pos 13 0], timeLeft := double_sub 25 (double_div 200 1000)\<rparr>)"
  by (simp add: updateGameLogic_def edgeState_def sample_defs onGrid_def hitSelf_def
      foodCollision_def powerUpCollision_def updateTimer_def Let_def
      double_defs)

text \<open>The same input in \<^verbatim>\<open>src/unnamed/part_000\<close> ends the run.\<close>

lemma wall_at_15_p0:
  "updateGameLogic_p0 5000 edgeState =
     Inr (edgeState\<lparr>timeLeft := timerLogic_p0 25, gameState := GAME_OVER\<rparr>)"
  by (simp add: updateGameLogic_p0_def edgeState_def sample_defs triggerCrash_p0_def Let_def
      timerLogic_p0_def double_defs)

subsection \<open>Eating food\<close>

lemma powerUpCollision_score: "score (powerUpCollision now c s) = score s + bonus c s"
  by (simp add: powerUpCollision_def bonus_def Let_def same_cell [symmetric]
      split: option.splits PowerUpType.splits)

lemma eatPowerUp_p0_score: "score (eatPowerUp_p0 now c s) = score s + bonus_p0 c s"
  by (simp add: eatPowerUp_p0_def handlePowerUp_p0_def bonus_p0_def same_cell [symmetric]
      split: option.splits PowerUpType.splits)

lemma tick_food:
  assumes "s = determineDirection s0" and "snake s = h # rest"
    and "nh = nextHeadOf h (direction s)"
    and "findIndex (atCell nh) (foods s) = i" and "i \<noteq> - 1"
    and "pts = (if food_type (foods s ! nat i) = FRIES then 150 else 100)"
    and "\<not> hitWall nh" and "nh \<notin> set rest \<or> now \<le> ghostModeEndTime s"
  shows "\<exists>s' new. updateGameLogic now s0 = Inr s' \<and>
           score (foodCollision nh s) = score s0 + pts \<and>
           score s' = score s0 + pts + bonus nh (foodCollision nh s) \<and>
           snake s' = nh # snake s0 \<and>
           moveInterval s' = max 50 (moveInterval s0 - 2) \<and>
           foods s' = splice1 (nat i) (foods s0) @ new \<and>
           int (length new) = max 0 (level s0 * 5 - (int (length (foods s0)) - 1)) \<and>
           level s' = level s0"
proof -
  note dd = determineDirection_fields [of s0, folded assms(1)]
  from foodCollision_food [OF assms(4,5)] obtain new pu g where
    fc: "foodCollision nh s =
       s\<lparr>score := score s + (if food_type (foods s ! nat i) = FRIES then 150 else 100),
         moveInterval := max 50 (moveInterval s - 2),
         foods := splice1 (nat i) (foods s) @ new, powerUp := pu, rand := g,
         snake := nh # snake s\<rparr>"
    and c: "int (length new) = max 0 (level s * 5 - int (length (splice1 (nat i) (foods s))))"
    by blast
  define s1 where "s1 = foodCollision nh s"
  have f1: "score s1 = score s0 + pts" "snake s1 = nh # snake s0"
    "moveInterval s1 = max 50 (moveInterval s0 - 2)"
    "foods s1 = splice1 (nat i) (foods s0) @ new" "level s1 = level s0"
    unfolding s1_def fc using dd assms(6) by simp_all
  from findIndex_found [of "atCell nh" "foods s"] assms(4,5)
  have "nat i < length (foods s)" by simp
  then have "int (length (splice1 (nat i) (foods s))) = int (length (foods s0)) - 1"
    using dd by (simp add: length_splice1)
  with c dd have c': "int (length new) = max 0 (level s0 * 5 - (int (length (foods s0)) - 1))"
    by simp
  have "updateGameLogic now s0 = Inr (updateTimer now (powerUpCollision now nh s1))"
    unfolding s1_def by (rule updateGameLogic_move [OF assms(1-3,7,8)])
  then show ?thesis
    using f1 c' powerUpCollision_fields [of now nh s1] powerUpCollision_score [of now nh s1]
    unfolding s1_def [symmetric]
    by (simp add: updateTimer_fields)
qed

lemma tick_food_p0:
  assumes "s = determineDirection s0" and "snake s = h # rest"
    and "nh = nextHeadOf h (direction s)"
    and "findIndex (atCell nh) (foods s) = i" and "i \<noteq> - 1"
    and "pts = (if food_type (foods s ! nat i) = FRIES then 150 else 100)"
    and "0 < timerLogic_p0 (timeLeft s0)" and "\<not> hitWall_p0 nh"
    and "nh \<notin> set (butlast (snake s)) \<or> now < ghostModeEndTime s"
    and "st = s\<lparr>timeLeft := timerLogic_p0 (timeLeft s0)\<rparr>"
  shows "\<exists>s' f. updateGameLogic_p0 now s0 = Inr s' \<and>
           score (fst (eatFood_p0 nh st)) = score s0 + pts \<and>
           score s' = score s0 + pts + bonus_p0 nh (fst (eatFood_p0 nh st)) \<and>
           snake s' = nh # snake s0 \<and>
           moveInterval s' = max 50 (moveInterval s0 - 2) \<and>
           foods s' = splice1 (nat i) (foods s0) @ [f] \<and>
           length (foods s') = length (foods s0) \<and>
           level s' = level s0"
proof -
  note dd = determineDirection_fields [of s0, folded assms(1)]
  have fi: "findIndex (atCell nh) (foods st) = i" using assms(4,10) by simp
  from eatFood_p0_food [OF fi assms(5)] obtain f pu g where
    ef: "eatFood_p0 nh st =
       (st\<lparr>score := score st + (if food_type (foods st ! nat i) = FRIES then 150 else 100),
          moveInterval := max 50 (moveInterval st - 2),
          foods := splice1 (nat i) (foods st) @ [f], powerUp := pu, rand := g\<rparr>, True)"
    by blast
  define s1 where "s1 = fst (eatFood_p0 nh st)"
  have gr: "snd (eatFood_p0 nh st) = True" by (simp add: ef)
  have f1: "score s1 = score s0 + pts"
    "moveInterval s1 = max 50 (moveInterval s0 - 2)"
    "foods s1 = splice1 (nat i) (foods s0) @ [f]" "level s1 = level s0"
    unfolding s1_def ef using dd assms(6,10) by simp_all
  from findIndex_found [of "atCell nh" "foods s"] assms(4,5)
  have "nat i < length (foods s0)" using dd by simp
  then have len: "length (splice1 (nat i) (foods s0) @ [f]) = length (foods s0)"
    by (simp add: length_splice1)
  have "updateGameLogic_p0 now s0 = Inr ((eatPowerUp_p0 now nh s1)\<lparr>snake := nh # snake s\<rparr>)"
    using updateGameLogic_p0_move [OF assms(7,1,2,3,8,9,10)] gr unfolding s1_def by simp
  then show ?thesis
    using f1 len dd eatPowerUp_p0_fields [of now nh s1] eatPowerUp_p0_score [of now nh s1]
    unfolding s1_def [symmetric]
    by simp
qed

lemma tick_nofood:
  assumes "s = determineDirection s0" and "snake s = h # rest"
    and "nh = nextHeadOf h (direction s)"
    and "findIndex (atCell nh) (foods s) = - 1"
    and "\<not> hitWall nh" and "nh \<notin> set rest \<or> now \<le> ghostModeEndTime s"
  shows "\<exists>s'. updateGameLogic now s0 = Inr s' \<and> snake s' = butlast (nh # snake s0)"
  using updateGameLogic_move [OF assms(1-3,5,6)] determineDirection_fields [of s0, folded assms(1)]
  by (simp add: updateTimer_fields powerUpCollision_fields foodCollision_nofood [OF assms(4)]
      del: butlast.simps)

lemma tick_nofood_p0:
  assumes "s = determineDirection s0" and "snake s = h # rest"
    and "nh = nextHeadOf h (direction s)"
    and "findIndex (atCell nh) (foods s) = - 1"
    and "0 < timerLogic_p0 (timeLeft s0)" and "\<not> hitWall_p0 nh"
    and "nh \<notin> set (butlast (snake s)) \<or> now < ghostModeEndTime s"
  shows "\<exists>s'. updateGameLogic_p0 now s0 = Inr s' \<and> snake s' = butlast (nh # snake s0)"
proof -
  have "eatFood_p0 nh (s\<lparr>timeLeft := timerLogic_p0 (timeLeft s0)\<rparr>) =
          (s\<lparr>timeLeft := timerLogic_p0 (timeLeft s0)\<rparr>, False)"
    using assms(4) by (simp add: eatFood_p0_nofood)
  with updateGameLogic_p0_move [OF assms(5,1,2,3,6,7) refl]
    determineDirection_fields [of s0, folded assms(1)]
  show ?thesis by (simp del: butlast.simps)
qed

text \<open>
  Claim C3, as amended. On a tick that does not crash (and, in \<^verbatim>\<open>src/unnamed/part_000\<close>,
  whose countdown has not run out) and whose next head is the cell of a live food: the
  food step adds exactly 100 (hotdog) or 150 (fries); the score after the tick is that
  plus the points of a power-up that lies on the next head once the replacement has been
  spawned (500 in \<^verbatim>\<open>src/index.tsx\<close>; 500, 200 or 300 in part_000), which is nothing when
  no power-up lies there; the snake grows by exactly one segment; the tick interval
  becomes \<open>max 50 (interval - 2)\<close>; the eaten food is removed and replacements are appended,
  exactly one when the count was \<open>level * 5\<close> before, so that the count is \<open>level * 5\<close>
  again. On a tick that does not crash and finds no food the length is unchanged.
\<close>

theorem food_consumption:
  assumes "s = determineDirection s0" and "snake s = h # rest"
    and "nh = nextHeadOf h (direction s)"
    and "findIndex (atCell nh) (foods s) = i"
    and "pts = (if food_type (foods s ! nat i) = FRIES then 150 else 100)"
    and "st = s\<lparr>timeLeft := timerLogic_p0 (timeLeft s0)\<rparr>"
  shows "(\<not> hitWall nh \<and> (nh \<notin> set rest \<or> now \<le> ghostModeEndTime s) \<longrightarrow>
           (i \<noteq> - 1 \<longrightarrow>
              (\<exists>s' new. updateGameLogic now s0 = Inr s' \<and>
                 score (foodCollision nh s) = score s0 + pts \<and>
                 score s' = score s0 + pts + bonus nh (foodCollision nh s) \<and>
                 snake s' = nh # snake s0 \<and> length (snake s') = length (snake s0) + 1 \<and>
                 moveInterval s' = max 50 (moveInterval s0 - 2) \<and> 50 \<le> moveInterval s' \<and>
                 foods s' = splice1 (nat i) (foods s0) @ new \<and>
                 (int (length (foods s0)) = level s0 * 5 \<longrightarrow>
                    length new = 1 \<and> int (length (foods s')) = level s' * 5))) \<and>
           (i = - 1 \<longrightarrow>
              (\<exists>s'. updateGameLogic now s0 = Inr s' \<and> length (snake s') = length (snake s0)))) \<and>
         (0 < timerLogic_p0 (timeLeft s0) \<and> \<not> hitWall_p0 nh \<and>
          (nh \<notin> set (butlast (snake s)) \<or> now < ghostModeEndTime s) \<longrightarrow>
           (i \<noteq> - 1 \<longrightarrow>
              (\<exists>s' f. updateGameLogic_p0 now s0 = Inr s' \<and>
                 score (fst (eatFood_p0 nh st)) = score s0 + pts \<and>
                 score s' = score s0 + pts + bonus_p0 nh (fst (eatFood_p0 nh st)) \<and>
                 snake s' = nh # snake s0 \<and> length (snake s') = length (snake s0) + 1 \<and>
                 moveInterval s' = max 50 (moveInterval s0 - 2) \<and> 50 \<le> moveInterval s' \<and>
                 foods s' = splice1 (nat i) (foods s0) @ [f] \<and>
                 (int (length (foods s0)) = level s0 * 5 \<longrightarrow>
                    int (length (foods s')) = level s' * 5))) \<and>
           (i = - 1 \<longrightarrow>
              (\<exists>s'. updateGameLogic_p0 now s0 = Inr s' \<and> length (snake s') = length (snake s0))))"
proof (intro conjI impI)
  assume a: "\<not> hitWall nh \<and> (nh \<notin> set rest \<or> now \<le> ghostModeEndTime s)" and i: "i \<noteq> - 1"
  from a have a1: "\<not> hitWall nh" and a2: "nh \<notin> set rest \<or> now \<le> ghostModeEndTime s" by auto
  from tick_food [OF assms(1-4) i assms(5) a1 a2] obtain s' new where
    r: "updateGameLogic now s0 = Inr s'"
    and sc: "score (foodCollision nh s) = score s0 + pts"
      "score s' = score s0 + pts + bonus nh (foodCollision nh s)"
    and sn: "snake s' = nh # snake s0"
    and mi: "moveInterval s' = max 50 (moveInterval s0 - 2)"
    and fo: "foods s' = splice1 (nat i) (foods s0) @ new"
    and ln: "int (length new) = max 0 (level s0 * 5 - (int (length (foods s0)) - 1))"
    and lv: "level s' = level s0"
    by blast
  from findIndex_found [of "atCell nh" "foods s"] assms(4) i
  have "nat i < length (foods s0)"
    using determineDirection_fields [of s0, folded assms(1)] by simp
  then have sp: "int (length (splice1 (nat i) (foods s0))) = int (length (foods s0)) - 1"
    by (simp add: length_splice1)
  have cnt: "int (length (foods s0)) = level s0 * 5 \<longrightarrow>
                    length new = 1 \<and> int (length (foods s')) = level s' * 5"
    using ln sp unfolding fo lv by auto
  have "length (snake s') = length (snake s0) + 1" unfolding sn by simp
  moreover have "50 \<le> moveInterval s'" unfolding mi by simp
  ultimately show "\<exists>s' new. updateGameLogic now s0 = Inr s' \<and>
                 score (foodCollision nh s) = score s0 + pts \<and>
                 score s' = score s0 + pts + bonus nh (foodCollision nh s) \<and>
                 snake s' = nh # snake s0 \<and> length (snake s') = length (snake s0) + 1 \<and>
                 moveInterval s' = max 50 (moveInterval s0 - 2) \<and> 50 \<le> moveInterval s' \<and>
                 foods s' = splice1 (nat i) (foods s0) @ new \<and>
                 (int (length (foods s0)) = level s0 * 5 \<longrightarrow>
                    length new = 1 \<and> int (length (foods s')) = level s' * 5)"
    using r sc sn mi fo cnt by blast
next
  assume a: "\<not> hitWall nh \<and> (nh \<notin> set rest \<or> now \<le> ghostModeEndTime s)" and i: "i = - 1"
  from a have a1: "\<not> hitWall nh" and a2: "nh \<notin> set rest \<or> now \<le> ghostModeEndTime s" by auto
  from tick_nofood [OF assms(1-3) assms(4) [unfolded i] a1 a2] obtain s' where
    "updateGameLogic now s0 = Inr s'" and "snake s' = butlast (nh # snake s0)" by blast
  moreover have "length (butlast (nh # snake s0)) = length (snake s0)" by simp
  ultimately show "\<exists>s'. updateGameLogic now s0 = Inr s' \<and> length (snake s') = length (snake s0)"
    by metis
next
  assume a: "0 < timerLogic_p0 (timeLeft s0) \<and> \<not> hitWall_p0 nh \<and>
          (nh \<notin> set (butlast (snake s)) \<or> now < ghostModeEndTime s)" and i: "i \<noteq> - 1"
  from a have a0: "0 < timerLogic_p0 (timeLeft s0)" and a1: "\<not> hitWall_p0 nh"
    and a2: "nh \<notin> set (butlast (snake s)) \<or> now < ghostModeEndTime s" by auto
  from tick_food_p0 [OF assms(1-4) i assms(5) a0 a1 a2 assms(6)] obtain s' f where
    r: "updateGameLogic_p0 now s0 = Inr s'"
    and sc: "score (fst (eatFood_p0 nh st)) = score s0 + pts"
      "score s' = score s0 + pts + bonus_p0 nh (fst (eatFood_p0 nh st))"
    and sn: "snake s' = nh # snake s0"
    and mi: "moveInterval s' = max 50 (moveInterval s0 - 2)"
    and fo: "foods s' = splice1 (nat i) (foods s0) @ [f]"
    and ln: "length (foods s') = length (foods s0)"
    and lv: "level s' = level s0"
    by blast
  have cnt: "int (length (foods s0)) = level s0 * 5 \<longrightarrow> int (length (foods s')) = level s' * 5"
    unfolding ln lv by simp
  have "length (snake s') = length (snake s0) + 1" unfolding sn by simp
  moreover have "50 \<le> moveInterval s'" unfolding mi by simp
  ultimately show "\<exists>s' f. updateGameLogic_p0 now s0 = Inr s' \<and>
                 score (fst (eatFood_p0 nh st)) = score s0 + pts \<and>
                 score s' = score s0 + pts + bonus_p0 nh (fst (eatFood_p0 nh st)) \<and>
                 snake s' = nh # snake s0 \<and> length (snake s') = length (snake s0) + 1 \<and>
                 moveInterval s' = max 50 (moveInterval s0 - 2) \<and> 50 \<le> moveInterval s' \<and>
                 foods s' = splice1 (nat i) (foods s0) @ [f] \<and>
                 (int (length (foods s0)) = level s0 * 5 \<longrightarrow>
                    int (length (foods s')) = level s' * 5)"
    using r sc sn mi fo cnt by blast
next
  assume a: "0 < timerLogic_p0 (timeLeft s0) \<and> \<not> hitWall_p0 nh \<and>
          (nh \<notin> set (butlast (snake s)) \<or> now < ghostModeEndTime s)" and i: "i = - 1"
  from a have a0: "0 < timerLogic_p0 (timeLeft s0)" and a1: "\<not> hitWall_p0 nh"
    and a2: "nh \<notin> set (butlast (snake s)) \<or> now < ghostModeEndTime s" by auto
  from tick_nofood_p0 [OF assms(1-3) assms(4) [unfolded i] a0 a1 a2] obtain s' where
    "updateGameLogic_p0 now s0 = Inr s'" and "snake s' = butlast (nh # snake s0)" by blast
  moreover have "length (butlast (nh # snake s0)) = length (snake s0)" by simp
  ultimately show "\<exists>s'. updateGameLogic_p0 now s0 = Inr s' \<and> length (snake s') = length (snake s0)"
    by metis
qed

text \<open>
  Claim C3 as stated fails: in \<^verbatim>\<open>src/index.tsx\<close>, with the draws
  \<open>1/2, 1/2, 1/2, 1/10, 1/10, \<dots>\<close>, the replacement food is placed at \<open>(0, 0)\<close>, the
  30-per-cent draw spawns a power-up, its cell is \<open>(-12, -12)\<close>, the next head (the eaten
  food is gone and the new head is not yet part of \<^verbatim>\<open>snakeRef\<close>), and step 5 consumes it
  in the same tick: the score rises from 0 to 600, not by 100.
\<close>

theorem food_and_spawned_powerUp_same_tick:
  "score (foodAhead (half ## half ## half ## sconst tenth)) = 0 \<and>
   foods (foodAhead (half ## half ## half ## sconst tenth)) ! 4 = FoodItem (Pos (- 12) (- 12)) HOTDOG \<and>
   powerUp (foodAhead (half ## half ## half ## sconst tenth)) = None \<and>
   updateGameLogic 5000 (foodAhead (half ## half ## half ## sconst tenth)) =
     Inr ((foodAhead (sconst tenth))
            \<lparr>score := 600, moveInterval := 198,
             foods := [FoodItem (Pos (- 5) (- 5)) HOTDOG, FoodItem (Pos (- 4) 7) FRIES,
                       FoodItem (Pos 3 (- 9)) HOTDOG, FoodItem (Pos 8 8) HOTDOG,
                       FoodItem (Pos 0 0) HOTDOG],
             snake := [Pos (- 12) (- 12), Pos (- 12) (- 11), Pos (- 12) (- 10), Pos (- 12) (- 9)],
             timeLeft := double_sub 25 (double_div 198 1000)\<rparr>)"
  by (simp add: updateGameLogic_def foodAhead_def sample_defs hitSelf_def foodCollision_def
      powerUpCollision_def updateTimer_def Let_def spawn_defs
      double_defs)

text \<open>With every draw equal to 1/2 no power-up is spawned: eating the hotdog adds exactly
  100 in both files; on the tick of \<open>playState\<close>, which finds no food, the length stays 3.\<close>

theorem food_consumption_witness:
  "(\<exists>s'. updateGameLogic 5000 (foodAhead (sconst half)) = Inr s' \<and> score s' = 100 \<and>
         length (snake s') = 4 \<and> moveInterval s' = 198 \<and> int (length (foods s')) = level s' * 5) \<and>
   (\<exists>s'. updateGameLogic_p0 5000 (foodAhead (sconst half)) = Inr s' \<and> score s' = 100 \<and>
         length (snake s') = 4 \<and> moveInterval s' = 198 \<and> int (length (foods s')) = level s' * 5) \<and>
   (\<exists>s'. updateGameLogic 5000 playState = Inr s' \<and> length (snake s') = 3) \<and>
   (\<exists>s'. updateGameLogic_p0 5000 playState = Inr s' \<and> length (snake s') = 3)"
proof -
  let ?f = "foodAhead (sconst half)"
  let ?nh = "Pos (- 12) (- 12)"
  let ?rest = "[Pos (- 12) (- 10), Pos (- 12) (- 9)]"
  have h1: "?f = determineDirection ?f" by (simp add: foodAhead_def sample_defs)
  have h2: "snake ?f = Pos (- 12) (- 11) # ?rest" by (simp add: foodAhead_def sample_defs)
  have h3: "?nh = nextHeadOf (Pos (- 12) (- 11)) (direction ?f)"
    by (simp add: foodAhead_def sample_defs timerLogic_p0_start)
  have h4: "findIndex (atCell ?nh) (foods ?f) = 4" by (simp add: foodAhead_def sample_defs)
  have h5: "(100::int) = (if food_type (foods ?f ! nat 4) = FRIES then 150 else 100)"
    by (simp add: foodAhead_def sample_defs)
  have a1: "\<not> hitWall ?nh \<and> (?nh \<notin> set ?rest \<or> 5000 \<le> ghostModeEndTime ?f)"
    by (simp add: sample_defs)
  have a2: "0 < timerLogic_p0 (timeLeft ?f) \<and> \<not> hitWall_p0 ?nh \<and>
      (?nh \<notin> set (butlast (snake ?f)) \<or> 5000 < ghostModeEndTime ?f)"
    by (simp add: foodAhead_def sample_defs timerLogic_p0_start)
  have i: "(4::int) \<noteq> - 1" by simp
  have v: "score ?f = 0 \<and> length (snake ?f) = 3 \<and> moveInterval ?f = 200 \<and>
      int (length (foods ?f)) = level ?f * 5"
    by (simp add: foodAhead_def sample_defs)
  have b: "bonus ?nh (foodCollision ?nh ?f) = 0"
    by (simp add: bonus_def foodCollision_def foodAhead_def sample_defs spawn_defs Let_def)
  have b0: "bonus_p0 ?nh (fst (eatFood_p0 ?nh (?f\<lparr>timeLeft := timerLogic_p0 (timeLeft ?f)\<rparr>))) = 0"
    by (simp add: bonus_p0_def eatFood_p0_def foodAhead_def sample_defs spawn_defs Let_def)
  note t = food_consumption [OF h1 h2 h3 h4 h5 refl, of 5000]
  from t a1 i obtain s1 where "updateGameLogic 5000 ?f = Inr s1 \<and>
      score s1 = score ?f + 100 + bonus ?nh (foodCollision ?nh ?f) \<and>
      length (snake s1) = length (snake ?f) + 1 \<and>
      moveInterval s1 = max 50 (moveInterval ?f - 2) \<and>
      (int (length (foods ?f)) = level ?f * 5 \<longrightarrow> int (length (foods s1)) = level s1 * 5)"
    by blast
  then have w1: "\<exists>s'. updateGameLogic 5000 ?f = Inr s' \<and> score s' = 100 \<and>
         length (snake s') = 4 \<and> moveInterval s' = 198 \<and> int (length (foods s')) = level s' * 5"
    using v b by auto
  from t a2 i obtain s2 where "updateGameLogic_p0 5000 ?f = Inr s2 \<and>
      score s2 = score ?f + 100 +
        bonus_p0 ?nh (fst (eatFood_p0 ?nh (?f\<lparr>timeLeft := timerLogic_p0 (timeLeft ?f)\<rparr>))) \<and>
      length (snake s2) = length (snake ?f) + 1 \<and>
      moveInterval s2 = max 50 (moveInterval ?f - 2) \<and>
      (int (length (foods ?f)) = level ?f * 5 \<longrightarrow> int (length (foods s2)) = level s2 * 5)"
    by blast
  then have w2: "\<exists>s'. updateGameLogic_p0 5000 ?f = Inr s' \<and> score s' = 100 \<and>
         length (snake s') = 4 \<and> moveInterval s' = 198 \<and> int (length (foods s')) = level s' * 5"
    using v b0 by auto
  have k1: "playState = determineDirection playState" by (simp add: sample_defs)
  have k2: "snake playState = Pos 0 2 # [Pos 0 3, Pos 0 4]" by (simp add: sample_defs)
  have k3: "Pos 0 1 = nextHeadOf (Pos 0 2) (direction playState)" by (simp add: sample_defs)
  have k4: "findIndex (atCell (Pos 0 1)) (foods playState) = - 1" by (simp add: sample_defs)
  have c1: "\<not> hitWall (Pos 0 1) \<and>
      (Pos 0 1 \<notin> set [Pos 0 3, Pos 0 4] \<or> 5000 \<le> ghostModeEndTime playState)"
    by (simp add: sample_defs)
  have c2: "0 < timerLogic_p0 (timeLeft playState) \<and> \<not> hitWall_p0 (Pos 0 1) \<and>
      (Pos 0 1 \<notin> set (butlast (snake playState)) \<or> 5000 < ghostModeEndTime playState)"
    by (simp add: sample_defs timerLogic_p0_start)
  have l: "length (snake playState) = 3" by (simp add: sample_defs)
  note u = food_consumption [OF k1 k2 k3 k4 refl refl, of 5000]
  have w3: "\<exists>s'. updateGameLogic 5000 playState = Inr s' \<and> length (snake s') = 3"
    using u c1 unfolding l by blast
  have w4: "\<exists>s'. updateGameLogic_p0 5000 playState = Inr s' \<and> length (snake s') = 3"
    using u c2 unfolding l by blast
  show ?thesis using w1 w2 w3 w4 by blast
qed

subsection \<open>Power-ups\<close>

text \<open>What the food step leaves for the power-up step: the score with the points of the
  food, the snake with or without its tail, and, when no food was eaten, the power-up as
  it was.\<close>

lemma foodCollision_score_snake:
  assumes "findIndex (atCell nh) (foods s) = i"
  shows "score (foodCollision nh s) =
           score s + (if i = - 1 then 0
                      else if food_type (foods s ! nat i) = FRIES then 150 else 100) \<and>
         snake (foodCollision nh s) = (if i = - 1 then butlast (nh # snake s) else nh # snake s) \<and>
         (i = - 1 \<longrightarrow> powerUp (foodCollision nh s) = powerUp s)"
proof (cases "i = - 1")
  case True
  then show ?thesis using assms by (simp add: foodCollision_nofood del: butlast.simps)
next
  case False
  from foodCollision_food [OF assms False] obtain new pu g where
    "foodCollision nh s =
       s\<lparr>score := score s + (if food_type (foods s ! nat i) = FRIES then 150 else 100),
         moveInterval := max 50 (moveInterval s - 2),
         foods := splice1 (nat i) (foods s) @ new, powerUp := pu, rand := g,
         snake := nh # snake s\<rparr>"
    by blast
  then show ?thesis using False by simp
qed

lemma eatFood_p0_score_grown:
  assumes "findIndex (atCell nh) (foods s) = i"
  shows "score (fst (eatFood_p0 nh s)) =
           score s + (if i = - 1 then 0
                      else if food_type (foods s ! nat i) = FRIES then 150 else 100) \<and>
         snd (eatFood_p0 nh s) = (i \<noteq> - 1) \<and>
         (i = - 1 \<longrightarrow> powerUp (fst (eatFood_p0 nh s)) = powerUp s)"
proof (cases "i = - 1")
  case True
  then show ?thesis using assms by (simp add: eatFood_p0_nofood)
next
  case False
  from eatFood_p0_food [OF assms False] obtain f pu g where
    "eatFood_p0 nh s =
       (s\<lparr>score := score s + (if food_type (foods s ! nat i) = FRIES then 150 else 100),
          moveInterval := max 50 (moveInterval s - 2),
          foods := splice1 (nat i) (foods s) @ [f], powerUp := pu, rand := g\<rparr>, True)"
    by blast
  then show ?thesis using False by simp
qed

text \<open>
  Claim C5, as amended. The power-up step runs on every tick that does not crash, after
  the food step, whether or not that step has eaten a food. When the power-up lies on the
  next head cell once the food step is done (it was there before the tick or, on a tick
  that eats a food, the food step has just spawned it there), every kind of power-up
  adds to the score, on top of the points of the food (500 for each kind in
  \<^verbatim>\<open>src/index.tsx\<close>; 500 for mustard, 200 for the ghost and 300 for the burger in
  \<^verbatim>\<open>src/unnamed/part_000\<close>); in addition the ghost sets the invulnerability expiry to
  \<open>now + 10000\<close> and the burger sets the boost expiry to \<open>now + 8000\<close> and the pulse expiry
  to \<open>now + 1000\<close> (\<open>now + 2000\<close> in part_000); no other timer changes; the power-up is
  removed. The tail is removed exactly when no food is eaten on that tick: then the
  length of the snake is unchanged, otherwise the snake grows by one segment.
\<close>

theorem powerUp_consumption:
  assumes "s = determineDirection s0" and "snake s = h # rest"
    and "nh = nextHeadOf h (direction s)"
    and "findIndex (atCell nh) (foods s) = i"
    and "pts = (if i = - 1 then 0 else if food_type (foods s ! nat i) = FRIES then 150 else 100)"
    and "st = s\<lparr>timeLeft := timerLogic_p0 (timeLeft s0)\<rparr>"
  shows "(\<not> hitWall nh \<and> (nh \<notin> set rest \<or> now \<le> ghostModeEndTime s) \<and>
          powerUp (foodCollision nh s) = Some (PowerUp nh ty) \<longrightarrow>
           (\<exists>s'. updateGameLogic now s0 = Inr s' \<and>
              score s' = score s0 + pts + 500 \<and>
              ghostModeEndTime s' = (if ty = GHOST then now + 10000 else ghostModeEndTime s0) \<and>
              speedBoostEndTime s' = (if ty = BURGER then now + 8000 else speedBoostEndTime s0) \<and>
              dogPulseEndTime s' = (if ty = BURGER then now + 1000 else dogPulseEndTime s0) \<and>
              powerUp s' = None \<and>
              snake s' = (if i = - 1 then butlast (nh # snake s0) else nh # snake s0) \<and>
              length (snake s') = length (snake s0) + (if i = - 1 then 0 else 1))) \<and>
         (0 < timerLogic_p0 (timeLeft s0) \<and> \<not> hitWall_p0 nh \<and>
          (nh \<notin> set (butlast (snake s)) \<or> now < ghostModeEndTime s) \<and>
          powerUp (fst (eatFood_p0 nh st)) = Some (PowerUp nh ty) \<longrightarrow>
           (\<exists>s'. updateGameLogic_p0 now s0 = Inr s' \<and>
              score s' = score s0 + pts
                           + (case ty of MUSTARD \<Rightarrow> 500 | GHOST \<Rightarrow> 200 | BURGER \<Rightarrow> 300) \<and>
              ghostModeEndTime s' = (if ty = GHOST then now + 10000 else ghostModeEndTime s0) \<and>
              speedBoostEndTime s' = (if ty = BURGER then now + 8000 else speedBoostEndTime s0) \<and>
              dogPulseEndTime s' = (if ty = BURGER then now + 2000 else dogPulseEndTime s0) \<and>
              powerUp s' = None \<and>
              snake s' = (if i = - 1 then butlast (nh # snake s0) else nh # snake s0) \<and>
              length (snake s') = length (snake s0) + (if i = - 1 then 0 else 1))) \<and>
         (i = - 1 \<longrightarrow> powerUp (foodCollision nh s) = powerUp s0 \<and>
                      powerUp (fst (eatFood_p0 nh st)) = powerUp s0)"
proof (intro conjI impI)
  note dd = determineDirection_fields [of s0, folded assms(1)]
  assume a: "\<not> hitWall nh \<and> (nh \<notin> set rest \<or> now \<le> ghostModeEndTime s) \<and>
          powerUp (foodCollision nh s) = Some (PowerUp nh ty)"
  define sn where "sn = (if i = - 1 then butlast (nh # snake s0) else nh # snake s0)"
  have len: "length sn = length (snake s0) + (if i = - 1 then 0 else 1)" by (simp add: sn_def)
  define s1 where "s1 = foodCollision nh s"
  note fs = foodCollision_score_snake [OF assms(4), folded s1_def]
  note ff = foodCollision_fields [of nh s, folded s1_def]
  have pu: "powerUp s1 = Some (PowerUp nh ty)" using a by (simp add: s1_def)
  define s2 where "s2 = powerUpCollision now nh s1"
  note pc = powerUpCollision_hit [OF pu, of now, folded s2_def]
  have "updateGameLogic now s0 = Inr (updateTimer now s2)"
    using updateGameLogic_move [OF assms(1-3), of now] a by (simp add: s2_def s1_def)
  moreover have "score s2 = score s0 + pts + 500" using dd fs by (simp add: pc assms(5))
  moreover have "ghostModeEndTime s2 = (if ty = GHOST then now + 10000 else ghostModeEndTime s0)"
    using dd ff by (simp add: pc)
  moreover have "speedBoostEndTime s2 = (if ty = BURGER then now + 8000 else speedBoostEndTime s0)"
    using dd ff by (simp add: pc)
  moreover have "dogPulseEndTime s2 = (if ty = BURGER then now + 1000 else dogPulseEndTime s0)"
    using dd ff by (simp add: pc)
  moreover have "powerUp s2 = None" by (simp add: pc)
  moreover have "snake s2 = sn" using dd fs by (simp add: pc sn_def del: butlast.simps)
  ultimately show "\<exists>s'. updateGameLogic now s0 = Inr s' \<and>
              score s' = score s0 + pts + 500 \<and>
              ghostModeEndTime s' = (if ty = GHOST then now + 10000 else ghostModeEndTime s0) \<and>
              speedBoostEndTime s' = (if ty = BURGER then now + 8000 else speedBoostEndTime s0) \<and>
              dogPulseEndTime s' = (if ty = BURGER then now + 1000 else dogPulseEndTime s0) \<and>
              powerUp s' = None \<and>
              snake s' = (if i = - 1 then butlast (nh # snake s0) else nh # snake s0) \<and>
              length (snake s') = length (snake s0) + (if i = - 1 then 0 else 1)"
    using len unfolding sn_def [symmetric] by (simp add: updateTimer_fields)
next
  note dd = determineDirection_fields [of s0, folded assms(1)]
  assume a: "0 < timerLogic_p0 (timeLeft s0) \<and> \<not> hitWall_p0 nh \<and>
          (nh \<notin> set (butlast (snake s)) \<or> now < ghostModeEndTime s) \<and>
          powerUp (fst (eatFood_p0 nh st)) = Some (PowerUp nh ty)"
  define sn where "sn = (if i = - 1 then butlast (nh # snake s0) else nh # snake s0)"
  have len: "length sn = length (snake s0) + (if i = - 1 then 0 else 1)" by (simp add: sn_def)
  have fi: "findIndex (atCell nh) (foods st) = i" using assms(4,6) by simp
  define s1 where "s1 = fst (eatFood_p0 nh st)"
  note fs = eatFood_p0_score_grown [OF fi, folded s1_def]
  note ff = eatFood_p0_fields [of nh st, folded s1_def]
  have pu: "powerUp s1 = Some (PowerUp nh ty)" using a by (simp add: s1_def)
  define s2 where "s2 = eatPowerUp_p0 now nh s1"
  note pc = eatPowerUp_p0_hit [OF pu, of now, folded s2_def]
  have "updateGameLogic_p0 now s0 = Inr (s2\<lparr>snake := sn\<rparr>)"
    using updateGameLogic_p0_move [OF _ assms(1-3) _ _ assms(6), of now] a fs dd
    by (simp add: s2_def s1_def sn_def del: butlast.simps)
  moreover have "score s2 = score s0 + pts
                           + (case ty of MUSTARD \<Rightarrow> 500 | GHOST \<Rightarrow> 200 | BURGER \<Rightarrow> 300)"
    using dd fs assms(6) by (simp add: pc assms(5))
  moreover have "ghostModeEndTime s2 = (if ty = GHOST then now + 10000 else ghostModeEndTime s0)"
    using dd ff assms(6) by (simp add: pc)
  moreover have "speedBoostEndTime s2 = (if ty = BURGER then now + 8000 else speedBoostEndTime s0)"
    using dd ff assms(6) by (simp add: pc)
  moreover have "dogPulseEndTime s2 = (if ty = BURGER then now + 2000 else dogPulseEndTime s0)"
    using dd ff assms(6) by (simp add: pc)
  moreover have "powerUp s2 = None" by (simp add: pc)
  ultimately show "\<exists>s'. updateGameLogic_p0 now s0 = Inr s' \<and>
              score s' = score s0 + pts
                           + (case ty of MUSTARD \<Rightarrow> 500 | GHOST \<Rightarrow> 200 | BURGER \<Rightarrow> 300) \<and>
              ghostModeEndTime s' = (if ty = GHOST then now + 10000 else ghostModeEndTime s0) \<and>
              speedBoostEndTime s' = (if ty = BURGER then now + 8000 else speedBoostEndTime s0) \<and>
              dogPulseEndTime s' = (if ty = BURGER then now + 2000 else dogPulseEndTime s0) \<and>
              powerUp s' = None \<and>
              snake s' = (if i = - 1 then butlast (nh # snake s0) else nh # snake s0) \<and>
              length (snake s') = length (snake s0) + (if i = - 1 then 0 else 1)"
    using len unfolding sn_def [symmetric] by simp
next
  note dd = determineDirection_fields [of s0, folded assms(1)]
  assume i: "i = - 1"
  show "powerUp (foodCollision nh s) = powerUp s0"
    using foodCollision_score_snake [OF assms(4)] i dd by simp
  have fi: "findIndex (atCell nh) (foods st) = i" using assms(4,6) by simp
  show "powerUp (fst (eatFood_p0 nh st)) = powerUp s0"
    using eatFood_p0_score_grown [OF fi] i dd assms(6) by simp
qed


text \<open>With the draws \<open>burgerDraws\<close> the food step of \<open>foodAhead\<close> spawns a burger on the cell
  that the head enters on that very tick.\<close>

lemma burger_spawned_under_head:
  "powerUp (foodCollision (Pos (- 12) (- 12)) (foodAhead burgerDraws)) =
     Some (PowerUp (Pos (- 12) (- 12)) BURGER) \<and>
   powerUp (fst (eatFood_p0 (Pos (- 12) (- 12))
                  ((foodAhead burgerDraws)\<lparr>timeLeft := timerLogic_p0 25\<rparr>))) =
     Some (PowerUp (Pos (- 12) (- 12)) BURGER)"
  by (simp add: foodCollision_def eatFood_p0_def foodAhead_def burgerDraws_def sample_defs
      spawn_defs Let_def floor_rat_numeral)

text \<open>The ghost power-up of \<open>ghostAhead\<close>, eaten at the clock reading 5000 on a tick without
  food: 500 points in \<^verbatim>\<open>src/index.tsx\<close>, 200 in \<^verbatim>\<open>src/unnamed/part_000\<close>, the expiry at
  15000, three segments before and after. The burger spawned under the head of
  \<open>foodAhead burgerDraws\<close>, eaten on the tick that eats the hotdog: 100 + 500 points
  (100 + 300 in part_000), the boost expiry at 13000, the pulse expiry at 6000 (7000 in
  part_000), and the snake grows from three segments to four.\<close>

theorem powerUp_consumption_witness:
  "(\<exists>s'. updateGameLogic 5000 ghostAhead = Inr s' \<and> score s' = 500 \<and>
         ghostModeEndTime s' = 15000 \<and> powerUp s' = None \<and> length (snake s') = 3) \<and>
   (\<exists>s'. updateGameLogic_p0 5000 ghostAhead = Inr s' \<and> score s' = 200 \<and>
         ghostModeEndTime s' = 15000 \<and> powerUp s' = None \<and> length (snake s') = 3) \<and>
   (\<exists>s'. updateGameLogic 5000 (foodAhead burgerDraws) = Inr s' \<and> score s' = 600 \<and>
         speedBoostEndTime s' = 13000 \<and> dogPulseEndTime s' = 6000 \<and> powerUp s' = None \<and>
         length (snake s') = 4) \<and>
   (\<exists>s'. updateGameLogic_p0 5000 (foodAhead burgerDraws) = Inr s' \<and> score s' = 400 \<and>
         speedBoostEndTime s' = 13000 \<and> dogPulseEndTime s' = 7000 \<and> powerUp s' = None \<and>
         length (snake s') = 4) \<and>
   powerUp (foodCollision (Pos 0 1) ghostAhead) = Some (PowerUp (Pos 0 1) GHOST)"
proof -
  have h1: "ghostAhead = determineDirection ghostAhead"
    by (simp add: ghostAhead_def sample_defs)
  have h2: "snake ghostAhead = Pos 0 2 # [Pos 0 3, Pos 0 4]"
    by (simp add: ghostAhead_def sample_defs)
  have h3: "Pos 0 1 = nextHeadOf (Pos 0 2) (direction ghostAhead)"
    by (simp add: ghostAhead_def sample_defs)
  have h4: "findIndex (atCell (Pos 0 1)) (foods ghostAhead) = - 1"
    by (simp add: ghostAhead_def sample_defs)
  have h5: "(0::int) = (if (- 1::int) = - 1 then 0
                else if food_type (foods ghostAhead ! nat (- 1)) = FRIES then 150 else 100)"
    by simp
  have hp: "powerUp ghostAhead = Some (PowerUp (Pos 0 1) GHOST)" by (simp add: ghostAhead_def)
  have hv: "score ghostAhead = 0 \<and> length (snake ghostAhead) = 3 \<and> timeLeft ghostAhead = 25"
    by (simp add: ghostAhead_def sample_defs)
  note t = powerUp_consumption [OF h1 h2 h3 h4 h5 refl, of 5000]
  from t hp have m: "powerUp (foodCollision (Pos 0 1) ghostAhead) = Some (PowerUp (Pos 0 1) GHOST)"
    and m0: "powerUp (fst (eatFood_p0 (Pos 0 1)
               (ghostAhead\<lparr>timeLeft := timerLogic_p0 (timeLeft ghostAhead)\<rparr>))) =
             Some (PowerUp (Pos 0 1) GHOST)"
    by simp_all
  have a1: "\<not> hitWall (Pos 0 1) \<and>
      (Pos 0 1 \<notin> set [Pos 0 3, Pos 0 4] \<or> 5000 \<le> ghostModeEndTime ghostAhead)"
    by (simp add: sample_defs)
  have a2: "0 < timerLogic_p0 (timeLeft ghostAhead) \<and> \<not> hitWall_p0 (Pos 0 1) \<and>
      (Pos 0 1 \<notin> set (butlast (snake ghostAhead)) \<or> 5000 < ghostModeEndTime ghostAhead)"
    by (simp add: ghostAhead_def sample_defs timerLogic_p0_start)
  from t [of GHOST] a1 m obtain s1 where "updateGameLogic 5000 ghostAhead = Inr s1 \<and>
      score s1 = score ghostAhead + 0 + 500 \<and> ghostModeEndTime s1 = 5000 + 10000 \<and>
      powerUp s1 = None \<and> length (snake s1) = length (snake ghostAhead) + 0"
    by auto
  then have w1: "\<exists>s'. updateGameLogic 5000 ghostAhead = Inr s' \<and> score s' = 500 \<and>
         ghostModeEndTime s' = 15000 \<and> powerUp s' = None \<and> length (snake s') = 3"
    using hv by auto
  from t [of GHOST] a2 m0 obtain s2 where "updateGameLogic_p0 5000 ghostAhead = Inr s2 \<and>
      score s2 = score ghostAhead + 0 + 200 \<and> ghostModeEndTime s2 = 5000 + 10000 \<and>
      powerUp s2 = None \<and> length (snake s2) = length (snake ghostAhead) + 0"
    by auto
  then have w2: "\<exists>s'. updateGameLogic_p0 5000 ghostAhead = Inr s' \<and> score s' = 200 \<and>
         ghostModeEndTime s' = 15000 \<and> powerUp s' = None \<and> length (snake s') = 3"
    using hv by auto
  let ?f = "foodAhead burgerDraws"
  let ?nh = "Pos (- 12) (- 12)"
  have f1: "?f = determineDirection ?f" by (simp add: foodAhead_def sample_defs)
  have f2: "snake ?f = Pos (- 12) (- 11) # [Pos (- 12) (- 10), Pos (- 12) (- 9)]"
    by (simp add: foodAhead_def sample_defs)
  have f3: "?nh = nextHeadOf (Pos (- 12) (- 11)) (direction ?f)"
    by (simp add: foodAhead_def sample_defs)
  have f4: "findIndex (atCell ?nh) (foods ?f) = 4" by (simp add: foodAhead_def sample_defs)
  have f5: "(100::int) = (if (4::int) = - 1 then 0
                else if food_type (foods ?f ! nat 4) = FRIES then 150 else 100)"
    by (simp add: foodAhead_def sample_defs)
  have fv: "score ?f = 0 \<and> length (snake ?f) = 3 \<and> timeLeft ?f = 25 \<and>
      speedBoostEndTime ?f = 0 \<and> dogPulseEndTime ?f = 0"
    by (simp add: foodAhead_def sample_defs)
  have b1: "\<not> hitWall ?nh \<and>
      (?nh \<notin> set [Pos (- 12) (- 10), Pos (- 12) (- 9)] \<or> 5000 \<le> ghostModeEndTime ?f) \<and>
      powerUp (foodCollision ?nh ?f) = Some (PowerUp ?nh BURGER)"
    using burger_spawned_under_head by (simp add: sample_defs)
  have b2: "0 < timerLogic_p0 (timeLeft ?f) \<and> \<not> hitWall_p0 ?nh \<and>
      (?nh \<notin> set (butlast (snake ?f)) \<or> 5000 < ghostModeEndTime ?f) \<and>
      powerUp (fst (eatFood_p0 ?nh (?f\<lparr>timeLeft := timerLogic_p0 (timeLeft ?f)\<rparr>))) =
        Some (PowerUp ?nh BURGER)"
    using burger_spawned_under_head fv
    by (simp add: foodAhead_def sample_defs timerLogic_p0_start)
  note u = powerUp_consumption [OF f1 f2 f3 f4 f5 refl, of 5000 BURGER]
  from u b1 obtain s3 where "updateGameLogic 5000 ?f = Inr s3 \<and>
      score s3 = score ?f + 100 + 500 \<and> speedBoostEndTime s3 = 5000 + 8000 \<and>
      dogPulseEndTime s3 = 5000 + 1000 \<and> powerUp s3 = None \<and>
      length (snake s3) = length (snake ?f) + 1"
    by auto
  then have w3: "\<exists>s'. updateGameLogic 5000 ?f = Inr s' \<and> score s' = 600 \<and>
         speedBoostEndTime s' = 13000 \<and> dogPulseEndTime s' = 6000 \<and> powerUp s' = None \<and>
         length (snake s') = 4"
    using fv by auto
  from u b2 obtain s4 where "updateGameLogic_p0 5000 ?f = Inr s4 \<and>
      score s4 = score ?f + 100 + 300 \<and> speedBoostEndTime s4 = 5000 + 8000 \<and>
      dogPulseEndTime s4 = 5000 + 2000 \<and> powerUp s4 = None \<and>
      length (snake s4) = length (snake ?f) + 1"
    by auto
  then have w4: "\<exists>s'. updateGameLogic_p0 5000 ?f = Inr s' \<and> score s' = 400 \<and>
         speedBoostEndTime s' = 13000 \<and> dogPulseEndTime s' = 7000 \<and> powerUp s' = None \<and>
         length (snake s') = 4"
    using fv by auto
  show ?thesis using w1 w2 w3 w4 m by blast
qed

text \<open>The whole tick that eats the hotdog and the burger, in both files.\<close>

lemma burger_eaten_on_food_tick:
  "updateGameLogic 5000 (foodAhead burgerDraws) =
     Inr ((foodAhead (sconst half))
            \<lparr>score := 600, moveInterval := 198,
             foods := [FoodItem (Pos (- 5) (- 5)) HOTDOG, FoodItem (Pos (- 4) 7) FRIES,
                       FoodItem (Pos 3 (- 9)) HOTDOG, FoodItem (Pos 8 8) HOTDOG,
                       FoodItem (Pos 0 0) HOTDOG],
             speedBoostEndTime := 13000, dogPulseEndTime := 6000,
             snake := [Pos (- 12) (- 12), Pos (- 12) (- 11), Pos (- 12) (- 10), Pos (- 12) (- 9)],
             timeLeft := double_sub 25 (double_div 198 1000)\<rparr>)"
  by (simp add: updateGameLogic_def foodAhead_def burgerDraws_def sample_defs hitSelf_def
      foodCollision_def powerUpCollision_def updateTimer_def Let_def spawn_defs double_defs)

lemma burger_eaten_on_food_tick_p0:
  "updateGameLogic_p0 5000 (foodAhead burgerDraws) =
     Inr ((foodAhead (sconst half))
            \<lparr>score := 400, moveInterval := 198,
             foods := [FoodItem (Pos (- 5) (- 5)) HOTDOG, FoodItem (Pos (- 4) 7) FRIES,
                       FoodItem (Pos 3 (- 9)) HOTDOG, FoodItem (Pos 8 8) HOTDOG,
                       FoodItem (Pos 0 0) HOTDOG],
             speedBoostEndTime := 13000, dogPulseEndTime := 7000,
             snake := [Pos (- 12) (- 12), Pos (- 12) (- 11), Pos (- 12) (- 10), Pos (- 12) (- 9)],
             timeLeft := timerLogic_p0 25\<rparr>)"
  by (simp add: updateGameLogic_p0_def foodAhead_def burgerDraws_def sample_defs hitSelf_p0_def
      eatFood_p0_def eatPowerUp_p0_def handlePowerUp_p0_def Let_def spawn_defs
      timerLogic_p0_def double_defs)


text \<open>Claim C5 as stated fails: eating the ghost power-up in \<^verbatim>\<open>src/index.tsx\<close> raises
  the score from 0 to 500 besides setting the expiry.\<close>

theorem ghost_powerUp_adds_score:
  "score ghostAhead = 0 \<and>
   updateGameLogic 5000 ghostAhead =
     Inr (ghostAhead\<lparr>snake := [Pos 0 1, Pos 0 2, Pos 0 3], score := 500,
                     ghostModeEndTime := 15000, powerUp := None,
                     timeLeft := double_sub 25 (double_div 200 1000)\<rparr>)"
  by (simp add: updateGameLogic_def ghostAhead_def sample_defs hitSelf_def foodCollision_def
      powerUpCollision_def updateTimer_def Let_def
      double_defs)

subsection \<open>Countdown and level-up\<close>

lemma nextLevel_callback_frame:
  "\<exists>new pu g.
     nextLevel_callback s =
       s\<lparr>level := level s + 1, baseLevelSpeed := max 50 (baseLevelSpeed s - 15),
         moveInterval := max 50 (baseLevelSpeed s - 15), timeLeft := LEVEL_DURATION,
         levelStartScore := score s, gameState := PLAYING,
         direction := Pos 0 (- 1), moveQueue := [],
         snake := [Pos 0 2, Pos 0 3, Pos 0 4], foods := new, powerUp := pu, rand := g\<rparr> \<and>
     int (length new) = max 0 ((level s + 1) * 5)"
proof -
  define s5 where "s5 = s\<lparr>level := level s + 1, baseLevelSpeed := max 50 (baseLevelSpeed s - 15),
         moveInterval := max 50 (baseLevelSpeed s - 15), timeLeft := LEVEL_DURATION,
         levelStartScore := score s\<rparr>"
  from resetGame_frame [of False s5] obtain new pu g where
    r: "resetGame False s5 = s5\<lparr>gameState := PLAYING, direction := Pos 0 (- 1), moveQueue := [],
        snake := [Pos 0 2, Pos 0 3, Pos 0 4], foods := new, powerUp := pu, rand := g\<rparr>"
    and c: "int (length new) = max 0 (level s5 * 5)"
    by auto
  have "nextLevel_callback s = (resetGame False s5)\<lparr>gameState := PLAYING\<rparr>"
    by (simp add: nextLevel_callback_def Let_def s5_def)
  then have "nextLevel_callback s =
       s\<lparr>level := level s + 1, baseLevelSpeed := max 50 (baseLevelSpeed s - 15),
         moveInterval := max 50 (baseLevelSpeed s - 15), timeLeft := LEVEL_DURATION,
         levelStartScore := score s, gameState := PLAYING,
         direction := Pos 0 (- 1), moveQueue := [],
         snake := [Pos 0 2, Pos 0 3, Pos 0 4], foods := new, powerUp := pu, rand := g\<rparr>"
    unfolding r by (simp add: s5_def)
  moreover have "int (length new) = max 0 ((level s + 1) * 5)" using c by (simp add: s5_def)
  ultimately show ?thesis by blast
qed

lemma nextLevel_callback_fields:
  "level (nextLevel_callback s) = level s + 1 \<and>
   timeLeft (nextLevel_callback s) = LEVEL_DURATION \<and>
   baseLevelSpeed (nextLevel_callback s) = max 50 (baseLevelSpeed s - 15) \<and>
   moveInterval (nextLevel_callback s) = max 50 (baseLevelSpeed s - 15) \<and>
   levelStartScore (nextLevel_callback s) = score s \<and>
   score (nextLevel_callback s) = score s \<and>
   gameState (nextLevel_callback s) = PLAYING \<and>
   timeouts (nextLevel_callback s) = timeouts s"
proof -
  from nextLevel_callback_frame [of s] obtain new pu g where
    "nextLevel_callback s =
       s\<lparr>level := level s + 1, baseLevelSpeed := max 50 (baseLevelSpeed s - 15),
         moveInterval := max 50 (baseLevelSpeed s - 15), timeLeft := LEVEL_DURATION,
         levelStartScore := score s, gameState := PLAYING,
         direction := Pos 0 (- 1), moveQueue := [],
         snake := [Pos 0 2, Pos 0 3, Pos 0 4], foods := new, powerUp := pu, rand := g\<rparr>"
    by blast
  then show ?thesis by simp
qed

lemma finishLevel_callback_p0_fields:
  "level (finishLevel_callback_p0 s) = level s + 1 \<and>
   timeLeft (finishLevel_callback_p0 s) = LEVEL_DURATION \<and>
   baseLevelSpeed (finishLevel_callback_p0 s) = max 80 (200 - level s * 20) \<and>
   moveInterval (finishLevel_callback_p0 s) = max 80 (200 - level s * 20) \<and>
   levelStartScore (finishLevel_callback_p0 s) = (if level s = 0 then 0 else score s) \<and>
   score (finishLevel_callback_p0 s) = (if level s = 0 then 0 else score s) \<and>
   gameState (finishLevel_callback_p0 s) = PLAYING \<and>
   timeouts (finishLevel_callback_p0 s) = timeouts s"
proof -
  from resetGame_p0_frame [of "level s + 1" "s\<lparr>gameState := PLAYING\<rparr>"] obtain new g where
    "resetGame_p0 (level s + 1) (s\<lparr>gameState := PLAYING\<rparr>) =
       (s\<lparr>gameState := PLAYING\<rparr>)
        \<lparr>level := level s + 1,
         score := (if level s + 1 = 1 then 0 else score (s\<lparr>gameState := PLAYING\<rparr>)),
         levelStartScore := (if level s + 1 = 1 then 0 else score (s\<lparr>gameState := PLAYING\<rparr>)),
         snake := [Pos 0 0], direction := Pos 0 (- 1), moveQueue := [],
         timeLeft := LEVEL_DURATION, baseLevelSpeed := max 80 (200 - (level s + 1 - 1) * 20),
         moveInterval := max 80 (200 - (level s + 1 - 1) * 20),
         ghostModeEndTime := 0, speedBoostEndTime := 0, dogPulseEndTime := 0,
         foods := new, rand := g\<rparr>"
    by blast
  then show ?thesis by (simp add: finishLevel_callback_p0_def startLevel_p0_def)
qed

lemma tick_timer:
  assumes "s = determineDirection s0" and "snake s = h # rest"
    and "nh = nextHeadOf h (direction s)"
    and "\<not> hitWall nh" and "nh \<notin> set rest \<or> now \<le> ghostModeEndTime s"
  shows "\<exists>s'. updateGameLogic now s0 = Inr s' \<and>
           timeLeft s' = double_sub (timeLeft s0) (double_div (of_int (moveInterval s')) 1000) \<and>
           moveInterval s' = (if findIndex (atCell nh) (foods s) = - 1 then moveInterval s0
                              else max 50 (moveInterval s0 - 2)) \<and>
           gameState s' = (if timeLeft s' \<le> 0 then LEVEL_TRANSITION else gameState s0) \<and>
           timeouts s' = (if timeLeft s' \<le> 0
                          then timeouts s0 @ map (\<lambda>i. (now + int i * 300, SpawnFirework)) [0..<15]
                                 @ [(now + 4000, AdvanceLevel)]
                          else timeouts s0)"
proof -
  note dd = determineDirection_fields [of s0, folded assms(1)]
  define s1 where "s1 = foodCollision nh s"
  define s2 where "s2 = powerUpCollision now nh s1"
  have mi1: "moveInterval s1 = (if findIndex (atCell nh) (foods s) = - 1 then moveInterval s0
                              else max 50 (moveInterval s0 - 2))"
  proof (cases "findIndex (atCell nh) (foods s) = - 1")
    case True
    then show ?thesis unfolding s1_def using dd by (simp add: foodCollision_nofood)
  next
    case False
    from foodCollision_food [OF refl False] obtain new pu g where
      "foodCollision nh s =
       s\<lparr>score := score s + (if food_type (foods s ! nat (findIndex (atCell nh) (foods s))) = FRIES
                              then 150 else 100),
         moveInterval := max 50 (moveInterval s - 2),
         foods := splice1 (nat (findIndex (atCell nh) (foods s))) (foods s) @ new,
         powerUp := pu, rand := g, snake := nh # snake s\<rparr>"
      by blast
    then show ?thesis unfolding s1_def using dd False by simp
  qed
  have f2: "moveInterval s2 = moveInterval s1" "timeLeft s2 = timeLeft s0"
    "gameState s2 = gameState s0" "timeouts s2 = timeouts s0"
    unfolding s2_def s1_def using dd
    by (simp_all add: powerUpCollision_fields foodCollision_fields)
  have "updateGameLogic now s0 = Inr (updateTimer now s2)"
    unfolding s2_def s1_def by (rule updateGameLogic_move [OF assms])
  then show ?thesis
    using f2 mi1 by (simp add: updateTimer_fields updateTimer_state)
qed

lemma tick_timer_p0:
  assumes "s = determineDirection s0" and "snake s = h # rest"
  shows "\<exists>s'. updateGameLogic_p0 now s0 = Inr s' \<and>
           timeLeft s' = timerLogic_p0 (timeLeft s0) \<and>
           (timeLeft s' \<le> 0 \<longrightarrow>
              gameState s' = LEVEL_TRANSITION \<and>
              timeouts s' = timeouts s0 @ map (\<lambda>i. (now + int i * 300, SpawnFirework)) [0..<5]
                              @ [(now + 3000, AdvanceLevel)]) \<and>
           (0 < timeLeft s' \<longrightarrow>
              (gameState s' = gameState s0 \<or> gameState s' = GAME_OVER) \<and>
              timeouts s' = timeouts s0)"
proof (cases "timerLogic_p0 (timeLeft s0) \<le> 0")
  case True
  then show ?thesis
    by (simp add: updateGameLogic_p0_expired finishLevel_p0_def)
next
  case False
  then have pos: "0 < timerLogic_p0 (timeLeft s0)" by simp
  note dd = determineDirection_fields [of s0, folded assms(1)]
  define nh where "nh = nextHeadOf h (direction s)"
  show ?thesis
  proof (cases "hitWall_p0 nh \<or> (nh \<in> set (butlast (snake s)) \<and> \<not> now < ghostModeEndTime s)")
    case True
    from updateGameLogic_p0_crash [OF pos assms nh_def True] dd pos
    show ?thesis by simp
  next
    case False
    then have a1: "\<not> hitWall_p0 nh"
      and a2: "nh \<notin> set (butlast (snake s)) \<or> now < ghostModeEndTime s" by auto
    define st where "st = s\<lparr>timeLeft := timerLogic_p0 (timeLeft s0)\<rparr>"
    from updateGameLogic_p0_move [OF pos assms nh_def a1 a2 st_def] dd pos
    show ?thesis
      by (simp add: eatPowerUp_p0_fields eatFood_p0_fields st_def timerLogic_p0_start)
  qed
qed

text \<open>
  A level played at the start interval of 200 ms in which nothing is eaten. In exact
  arithmetic 125 ticks use up the 25 s. The code computes with doubles: \<^verbatim>\<open>200 / 1000\<close> is
  the double nearest to one fifth, every subtraction rounds, and after 125 ticks
  \<open>997 / 2 ^ 54\<close> s are left, so the state is still \<open>PLAYING\<close>; the transition starts on tick
  126. The 125 ticks are run 25 at a time.
\<close>

lemma funpow_numeral_unroll: "(f ^^ numeral k) x = (f ^^ pred_numeral k) (f x)"
  by (simp add: numeral_eq_Suc funpow_swap1)

lemma funpow_split: "(f ^^ (m + n)) x = (f ^^ m) ((f ^^ n) x)"
  by (simp add: funpow_add)

lemma double_div_200_1000: "double_div 200 1000 = 3602879701896397 / 18014398509481984"
  by (simp add: double_defs)

lemmas countdown_defs = funpow_numeral_unroll updateTimer_def nextLevel_def sample_defs
  double_div_200_1000 round_double_def double_sub_def pow2_def roundHalfEven_def Let_def
  exponent_halve exponent_double exponent_found floor_rat_numeral

lemma ticks_1_to_25:
  "(updateTimer 5000 ^^ 25) playState =
     playState\<lparr>timeLeft := 5629499534213125 / 281474976710656\<rparr>"
  by (simp add: countdown_defs)

lemma ticks_26_to_50:
  "(updateTimer 5000 ^^ 25) (playState\<lparr>timeLeft := 5629499534213125 / 281474976710656\<rparr>) =
     playState\<lparr>timeLeft := 2111062325329925 / 140737488355328\<rparr>"
  by (simp add: countdown_defs)

lemma ticks_51_to_75:
  "(updateTimer 5000 ^^ 25) (playState\<lparr>timeLeft := 2111062325329925 / 140737488355328\<rparr>) =
     playState\<lparr>timeLeft := 2814749767106575 / 281474976710656\<rparr>"
  by (simp add: countdown_defs)

lemma ticks_76_to_100:
  "(updateTimer 5000 ^^ 25) (playState\<lparr>timeLeft := 2814749767106575 / 281474976710656\<rparr>) =
     playState\<lparr>timeLeft := 5629499534213185 / 1125899906842624\<rparr>"
  by (simp add: countdown_defs)

lemma ticks_101_to_125:
  "(updateTimer 5000 ^^ 25) (playState\<lparr>timeLeft := 5629499534213185 / 1125899906842624\<rparr>) =
     playState\<lparr>timeLeft := 997 / 18014398509481984\<rparr>"
  by (simp add: countdown_defs)

lemma tick_126:
  "updateTimer 5000 (playState\<lparr>timeLeft := 997 / 18014398509481984\<rparr>) =
     nextLevel 5000 (playState\<lparr>timeLeft := - (450359962736925 / 2251799813685248)\<rparr>)"
  by (simp add: countdown_defs)

lemma default_level_lasts_126_ticks:
  "(updateTimer 5000 ^^ 125) playState = playState\<lparr>timeLeft := 997 / 18014398509481984\<rparr> \<and>
   gameState ((updateTimer 5000 ^^ 125) playState) = PLAYING \<and>
   (updateTimer 5000 ^^ 126) playState =
     nextLevel 5000 (playState\<lparr>timeLeft := - (450359962736925 / 2251799813685248)\<rparr>) \<and>
   gameState ((updateTimer 5000 ^^ 126) playState) = LEVEL_TRANSITION"
proof -
  have "(updateTimer 5000 ^^ 125) playState =
          (updateTimer 5000 ^^ (25 + (25 + (25 + (25 + 25))))) playState"
    by simp
  then have a: "(updateTimer 5000 ^^ 125) playState =
                  playState\<lparr>timeLeft := 997 / 18014398509481984\<rparr>"
    by (simp only: funpow_split ticks_1_to_25 ticks_26_to_50 ticks_51_to_75 ticks_76_to_100
        ticks_101_to_125)
  have "(126::nat) = Suc 125" by simp
  then have "(updateTimer 5000 ^^ 126) playState =
               updateTimer 5000 ((updateTimer 5000 ^^ 125) playState)"
    by (simp only: funpow.simps o_apply)
  then have b: "(updateTimer 5000 ^^ 126) playState =
     nextLevel 5000 (playState\<lparr>timeLeft := - (450359962736925 / 2251799813685248)\<rparr>)"
    by (simp only: a tick_126)
  show ?thesis unfolding a b by (simp add: nextLevel_def sample_defs)
qed

text \<open>
  Claim C7, as amended. While \<open>PLAYING\<close>, a tick runs when more than the effective interval
  (60 ms while the speed boost is active, the tick interval otherwise) has passed since
  the last one, and no tick runs in any other state. In \<^verbatim>\<open>src/index.tsx\<close> a tick that
  does not crash subtracts from the countdown the tick interval itself, as the food step
  of that tick leaves it, in seconds (the double quotient \<^verbatim>\<open>moveInterval / 1000\<close>,
  subtracted in double arithmetic), whatever the effective interval was; a crashing
  tick leaves the countdown alone. In \<^verbatim>\<open>src/unnamed/part_000\<close> every tick subtracts the
  double \<^verbatim>\<open>0.1\<close>. When the countdown is then not positive, the state becomes
  \<open>LEVEL_TRANSITION\<close> and the level-up callback is registered for 4000 ms (part_000:
  3000 ms) later. When that callback runs, the level is incremented by exactly 1, the
  countdown is the level duration, the base interval is \<open>max 50 (base - 15)\<close> (part_000:
  \<open>max 80 (200 - 20 * level)\<close> for the old level), the tick interval equals it, and the state
  is \<open>PLAYING\<close>.
\<close>

theorem countdown_and_level_up:
  assumes "s = determineDirection s0" and "snake s = h # rest"
    and "nh = nextHeadOf h (direction s)"
  shows "(gameState s0 = PLAYING \<and> of_int (currentInterval now s0) < double_sub time (lastMoveTime s0) \<longrightarrow>
            animate time now s0 =
              (case updateGameLogic now s0 of Inl e \<Rightarrow> Inl e
               | Inr s' \<Rightarrow> Inr (s'\<lparr>lastMoveTime := time\<rparr>)) \<and>
            animate_p0 time now s0 =
              (case updateGameLogic_p0 now s0 of Inl e \<Rightarrow> Inl e
               | Inr s' \<Rightarrow> Inr (s'\<lparr>lastMoveTime := time\<rparr>))) \<and>
         (gameState s0 \<noteq> PLAYING \<or> double_sub time (lastMoveTime s0) \<le> of_int (currentInterval now s0) \<longrightarrow>
            animate time now s0 = Inr s0 \<and> animate_p0 time now s0 = Inr s0) \<and>
         (\<not> hitWall nh \<and> (nh \<notin> set rest \<or> now \<le> ghostModeEndTime s) \<longrightarrow>
            (\<exists>s'. updateGameLogic now s0 = Inr s' \<and>
               timeLeft s' = double_sub (timeLeft s0) (double_div (of_int (moveInterval s')) 1000) \<and>
               moveInterval s' = (if findIndex (atCell nh) (foods s) = - 1 then moveInterval s0
                                  else max 50 (moveInterval s0 - 2)) \<and>
               gameState s' = (if timeLeft s' \<le> 0 then LEVEL_TRANSITION else gameState s0) \<and>
               timeouts s' = (if timeLeft s' \<le> 0
                              then timeouts s0
                                   @ map (\<lambda>i. (now + int i * 300, SpawnFirework)) [0..<15]
                                   @ [(now + 4000, AdvanceLevel)]
                              else timeouts s0))) \<and>
         (hitWall nh \<or> (nh \<in> set rest \<and> ghostModeEndTime s < now) \<longrightarrow>
            (\<exists>s'. updateGameLogic now s0 = Inr s' \<and> timeLeft s' = timeLeft s0 \<and>
               gameState s' = GAME_OVER)) \<and>
         (\<exists>s'. updateGameLogic_p0 now s0 = Inr s' \<and>
            timeLeft s' = timerLogic_p0 (timeLeft s0) \<and>
            (timeLeft s' \<le> 0 \<longrightarrow>
               gameState s' = LEVEL_TRANSITION \<and>
               timeouts s' = timeouts s0 @ map (\<lambda>i. (now + int i * 300, SpawnFirework)) [0..<5]
                               @ [(now + 3000, AdvanceLevel)]) \<and>
            (0 < timeLeft s' \<longrightarrow>
               (gameState s' = gameState s0 \<or> gameState s' = GAME_OVER) \<and>
               timeouts s' = timeouts s0)) \<and>
         (level (nextLevel_callback sc) = level sc + 1 \<and>
          timeLeft (nextLevel_callback sc) = LEVEL_DURATION \<and>
          baseLevelSpeed (nextLevel_callback sc) = max 50 (baseLevelSpeed sc - 15) \<and>
          moveInterval (nextLevel_callback sc) = max 50 (baseLevelSpeed sc - 15) \<and>
          gameState (nextLevel_callback sc) = PLAYING) \<and>
         (level (finishLevel_callback_p0 sc) = level sc + 1 \<and>
          timeLeft (finishLevel_callback_p0 sc) = LEVEL_DURATION \<and>
          baseLevelSpeed (finishLevel_callback_p0 sc) = max 80 (200 - level sc * 20) \<and>
          moveInterval (finishLevel_callback_p0 sc) = max 80 (200 - level sc * 20) \<and>
          gameState (finishLevel_callback_p0 sc) = PLAYING)"
proof -
  have g1: "gameState s0 = PLAYING \<and> of_int (currentInterval now s0) < double_sub time (lastMoveTime s0) \<longrightarrow>
            animate time now s0 =
              (case updateGameLogic now s0 of Inl e \<Rightarrow> Inl e
               | Inr s' \<Rightarrow> Inr (s'\<lparr>lastMoveTime := time\<rparr>)) \<and>
            animate_p0 time now s0 =
              (case updateGameLogic_p0 now s0 of Inl e \<Rightarrow> Inl e
               | Inr s' \<Rightarrow> Inr (s'\<lparr>lastMoveTime := time\<rparr>))"
    by (simp add: animate_def animate_p0_def Let_def)
  have g2: "gameState s0 \<noteq> PLAYING \<or> double_sub time (lastMoveTime s0) \<le> of_int (currentInterval now s0) \<longrightarrow>
            animate time now s0 = Inr s0 \<and> animate_p0 time now s0 = Inr s0"
    by (auto simp: animate_def animate_p0_def Let_def)
  have t1: "\<not> hitWall nh \<and> (nh \<notin> set rest \<or> now \<le> ghostModeEndTime s) \<longrightarrow>
            (\<exists>s'. updateGameLogic now s0 = Inr s' \<and>
               timeLeft s' = double_sub (timeLeft s0) (double_div (of_int (moveInterval s')) 1000) \<and>
               moveInterval s' = (if findIndex (atCell nh) (foods s) = - 1 then moveInterval s0
                                  else max 50 (moveInterval s0 - 2)) \<and>
               gameState s' = (if timeLeft s' \<le> 0 then LEVEL_TRANSITION else gameState s0) \<and>
               timeouts s' = (if timeLeft s' \<le> 0
                              then timeouts s0
                                   @ map (\<lambda>i. (now + int i * 300, SpawnFirework)) [0..<15]
                                   @ [(now + 4000, AdvanceLevel)]
                              else timeouts s0))"
    using tick_timer [OF assms, of now] by blast
  have t2: "hitWall nh \<or> (nh \<in> set rest \<and> ghostModeEndTime s < now) \<longrightarrow>
            (\<exists>s'. updateGameLogic now s0 = Inr s' \<and> timeLeft s' = timeLeft s0 \<and>
               gameState s' = GAME_OVER)"
    using updateGameLogic_crash [OF assms, of now]
      determineDirection_fields [of s0, folded assms(1)] by auto
  note t3 = tick_timer_p0 [OF assms(1,2), of now]
  have c1: "level (nextLevel_callback sc) = level sc + 1 \<and>
          timeLeft (nextLevel_callback sc) = LEVEL_DURATION \<and>
          baseLevelSpeed (nextLevel_callback sc) = max 50 (baseLevelSpeed sc - 15) \<and>
          moveInterval (nextLevel_callback sc) = max 50 (baseLevelSpeed sc - 15) \<and>
          gameState (nextLevel_callback sc) = PLAYING"
    using nextLevel_callback_fields [of sc] by blast
  have c2: "level (finishLevel_callback_p0 sc) = level sc + 1 \<and>
          timeLeft (finishLevel_callback_p0 sc) = LEVEL_DURATION \<and>
          baseLevelSpeed (finishLevel_callback_p0 sc) = max 80 (200 - level sc * 20) \<and>
          moveInterval (finishLevel_callback_p0 sc) = max 80 (200 - level sc * 20) \<and>
          gameState (finishLevel_callback_p0 sc) = PLAYING"
    using finishLevel_callback_p0_fields [of sc] by blast
  show ?thesis
    by (rule conjI [OF g1 conjI [OF g2 conjI [OF t1 conjI [OF t2 conjI [OF t3 conjI [OF c1 c2]]]]]])
qed

text \<open>
  Claim C7 as stated fails: in \<^verbatim>\<open>src/index.tsx\<close>, with the boost active the tick is gated
  by the effective interval of 60 ms, and the countdown drops by the tick interval of
  200 ms, from 25 to the double \<open>25 - 0.2\<close>, not to the double \<open>25 - 0.06\<close>.
\<close>

theorem boosted_tick_countdown:
  "gameState boosted = PLAYING \<and> currentInterval 5000 boosted = 60 \<and> timeLeft boosted = 25 \<and>
   animate 61 5000 boosted =
     Inr (boosted\<lparr>snake := [Pos 0 1, Pos 0 2, Pos 0 3],
                  timeLeft := double_sub 25 (double_div 200 1000), lastMoveTime := 61\<rparr>) \<and>
   double_sub 25 (double_div 200 1000) \<noteq> double_sub 25 (double_div 60 1000)"
  by (simp add: animate_def currentInterval_def updateGameLogic_def boosted_def sample_defs
      hitSelf_def foodCollision_def powerUpCollision_def updateTimer_def Let_def
      double_defs)

text \<open>In \<^verbatim>\<open>src/unnamed/part_000\<close> the tick gated by the interval of 200 ms takes 0.1 s off
  the countdown.\<close>

lemma tick_countdown_p0:
  "currentInterval 5000 playState = 200 \<and>
   animate_p0 201 5000 playState =
     Inr (playState\<lparr>snake := [Pos 0 1, Pos 0 2, Pos 0 3], timeLeft := timerLogic_p0 25,
                    lastMoveTime := 201\<rparr>)"
  by (simp add: animate_p0_def currentInterval_def updateGameLogic_p0_def sample_defs
      hitSelf_p0_def eatFood_p0_def eatPowerUp_p0_def Let_def timerLogic_p0_def double_defs)

text \<open>The boosted tick is the tick of \<open>updateGameLogic\<close>; a paused game does not tick; the
  tick of \<open>playState\<close> leaves the double \<open>25 - 0.2\<close> (\<open>25 - 0.1\<close> in part_000); the tick of
  \<open>nearlyDone\<close> starts the transition and registers the level-up; the crashing tick of
  \<open>coiled5\<close> leaves the countdown at 25 s.\<close>

theorem countdown_and_level_up_witness:
  "animate 61 5000 boosted =
     (case updateGameLogic 5000 boosted of Inl e \<Rightarrow> Inl e
      | Inr s' \<Rightarrow> Inr (s'\<lparr>lastMoveTime := 61\<rparr>)) \<and>
   animate 61 5000 (playState\<lparr>gameState := PAUSED\<rparr>) = Inr (playState\<lparr>gameState := PAUSED\<rparr>) \<and>
   (\<exists>s'. updateGameLogic 5000 playState = Inr s' \<and>
         timeLeft s' = double_sub 25 (double_div 200 1000) \<and> gameState s' = PLAYING) \<and>
   (\<exists>s'. updateGameLogic 5000 nearlyDone = Inr s' \<and>
         timeLeft s' = double_sub (1 / 16) (double_div 200 1000) \<and>
         gameState s' = LEVEL_TRANSITION \<and> (9000, AdvanceLevel) \<in> set (timeouts s')) \<and>
   (\<exists>s'. updateGameLogic 5000 coiled5 = Inr s' \<and> timeLeft s' = 25 \<and> gameState s' = GAME_OVER) \<and>
   (\<exists>s'. updateGameLogic_p0 5000 nearlyDone = Inr s' \<and> timeLeft s' = timerLogic_p0 (1 / 16) \<and>
         gameState s' = LEVEL_TRANSITION \<and> (8000, AdvanceLevel) \<in> set (timeouts s')) \<and>
   (\<exists>s'. updateGameLogic_p0 5000 playState = Inr s' \<and> timeLeft s' = timerLogic_p0 25 \<and>
         timeouts s' = [])"
proof -
  let ?p = "playState\<lparr>gameState := PAUSED\<rparr>"
  have b1: "boosted = determineDirection boosted" by (simp add: boosted_def sample_defs)
  have b2: "snake boosted = Pos 0 2 # [Pos 0 3, Pos 0 4]" by (simp add: boosted_def sample_defs)
  have b3: "Pos 0 1 = nextHeadOf (Pos 0 2) (direction boosted)"
    by (simp add: boosted_def sample_defs)
  have bg: "gameState boosted = PLAYING \<and>
      of_int (currentInterval 5000 boosted) < double_sub 61 (lastMoveTime boosted)"
    by (simp add: boosted_def currentInterval_def sample_defs double_defs)
  have w1: "animate 61 5000 boosted =
     (case updateGameLogic 5000 boosted of Inl e \<Rightarrow> Inl e
      | Inr s' \<Rightarrow> Inr (s'\<lparr>lastMoveTime := 61\<rparr>))"
    using countdown_and_level_up [OF b1 b2 b3, of 5000 61] bg by blast
  have q1: "?p = determineDirection ?p" by (simp add: sample_defs)
  have q2: "snake ?p = Pos 0 2 # [Pos 0 3, Pos 0 4]" by (simp add: sample_defs)
  have q3: "Pos 0 1 = nextHeadOf (Pos 0 2) (direction ?p)" by (simp add: sample_defs)
  have qg: "gameState ?p \<noteq> PLAYING \<or> double_sub 61 (lastMoveTime ?p) \<le> of_int (currentInterval 5000 ?p)"
    by simp
  have w2: "animate 61 5000 ?p = Inr ?p"
    using countdown_and_level_up [OF q1 q2 q3, of 5000 61] qg by blast
  have k1: "playState = determineDirection playState" by (simp add: sample_defs)
  have k2: "snake playState = Pos 0 2 # [Pos 0 3, Pos 0 4]" by (simp add: sample_defs)
  have k3: "Pos 0 1 = nextHeadOf (Pos 0 2) (direction playState)" by (simp add: sample_defs)
  have k4: "findIndex (atCell (Pos 0 1)) (foods playState) = - 1" by (simp add: sample_defs)
  have ka: "\<not> hitWall (Pos 0 1) \<and>
      (Pos 0 1 \<notin> set [Pos 0 3, Pos 0 4] \<or> 5000 \<le> ghostModeEndTime playState)"
    by (simp add: sample_defs)
  have kv: "timeLeft playState = 25 \<and> moveInterval playState = 200 \<and>
      gameState playState = PLAYING \<and> timeouts playState = []"
    by (simp add: sample_defs)
  note tk = countdown_and_level_up [OF k1 k2 k3, of 5000]
  from tk ka obtain s1 where s1: "updateGameLogic 5000 playState = Inr s1"
    "timeLeft s1 = double_sub (timeLeft playState) (double_div (of_int (moveInterval s1)) 1000)"
    "moveInterval s1 = (if findIndex (atCell (Pos 0 1)) (foods playState) = - 1
                        then moveInterval playState else max 50 (moveInterval playState - 2))"
    "gameState s1 = (if timeLeft s1 \<le> 0 then LEVEL_TRANSITION else gameState playState)"
    by blast
  have v1: "0 < double_sub 25 (double_div 200 1000)" by (simp add: double_defs)
  have "timeLeft s1 = double_sub 25 (double_div 200 1000)" using s1(2,3) k4 kv by simp
  then have w3: "\<exists>s'. updateGameLogic 5000 playState = Inr s' \<and>
         timeLeft s' = double_sub 25 (double_div 200 1000) \<and> gameState s' = PLAYING"
    using s1(1,4) kv v1 by simp
  from tk obtain s2 where s2: "updateGameLogic_p0 5000 playState = Inr s2"
    "timeLeft s2 = timerLogic_p0 (timeLeft playState)"
    "0 < timeLeft s2 \<longrightarrow> timeouts s2 = timeouts playState"
    by blast
  have v2: "0 < timerLogic_p0 25" by (simp add: timerLogic_p0_def double_defs)
  have w7: "\<exists>s'. updateGameLogic_p0 5000 playState = Inr s' \<and> timeLeft s' = timerLogic_p0 25 \<and>
         timeouts s' = []"
    using s2 kv v2 by simp
  have n1: "nearlyDone = determineDirection nearlyDone" by (simp add: nearlyDone_def sample_defs)
  have n2: "snake nearlyDone = Pos 0 2 # [Pos 0 3, Pos 0 4]"
    by (simp add: nearlyDone_def sample_defs)
  have n3: "Pos 0 1 = nextHeadOf (Pos 0 2) (direction nearlyDone)"
    by (simp add: nearlyDone_def sample_defs)
  have n4: "findIndex (atCell (Pos 0 1)) (foods nearlyDone) = - 1"
    by (simp add: nearlyDone_def sample_defs)
  have na: "\<not> hitWall (Pos 0 1) \<and>
      (Pos 0 1 \<notin> set [Pos 0 3, Pos 0 4] \<or> 5000 \<le> ghostModeEndTime nearlyDone)"
    by (simp add: sample_defs)
  have nv: "timeLeft nearlyDone = 1 / 16 \<and> moveInterval nearlyDone = 200"
    by (simp add: nearlyDone_def sample_defs)
  note tn = countdown_and_level_up [OF n1 n2 n3, of 5000]
  from tn na obtain s3 where s3: "updateGameLogic 5000 nearlyDone = Inr s3"
    "timeLeft s3 = double_sub (timeLeft nearlyDone) (double_div (of_int (moveInterval s3)) 1000)"
    "moveInterval s3 = (if findIndex (atCell (Pos 0 1)) (foods nearlyDone) = - 1
                        then moveInterval nearlyDone else max 50 (moveInterval nearlyDone - 2))"
    "gameState s3 = (if timeLeft s3 \<le> 0 then LEVEL_TRANSITION else gameState nearlyDone)"
    "timeouts s3 = (if timeLeft s3 \<le> 0
                    then timeouts nearlyDone
                         @ map (\<lambda>i. (5000 + int i * 300, SpawnFirework)) [0..<15]
                         @ [(5000 + 4000, AdvanceLevel)]
                    else timeouts nearlyDone)"
    by blast
  have v3: "double_sub (1 / 16) (double_div 200 1000) \<le> 0" by (simp add: double_defs)
  have t3: "timeLeft s3 = double_sub (1 / 16) (double_div 200 1000)" using s3(2,3) n4 nv by simp
  have w4: "\<exists>s'. updateGameLogic 5000 nearlyDone = Inr s' \<and>
         timeLeft s' = double_sub (1 / 16) (double_div 200 1000) \<and>
         gameState s' = LEVEL_TRANSITION \<and> (9000, AdvanceLevel) \<in> set (timeouts s')"
    using s3(1,4,5) t3 v3 by simp
  from tn obtain s4 where s4: "updateGameLogic_p0 5000 nearlyDone = Inr s4"
    "timeLeft s4 = timerLogic_p0 (timeLeft nearlyDone)"
    "timeLeft s4 \<le> 0 \<longrightarrow> gameState s4 = LEVEL_TRANSITION \<and>
       timeouts s4 = timeouts nearlyDone @ map (\<lambda>i. (5000 + int i * 300, SpawnFirework)) [0..<5]
                       @ [(5000 + 3000, AdvanceLevel)]"
    by blast
  have v4: "timerLogic_p0 (1 / 16) \<le> 0" by (simp add: timerLogic_p0_def double_defs)
  have w6: "\<exists>s'. updateGameLogic_p0 5000 nearlyDone = Inr s' \<and> timeLeft s' = timerLogic_p0 (1 / 16) \<and>
         gameState s' = LEVEL_TRANSITION \<and> (8000, AdvanceLevel) \<in> set (timeouts s')"
    using s4 nv v4 by simp
  have c2: "snake (determineDirection coiled5) = Pos 0 0 # [Pos 1 0, Pos 1 1, Pos 0 1, Pos (- 1) 1]"
    by (simp add: coiled5_def sample_defs)
  have c3: "Pos 0 1 = nextHeadOf (Pos 0 0) (direction (determineDirection coiled5))"
    by (simp add: coiled5_def sample_defs)
  have ca: "hitWall (Pos 0 1) \<or> (Pos 0 1 \<in> set [Pos 1 0, Pos 1 1, Pos 0 1, Pos (- 1) 1] \<and>
      ghostModeEndTime (determineDirection coiled5) < 5000)"
    by (simp add: coiled5_def sample_defs)
  have cv: "timeLeft coiled5 = 25" by (simp add: coiled5_def sample_defs)
  have w5: "\<exists>s'. updateGameLogic 5000 coiled5 = Inr s' \<and> timeLeft s' = 25 \<and>
         gameState s' = GAME_OVER"
    using countdown_and_level_up [OF refl c2 c3, of 5000] ca unfolding cv by blast
  show ?thesis using w1 w2 w3 w4 w5 w6 w7 by blast
qed

subsection \<open>Retrying a level\<close>

text \<open>
  Claim C6, as amended. \<open>retryLevel\<close> restores the score to the level-start snapshot,
  resets the snake (to its three start cells in \<^verbatim>\<open>src/index.tsx\<close>, to the single cell
  \<open>(0, 0)\<close> in \<^verbatim>\<open>src/unnamed/part_000\<close>), the direction, the input queue and the countdown,
  keeps the level number and the base interval, sets the tick interval to the base
  interval, refills the foods to \<open>level * 5\<close> and sets the state to \<open>PLAYING\<close>. It leaves
  the expiry timestamps of the speed boost and of the invulnerability as they were, so
  a status that was running at the crash keeps running: the effective interval after the
  retry is 60 ms while the old boost lasts and the base interval afterwards.
\<close>

theorem retryLevel_restores:
  "(score (retryLevel s) = levelStartScore s \<and>
    snake (retryLevel s) = [Pos 0 2, Pos 0 3, Pos 0 4] \<and>
    direction (retryLevel s) = Pos 0 (- 1) \<and> moveQueue (retryLevel s) = [] \<and>
    timeLeft (retryLevel s) = LEVEL_DURATION \<and>
    level (retryLevel s) = level s \<and>
    baseLevelSpeed (retryLevel s) = baseLevelSpeed s \<and>
    moveInterval (retryLevel s) = baseLevelSpeed s \<and>
    gameState (retryLevel s) = PLAYING \<and>
    int (length (foods (retryLevel s))) = max 0 (level s * 5) \<and>
    ghostModeEndTime (retryLevel s) = ghostModeEndTime s \<and>
    speedBoostEndTime (retryLevel s) = speedBoostEndTime s \<and>
    currentInterval now (retryLevel s) =
      (if now < speedBoostEndTime s then 60 else baseLevelSpeed s)) \<and>
   (score (retryLevel_p0 s) = levelStartScore s \<and>
    snake (retryLevel_p0 s) = [Pos 0 0] \<and>
    direction (retryLevel_p0 s) = Pos 0 (- 1) \<and> moveQueue (retryLevel_p0 s) = [] \<and>
    timeLeft (retryLevel_p0 s) = LEVEL_DURATION \<and>
    level (retryLevel_p0 s) = level s \<and>
    baseLevelSpeed (retryLevel_p0 s) = baseLevelSpeed s \<and>
    moveInterval (retryLevel_p0 s) = baseLevelSpeed s \<and>
    gameState (retryLevel_p0 s) = PLAYING \<and>
    int (length (foods (retryLevel_p0 s))) = max 0 (level s * 5) \<and>
    ghostModeEndTime (retryLevel_p0 s) = ghostModeEndTime s \<and>
    speedBoostEndTime (retryLevel_p0 s) = speedBoostEndTime s \<and>
    currentInterval now (retryLevel_p0 s) =
      (if now < speedBoostEndTime s then 60 else baseLevelSpeed s))"
proof (rule conjI)
  from retryLevel_frame [of s] obtain new pu g where
    r: "retryLevel s =
       s\<lparr>score := levelStartScore s, timeLeft := LEVEL_DURATION,
         moveInterval := baseLevelSpeed s, gameState := PLAYING,
         direction := Pos 0 (- 1), moveQueue := [],
         snake := [Pos 0 2, Pos 0 3, Pos 0 4], foods := new, powerUp := pu, rand := g\<rparr>"
    and c: "int (length new) = max 0 (level s * 5)"
    by blast
  show "score (retryLevel s) = levelStartScore s \<and>
    snake (retryLevel s) = [Pos 0 2, Pos 0 3, Pos 0 4] \<and>
    direction (retryLevel s) = Pos 0 (- 1) \<and> moveQueue (retryLevel s) = [] \<and>
    timeLeft (retryLevel s) = LEVEL_DURATION \<and>
    level (retryLevel s) = level s \<and>
    baseLevelSpeed (retryLevel s) = baseLevelSpeed s \<and>
    moveInterval (retryLevel s) = baseLevelSpeed s \<and>
    gameState (retryLevel s) = PLAYING \<and>
    int (length (foods (retryLevel s))) = max 0 (level s * 5) \<and>
    ghostModeEndTime (retryLevel s) = ghostModeEndTime s \<and>
    speedBoostEndTime (retryLevel s) = speedBoostEndTime s \<and>
    currentInterval now (retryLevel s) =
      (if now < speedBoostEndTime s then 60 else baseLevelSpeed s)"
    unfolding r using c by (simp add: currentInterval_def)
next
  from retryLevel_p0_frame [of s] obtain new g where
    r: "retryLevel_p0 s =
       s\<lparr>gameState := PLAYING, score := levelStartScore s,
         snake := [Pos 0 0], direction := Pos 0 (- 1), moveQueue := [],
         timeLeft := LEVEL_DURATION, moveInterval := baseLevelSpeed s,
         foods := new, rand := g\<rparr>"
    and c: "length new = nat (level s * 5)"
    by blast
  show "score (retryLevel_p0 s) = levelStartScore s \<and>
    snake (retryLevel_p0 s) = [Pos 0 0] \<and>
    direction (retryLevel_p0 s) = Pos 0 (- 1) \<and> moveQueue (retryLevel_p0 s) = [] \<and>
    timeLeft (retryLevel_p0 s) = LEVEL_DURATION \<and>
    level (retryLevel_p0 s) = level s \<and>
    baseLevelSpeed (retryLevel_p0 s) = baseLevelSpeed s \<and>
    moveInterval (retryLevel_p0 s) = baseLevelSpeed s \<and>
    gameState (retryLevel_p0 s) = PLAYING \<and>
    int (length (foods (retryLevel_p0 s))) = max 0 (level s * 5) \<and>
    ghostModeEndTime (retryLevel_p0 s) = ghostModeEndTime s \<and>
    speedBoostEndTime (retryLevel_p0 s) = speedBoostEndTime s \<and>
    currentInterval now (retryLevel_p0 s) =
      (if now < speedBoostEndTime s then 60 else baseLevelSpeed s)"
    unfolding r using c by (simp add: currentInterval_def)
qed

text \<open>
  Claim C6 as stated fails: after \<open>retryLevel\<close> at the clock reading 5000 the boost and the
  invulnerability of the lost run are still active, in both files: the effective interval
  is 60 ms although the base interval is 200 ms, and the invulnerability lasts until
  12000.
\<close>

theorem retry_keeps_boost_and_invulnerability:
  "gameState crashedBoosted = GAME_OVER \<and> baseLevelSpeed crashedBoosted = 200 \<and>
   moveInterval (retryLevel crashedBoosted) = 200 \<and>
   currentInterval 5000 (retryLevel crashedBoosted) = 60 \<and>
   5000 < ghostModeEndTime (retryLevel crashedBoosted) \<and>
   currentInterval 5000 (retryLevel_p0 crashedBoosted) = 60 \<and>
   5000 < ghostModeEndTime (retryLevel_p0 crashedBoosted)"
proof -
  from retryLevel_frame [of crashedBoosted] obtain new pu g where
    r: "retryLevel crashedBoosted =
       crashedBoosted\<lparr>score := levelStartScore crashedBoosted, timeLeft := LEVEL_DURATION,
         moveInterval := baseLevelSpeed crashedBoosted, gameState := PLAYING,
         direction := Pos 0 (- 1), moveQueue := [],
         snake := [Pos 0 2, Pos 0 3, Pos 0 4], foods := new, powerUp := pu, rand := g\<rparr>"
    by blast
  from retryLevel_p0_frame [of crashedBoosted] obtain new' g' where
    r': "retryLevel_p0 crashedBoosted =
       crashedBoosted\<lparr>gameState := PLAYING, score := levelStartScore crashedBoosted,
         snake := [Pos 0 0], direction := Pos 0 (- 1), moveQueue := [],
         timeLeft := LEVEL_DURATION, moveInterval := baseLevelSpeed crashedBoosted,
         foods := new', rand := g'\<rparr>"
    by blast
  show ?thesis unfolding r r' by (simp add: currentInterval_def crashedBoosted_def sample_defs)
qed

subsection \<open>Scheduled callbacks\<close>

lemma startGame_fields:
  "gameState (startGame s) = PLAYING \<and> level (startGame s) = 1 \<and> score (startGame s) = 0 \<and>
   timeouts (startGame s) = timeouts s"
proof -
  from resetGame_frame [of True s] obtain new pu g where
    "resetGame True s =
       s\<lparr>score := 0, level := 1, timeLeft := LEVEL_DURATION, moveInterval := 200,
         baseLevelSpeed := 200, levelStartScore := 0, ghostModeEndTime := 0,
         speedBoostEndTime := 0\<rparr>
       \<lparr>gameState := PLAYING, direction := Pos 0 (- 1), moveQueue := [],
        snake := [Pos 0 2, Pos 0 3, Pos 0 4], foods := new, powerUp := pu, rand := g\<rparr>"
    by auto
  then show ?thesis by (simp add: startGame_def)
qed

lemma startGame_p0_fields:
  "gameState (startGame_p0 s) = PLAYING \<and> level (startGame_p0 s) = 1 \<and>
   score (startGame_p0 s) = 0 \<and> timeouts (startGame_p0 s) = timeouts s"
proof -
  from resetGame_p0_frame [of 1 "s\<lparr>gameState := PLAYING\<rparr>"] obtain new g where
    "resetGame_p0 1 (s\<lparr>gameState := PLAYING\<rparr>) =
       (s\<lparr>gameState := PLAYING\<rparr>)
        \<lparr>level := 1, score := (if (1::int) = 1 then 0 else score (s\<lparr>gameState := PLAYING\<rparr>)),
         levelStartScore := (if (1::int) = 1 then 0 else score (s\<lparr>gameState := PLAYING\<rparr>)),
         snake := [Pos 0 0], direction := Pos 0 (- 1), moveQueue := [],
         timeLeft := LEVEL_DURATION, baseLevelSpeed := max 80 (200 - (1 - 1) * 20),
         moveInterval := max 80 (200 - (1 - 1) * 20),
         ghostModeEndTime := 0, speedBoostEndTime := 0, dogPulseEndTime := 0,
         foods := new, rand := g\<rparr>"
    by blast
  then show ?thesis by (simp add: startGame_p0_def)
qed

text \<open>
  Claim C9, as amended. No scheduled callback of either file looks at the game state
  before acting, and nothing cancels a registered callback: when the deferred level-up
  callback runs, in whatever state the game then is, it increments the level by 1 and
  sets the state to \<open>PLAYING\<close>; the firework callbacks leave the simulation state alone;
  starting a new game and toggling the pause leave the registered callbacks registered.
\<close>

theorem callbacks_do_not_check_state:
  "(level (runTimeout AdvanceLevel s) = level s + 1 \<and>
    gameState (runTimeout AdvanceLevel s) = PLAYING \<and>
    runTimeout SpawnFirework s = s \<and>
    timeouts (runTimeout AdvanceLevel s) = timeouts s \<and>
    timeouts (startGame s) = timeouts s \<and> timeouts (togglePause s) = timeouts s \<and>
    timeouts (handleKeyDown e s) = timeouts s) \<and>
   (level (runTimeout_p0 AdvanceLevel s) = level s + 1 \<and>
    gameState (runTimeout_p0 AdvanceLevel s) = PLAYING \<and>
    runTimeout_p0 SpawnFirework s = s \<and>
    timeouts (runTimeout_p0 AdvanceLevel s) = timeouts s \<and>
    timeouts (startGame_p0 s) = timeouts s)"
proof -
  have tp: "timeouts (togglePause s) = timeouts s" by (simp add: togglePause_def)
  have eq: "timeouts (enqueueDirection d s) = timeouts s" for d
    by (simp add: enqueueDirection_def Let_def)
  have hk: "timeouts (handleKeyDown e s) = timeouts s"
    using startGame_fields [of s] tp eq
    by (simp add: handleKeyDown_def split: option.splits)
  show ?thesis
    using nextLevel_callback_fields [of s] finishLevel_callback_p0_fields [of s]
      startGame_fields [of s] startGame_p0_fields [of s] tp hk
    by (simp add: runTimeout_def runTimeout_p0_def)
qed

text \<open>
  Claim C9 as stated fails: the countdown of \<open>nearlyDone\<close> runs out at the clock reading
  5000, which registers the level-up for 9000; the player presses F2 during the
  transition, which starts a new game at level 1 in state \<open>PLAYING\<close>; the callback is
  still registered, and when it runs it puts that new game on level 2.
\<close>

theorem stale_callback_advances_level:
  "gameState (projr (updateGameLogic 5000 nearlyDone)) = LEVEL_TRANSITION \<and>
   gameState (handleKeyDown (KeyboardEvent ''F2'' ''F2'') (projr (updateGameLogic 5000 nearlyDone)))
     = PLAYING \<and>
   level (handleKeyDown (KeyboardEvent ''F2'' ''F2'') (projr (updateGameLogic 5000 nearlyDone)))
     = 1 \<and>
   (9000, AdvanceLevel) \<in>
     set (timeouts (handleKeyDown (KeyboardEvent ''F2'' ''F2'')
                      (projr (updateGameLogic 5000 nearlyDone)))) \<and>
   level (runTimeout AdvanceLevel
            (handleKeyDown (KeyboardEvent ''F2'' ''F2'') (projr (updateGameLogic 5000 nearlyDone))))
     = 2 \<and>
   gameState (runTimeout AdvanceLevel
            (handleKeyDown (KeyboardEvent ''F2'' ''F2'') (projr (updateGameLogic 5000 nearlyDone))))
     = PLAYING"
proof -
  define s1 where "s1 = projr (updateGameLogic 5000 nearlyDone)"
  have u: "updateGameLogic 5000 nearlyDone =
      Inr (nextLevel 5000 (nearlyDone\<lparr>snake := [Pos 0 1, Pos 0 2, Pos 0 3],
                                      timeLeft := double_sub (1 / 16) (double_div 200 1000)\<rparr>))"
    by (simp add: updateGameLogic_def nearlyDone_def sample_defs hitSelf_def foodCollision_def
        powerUpCollision_def updateTimer_def Let_def double_defs)
  have s1: "gameState s1 = LEVEL_TRANSITION" "(9000, AdvanceLevel) \<in> set (timeouts s1)"
    unfolding s1_def u by (simp_all add: nextLevel_def)
  define s2 where "s2 = handleKeyDown (KeyboardEvent ''F2'' ''F2'') s1"
  have k: "s2 = startGame s1" by (simp add: s2_def handleKeyDown_def)
  have s2: "gameState s2 = PLAYING" "level s2 = 1" "timeouts s2 = timeouts s1"
    unfolding k using startGame_fields [of s1] by simp_all
  have s3: "level (runTimeout AdvanceLevel s2) = 2" "gameState (runTimeout AdvanceLevel s2) = PLAYING"
    using nextLevel_callback_fields [of s2] s2 by (simp_all add: runTimeout_def)
  show ?thesis using s1 s2 s3 unfolding s2_def s1_def by simp
qed

subsection \<open>The input queue\<close>

lemma noReversal_snoc:
  "noReversal d (q @ [y]) \<longleftrightarrow>
     noReversal d q \<and> (px y \<noteq> - px (if q = [] then d else last q) \<or>
                        pz y \<noteq> - pz (if q = [] then d else last q))"
  by (induction q arbitrary: d) auto

text \<open>The key handler keeps both parts of the queue invariant; the queue never exceeds
  three entries and a reversal of the reference direction is never enqueued.\<close>

lemma enqueueDirection_invariant:
  assumes "length (moveQueue s) \<le> 3" and "noReversal (direction s) (moveQueue s)"
  shows "length (moveQueue (enqueueDirection d s)) \<le> 3 \<and>
         noReversal (direction (enqueueDirection d s)) (moveQueue (enqueueDirection d s))"
  using assms by (auto simp: enqueueDirection_def Let_def noReversal_snoc)

lemma enqueueDirection_reversal:
  assumes "lastMove = (if length (moveQueue s) > 0 then last (moveQueue s) else direction s)"
    and "px d = - px lastMove" and "pz d = - pz lastMove"
  shows "enqueueDirection d s = s"
  using assms by (simp add: enqueueDirection_def Let_def)

lemma startGame_queue: "moveQueue (startGame s) = [] \<and> direction (startGame s) = Pos 0 (- 1)"
proof -
  from resetGame_frame [of True s] obtain new pu g where
    "resetGame True s =
       s\<lparr>score := 0, level := 1, timeLeft := LEVEL_DURATION, moveInterval := 200,
         baseLevelSpeed := 200, levelStartScore := 0, ghostModeEndTime := 0,
         speedBoostEndTime := 0\<rparr>
       \<lparr>gameState := PLAYING, direction := Pos 0 (- 1), moveQueue := [],
        snake := [Pos 0 2, Pos 0 3, Pos 0 4], foods := new, powerUp := pu, rand := g\<rparr>"
    by auto
  then show ?thesis by (simp add: startGame_def)
qed

lemma handleKeyDown_invariant:
  assumes "length (moveQueue s) \<le> 3" and "noReversal (direction s) (moveQueue s)"
  shows "length (moveQueue (handleKeyDown e s)) \<le> 3 \<and>
         noReversal (direction (handleKeyDown e s)) (moveQueue (handleKeyDown e s))"
proof -
  have tp: "moveQueue (togglePause s) = moveQueue s \<and> direction (togglePause s) = direction s"
    by (simp add: togglePause_def)
  show ?thesis
    using assms tp startGame_queue [of s] enqueueDirection_invariant [OF assms]
    by (simp add: handleKeyDown_def split: option.splits)
qed

lemma determineDirection_invariant:
  assumes "length (moveQueue s) \<le> 3" and "noReversal (direction s) (moveQueue s)"
  shows "length (moveQueue (determineDirection s)) \<le> 3 \<and>
         noReversal (direction (determineDirection s)) (moveQueue (determineDirection s))"
  using assms by (cases "moveQueue s") (auto simp: determineDirection_def)

text \<open>
  Claim C4 at the inputs where \<^verbatim>\<open>src/index.tsx\<close> departs from it. The snake of
  \<open>playState\<close> heads up, \<open>(0, -1)\<close>, with an empty queue. The down key is rejected, but the
  down button of the touch overlay enqueues \<open>(0, 1)\<close>, the exact negation, and the next
  tick turns the head back onto the second segment and ends the run; four presses of the
  touch buttons leave four entries in the queue.
\<close>

theorem touch_buttons_bypass_validation:
  "gameState playState = PLAYING \<and> direction playState = Pos 0 (- 1) \<and>
   moveQueue playState = [] \<and>
   handleKeyDown (KeyboardEvent ''ArrowDown'' ''ArrowDown'') playState = playState \<and>
   moveQueue (onPointerDown ChevronDown playState) = [Pos 0 1] \<and>
   updateGameLogic 5000 (onPointerDown ChevronDown playState) =
     Inr (playState\<lparr>direction := Pos 0 1, gameState := GAME_OVER\<rparr>) \<and>
   length (moveQueue (onPointerDown ChevronUp (onPointerDown ChevronLeft
             (onPointerDown ChevronUp (onPointerDown ChevronLeft playState))))) = 4"
  by (simp add: handleKeyDown_def toLowerCase_def keyDirection_def enqueueDirection_def
      onPointerDown_def touchDirection_def updateGameLogic_def sample_defs hitSelf_def Let_def)

subsection \<open>Loading the leaderboard\<close>

lemma JSON_parse_storedScores:
  "JSON_parse storedScores =
     Inr (JArray [JObject [(''name'', JString ''AB''), (''score'', JNumber ''100'')]])"
  by (simp add: storedScores_def json_defs)

lemma JSON_parse_malformed: "JSON_parse ''not json'' = Inl SyntaxError"
  by (simp add: json_defs)

text \<open>
  Claim C8, as amended. An absent stored value, and the empty string, leave the
  leaderboard the empty list and the start-up proceeds. A stored text that \<^verbatim>\<open>JSON.parse\<close>
  accepts becomes the leaderboard as it is. A stored text that \<^verbatim>\<open>JSON.parse\<close> rejects makes
  the initialization throw that error: nothing catches it, and the start-up does not
  proceed.
\<close>

theorem leaderboard_load:
  "initialization None = Inr (JArray []) \<and>
   initialization (Some []) = Inr (JArray []) \<and>
   (str \<noteq> [] \<and> JSON_parse str = Inr v \<longrightarrow> initialization (Some str) = Inr v) \<and>
   (str \<noteq> [] \<and> JSON_parse str = Inl e \<longrightarrow> initialization (Some str) = Inl e)"
  by (simp add: initialization_def)

theorem leaderboard_load_witness:
  "initialization (Some storedScores) =
     Inr (JArray [JObject [(''name'', JString ''AB''), (''score'', JNumber ''100'')]]) \<and>
   initialization (Some ''{'') = Inl SyntaxError"
proof -
  have a: "storedScores \<noteq> [] \<and> JSON_parse storedScores =
     Inr (JArray [JObject [(''name'', JString ''AB''), (''score'', JNumber ''100'')]])"
    using JSON_parse_storedScores by (simp add: storedScores_def)
  have b: "''{'' \<noteq> [] \<and> JSON_parse ''{'' = Inl SyntaxError"
    by (simp add: json_defs)
  from leaderboard_load [of storedScores
      "JArray [JObject [(''name'', JString ''AB''), (''score'', JNumber ''100'')]]"] a
  have w1: "initialization (Some storedScores) =
     Inr (JArray [JObject [(''name'', JString ''AB''), (''score'', JNumber ''100'')]])"
    by blast
  from leaderboard_load [of "''{''" _ SyntaxError] b
  have w2: "initialization (Some ''{'') = Inl SyntaxError" by blast
  show ?thesis using w1 w2 by blast
qed

text \<open>Claim C8 as stated fails: with the malformed text \<^verbatim>\<open>not json\<close> under the key, the
  initialization throws a \<^verbatim>\<open>SyntaxError\<close> instead of proceeding with an empty list.\<close>

theorem malformed_leaderboard_throws:
  "initialization (Some ''not json'') = Inl SyntaxError"
  by (simp add: initialization_def json_defs)

end
